theory Spec2Isabelle
  imports Main "HOL-Library.Sublist" "HOL-Library.Char_ord" "HOL-Library.List_Lexorder"
    "HOL-Library.AList"
begin

section \<open>JavaScript values and string primitives\<close>

text \<open>
  The three vendor clients (NinjaOne, ConnectWise RMM, HaloPSA) and their tool handlers
  are TypeScript. Values that arrive as JSON are modelled by \<open>jsval\<close>; an object is the
  list of its entries in the order \<open>Object.entries\<close> enumerates them. Numbers are
  integers here (counts, limits, seconds); times are milliseconds since the epoch.
  Strings are byte strings: \<open>toLowerCase\<close> maps the ASCII letters and leaves every other
  byte alone.
\<close>

datatype jsval =
    JUndefined
  | JNull
  | JBool bool
  | JNum int
  | JStr string
  | JArr "jsval list"
  | JObj "(string \<times> jsval) list"

datatype error = Error string | TypeError string

definition lower_char :: "char \<Rightarrow> char" where
  "lower_char c =
     (case map_of (zip ''ABCDEFGHIJKLMNOPQRSTUVWXYZ'' ''abcdefghijklmnopqrstuvwxyz'') c of
        None \<Rightarrow> c
      | Some d \<Rightarrow> d)"

definition toLowerCase :: "string \<Rightarrow> string" where
  "toLowerCase s = map lower_char s"

text \<open>\<open>String.prototype.includes\<close>: the needle occurs as a contiguous substring.\<close>

fun str_includes :: "string \<Rightarrow> string \<Rightarrow> bool" where
  "str_includes [] n = (n = [])"
| "str_includes (c # cs) n = (prefix n (c # cs) \<or> str_includes cs n)"

text \<open>The two quote characters, for building messages and SQL text.\<close>

definition dquote :: string where
  "dquote = [CHR 0x22]"

definition squote :: string where
  "squote = [CHR 0x27]"

text \<open>Decimal rendering of a number inside a template literal.\<close>

fun show_nat :: "nat \<Rightarrow> string" where
  "show_nat n =
     (if n < 10 then [''0123456789'' ! n]
      else show_nat (n div 10) @ [''0123456789'' ! (n mod 10)])"

declare show_nat.simps [simp del]

definition show_int :: "int \<Rightarrow> string" where
  "show_int i = (if i < 0 then ''-'' @ show_nat (nat (- i)) else show_nat (nat i))"

text \<open>An error interpolated into a template literal: its name, a colon, its message.\<close>

fun error_string :: "error \<Rightarrow> string" where
  "error_string (Error m) = ''Error: '' @ m"
| "error_string (TypeError m) = ''TypeError: '' @ m"

fun error_message :: "error \<Rightarrow> string" where
  "error_message (Error m) = m"
| "error_message (TypeError m) = m"

definition upper_char :: "char \<Rightarrow> char" where
  "upper_char c =
     (case map_of (zip ''abcdefghijklmnopqrstuvwxyz'' ''ABCDEFGHIJKLMNOPQRSTUVWXYZ'') c of
        None \<Rightarrow> c
      | Some d \<Rightarrow> d)"

definition toUpperCase :: "string \<Rightarrow> string" where
  "toUpperCase s = map upper_char s"

text \<open>Truthiness, as \<open>if (v)\<close>, \<open>v && ...\<close> and \<open>v || d\<close> test it.\<close>

fun js_truthy :: "jsval \<Rightarrow> bool" where
  "js_truthy JUndefined = False"
| "js_truthy JNull = False"
| "js_truthy (JBool b) = b"
| "js_truthy (JNum n) = (n \<noteq> 0)"
| "js_truthy (JStr s) = (s \<noteq> [])"
| "js_truthy (JArr xs) = True"
| "js_truthy (JObj es) = True"

text \<open>
  \<open>v?.key\<close> on a value that came from JSON: the member of an object, and \<open>undefined\<close> on
  everything else (the keys read here are not properties of strings, numbers or arrays).
\<close>

fun js_get :: "jsval \<Rightarrow> string \<Rightarrow> jsval" where
  "js_get (JObj es) k = (case map_of es k of None \<Rightarrow> JUndefined | Some v \<Rightarrow> v)"
| "js_get v k = JUndefined"

text \<open>\<open>v && typeof v === 'object'\<close>: objects and arrays, not \<open>null\<close>.\<close>

fun js_is_object :: "jsval \<Rightarrow> bool" where
  "js_is_object (JObj es) = True"
| "js_is_object (JArr xs) = True"
| "js_is_object v = False"

text \<open>
  \<open>Object.entries\<close> (and \<open>Object.keys\<close>) of a value that is not \<open>null\<close> or \<open>undefined\<close>:
  the members of an object, the indexed elements of an array, the indexed characters of
  a string, nothing for a number or a boolean.
\<close>

fun js_entries :: "jsval \<Rightarrow> (string \<times> jsval) list" where
  "js_entries (JObj es) = es"
| "js_entries (JArr xs) = zip (map show_nat [0..<length xs]) xs"
| "js_entries (JStr s) = zip (map show_nat [0..<length s]) (map (\<lambda>ch. JStr [ch]) s)"
| "js_entries v = []"

text \<open>\<open>Array.prototype.join\<close> on strings.\<close>

fun js_join :: "string \<Rightarrow> string list \<Rightarrow> string" where
  "js_join sep [] = []"
| "js_join sep [x] = x"
| "js_join sep (x # y # ys) = x @ sep @ js_join sep (y # ys)"

text \<open>
  Conversion to a string, as a template literal and \<open>String(v)\<close> do it. Inside an array
  that is being joined (the flag), \<open>null\<close> and \<open>undefined\<close> give the empty string.
\<close>

fun js_str :: "bool \<Rightarrow> jsval \<Rightarrow> string" where
  "js_str in_join JUndefined = (if in_join then [] else ''undefined'')"
| "js_str in_join JNull = (if in_join then [] else ''null'')"
| "js_str in_join (JBool b) = (if b then ''true'' else ''false'')"
| "js_str in_join (JNum n) = show_int n"
| "js_str in_join (JStr s) = s"
| "js_str in_join (JArr xs) = js_join '','' (map (js_str True) xs)"
| "js_str in_join (JObj es) = ''[object Object]''"

definition js_String :: "jsval \<Rightarrow> string" where
  "js_String v = js_str False v"

text \<open>
  Converting an object to a primitive calls its \<open>toString\<close>. A member of that name in
  an object that came from JSON is not a function: the conversion then finds nothing to
  call and throws a \<open>TypeError\<close>. The same holds for an array with such an object among
  its elements, since joining converts each element.
\<close>

fun js_convertible :: "jsval \<Rightarrow> bool" where
  "js_convertible (JObj es) = (''toString'' \<notin> set (map fst es))"
| "js_convertible (JArr xs) = (\<forall>x \<in> set xs. js_convertible x)"
| "js_convertible v = True"

definition js_ToString :: "jsval \<Rightarrow> error + string" where
  "js_ToString v =
     (if js_convertible v then Inr (js_String v)
      else Inl (TypeError ''Cannot convert object to primitive value''))"

text \<open>\<open>Array.prototype.join\<close> on values: each element is converted, then the strings joined.\<close>

definition js_array_join :: "string \<Rightarrow> jsval list \<Rightarrow> error + string" where
  "js_array_join sep xs =
     (if \<forall>x \<in> set xs. js_convertible x then Inr (js_join sep (map (js_str True) xs))
      else Inl (TypeError ''Cannot convert object to primitive value''))"

text \<open>Steps that may throw, in sequence: the first exception ends the computation.\<close>

definition and_then :: "error + 'a \<Rightarrow> ('a \<Rightarrow> error + 'b) \<Rightarrow> error + 'b" where
  "and_then r k = (case r of Inl e \<Rightarrow> Inl e | Inr v \<Rightarrow> k v)"

fun collect :: "(error + 'a) list \<Rightarrow> error + 'a list" where
  "collect [] = Inr []"
| "collect (r # rs) = and_then r (\<lambda>v. and_then (collect rs) (\<lambda>vs. Inr (v # vs)))"

text \<open>
  \<open>Array.prototype.slice(start, end)\<close>: a negative index counts from the end, and both
  are clamped to the array.
\<close>

definition js_slice :: "int \<Rightarrow> int \<Rightarrow> 'a list \<Rightarrow> 'a list" where
  "js_slice start fin xs =
     (let len = int (length xs);
          k = (if start < 0 then max (len + start) 0 else min start len);
          final = (if fin < 0 then max (len + fin) 0 else min fin len)
      in take (nat (final - k)) (drop (nat k) xs))"

text \<open>
  \<open>split(/\\s+/)\<close>: the pieces between maximal runs of (ASCII) white space. A leading or trailing
  run leaves an empty piece at that end, and the empty string splits into one empty
  piece. The scan keeps the pieces finished so far, the piece being read, and whether
  the last character was white space.
\<close>

definition is_space :: "char \<Rightarrow> bool" where
  "is_space c = (c \<in> set [CHR 0x20, CHR 0x09, CHR 0x0A, CHR 0x0B, CHR 0x0C, CHR 0x0D])"

fun split_scan :: "string \<Rightarrow> string list \<Rightarrow> string \<Rightarrow> bool \<Rightarrow> string list" where
  "split_scan [] pieces cur in_space = pieces @ [cur]"
| "split_scan (c # cs) pieces cur in_space =
     (if is_space c then
        (if in_space then split_scan cs pieces cur True
         else split_scan cs (pieces @ [cur]) [] True)
      else split_scan cs pieces (cur @ [c]) False)"

definition split_whitespace :: "string \<Rightarrow> string list" where
  "split_whitespace s = split_scan s [] [] False"

subsection \<open>Conversion to a number\<close>

text \<open>
  \<open>Number(v)\<close>, as far as a comparison with zero needs it: not a number, an infinity, or
  a decimal \<open>m * 10 ^ e\<close> with its sign (\<open>Decimal negative m e\<close>). A string is
  trimmed of white space and read by the grammar of numeric strings: empty is zero; \<open>0x\<close>,
  \<open>0o\<close>, \<open>0b\<close> start an unsigned hexadecimal, octal or binary integer; otherwise an
  optional sign, then \<open>Infinity\<close> or digits with an optional fraction and an optional
  exponent. Everything else is not a number.
\<close>

datatype number = NaN | Infinite bool | Decimal bool nat int

definition is_digit :: "char \<Rightarrow> bool" where
  "is_digit c = (c \<in> set ''0123456789'')"

definition digit_value :: "char \<Rightarrow> nat" where
  "digit_value c =
     (case map_of (zip ''0123456789abcdef'' [0..<16]) (lower_char c) of
        None \<Rightarrow> 0
      | Some d \<Rightarrow> d)"

definition radix_digits :: "nat \<Rightarrow> string \<Rightarrow> bool" where
  "radix_digits b s =
     (s \<noteq> [] \<and> (\<forall>c \<in> set s. lower_char c \<in> set (take b ''0123456789abcdef'')))"

definition radix_value :: "nat \<Rightarrow> string \<Rightarrow> nat" where
  "radix_value b s = foldl (\<lambda>acc c. acc * b + digit_value c) 0 s"

definition signed_integer :: "string \<Rightarrow> int option" where
  "signed_integer s =
     (case s of
        [] \<Rightarrow> None
      | c # cs \<Rightarrow>
          if c = CHR ''+'' then
            (if radix_digits 10 cs then Some (int (radix_value 10 cs)) else None)
          else if c = CHR ''-'' then
            (if radix_digits 10 cs then Some (- int (radix_value 10 cs)) else None)
          else (if radix_digits 10 s then Some (int (radix_value 10 s)) else None))"

definition exponent_part :: "string \<Rightarrow> int option" where
  "exponent_part s =
     (case s of
        [] \<Rightarrow> Some 0
      | c # cs \<Rightarrow> if c = CHR ''e'' \<or> c = CHR ''E'' then signed_integer cs else None)"

definition unsigned_decimal :: "bool \<Rightarrow> string \<Rightarrow> number" where
  "unsigned_decimal negative u =
     (if u = ''Infinity'' then Infinite negative
      else
        let whole = takeWhile is_digit u;
            rest = dropWhile is_digit u;
            dot = (rest \<noteq> [] \<and> hd rest = CHR ''.'');
            fraction = (if dot then takeWhile is_digit (tl rest) else []);
            tail = (if dot then dropWhile is_digit (tl rest) else rest)
        in if whole = [] \<and> fraction = [] then NaN
           else (case exponent_part tail of
                   None \<Rightarrow> NaN
                 | Some x \<Rightarrow>
                     Decimal negative (radix_value 10 (whole @ fraction))
                       (x - int (length fraction))))"

definition trim :: "string \<Rightarrow> string" where
  "trim s = rev (dropWhile is_space (rev (dropWhile is_space s)))"

definition radix_literal :: "nat \<Rightarrow> string \<Rightarrow> number" where
  "radix_literal b s = (if radix_digits b s then Decimal False (radix_value b s) 0 else NaN)"

definition string_to_number :: "string \<Rightarrow> number" where
  "string_to_number s =
     (let t = trim s in
      if t = [] then Decimal False 0 0
      else if take 2 t = ''0x'' \<or> take 2 t = ''0X'' then radix_literal 16 (drop 2 t)
      else if take 2 t = ''0o'' \<or> take 2 t = ''0O'' then radix_literal 8 (drop 2 t)
      else if take 2 t = ''0b'' \<or> take 2 t = ''0B'' then radix_literal 2 (drop 2 t)
      else if hd t = CHR ''+'' then unsigned_decimal False (tl t)
      else if hd t = CHR ''-'' then unsigned_decimal True (tl t)
      else unsigned_decimal False t)"

text \<open>
  \<open>undefined\<close> is not a number, \<open>null\<close> is zero, \<open>true\<close> is one; an array or an object is
  first converted to a string, which may throw.
\<close>

definition to_number :: "jsval \<Rightarrow> error + number" where
  "to_number v =
     (case v of
        JUndefined \<Rightarrow> Inr NaN
      | JNull \<Rightarrow> Inr (Decimal False 0 0)
      | JBool b \<Rightarrow> Inr (Decimal False (if b then 1 else 0) 0)
      | JNum n \<Rightarrow> Inr (Decimal (n < 0) (nat (abs n)) 0)
      | JStr s \<Rightarrow> Inr (string_to_number s)
      | _ \<Rightarrow> and_then (js_ToString v) (\<lambda>s. Inr (string_to_number s)))"

text \<open>
  \<open>x > 0\<close> on a number. The value is rounded to the nearest double before it is
  compared: a positive decimal of at most 2 to the power -1075, half the smallest double
  above zero, rounds to zero.
\<close>

definition number_gt_zero :: "number \<Rightarrow> bool" where
  "number_gt_zero x =
     (case x of
        NaN \<Rightarrow> False
      | Infinite negative \<Rightarrow> \<not> negative
      | Decimal negative m e \<Rightarrow>
          \<not> negative \<and> m > 0 \<and> (e \<ge> 0 \<or> int m * 2 ^ 1075 > 10 ^ nat (- e)))"

definition js_gt_zero :: "jsval \<Rightarrow> error + bool" where
  "js_gt_zero v = and_then (to_number v) (\<lambda>x. Inr (number_gt_zero x))"

text \<open>
  The outcome of \<open>fetch\<close>: the promise rejects (a network failure), or a response
  arrives. A response carries its status, its content type, its body text, and what
  parsing the body as JSON gives (\<open>None\<close> when the body is not JSON, so that
  \<open>response.json()\<close> rejects), typed as the code types it.
\<close>

record 'a response =
  resp_ok :: bool
  resp_status :: nat
  resp_statusText :: string
  resp_contentType :: "string option"
  resp_body :: string
  resp_json :: "'a option"

datatype 'a fetch_result = NetworkError error | Response "'a response"

text \<open>
  The API description as the NinjaOne and HaloPSA clients read it: \<open>info\<close>, \<open>servers\<close>,
  the entries of \<open>paths\<close> and of \<open>components.schemas\<close>; \<open>None\<close> stands for a member
  that is missing.
\<close>

record api_doc =
  doc_info :: jsval
  doc_servers :: jsval
  doc_paths :: "(string \<times> jsval) list option"
  doc_schemas :: "(string \<times> jsval) list option"

section \<open>Requests, the clock and the token cache\<close>

text \<open>
  Every HTTP call a client makes is logged as a request: its URL, the query parameters
  appended through \<open>URLSearchParams\<close> (kept as pairs, before percent-encoding), the verb,
  the headers and the body. A JSON body is kept as the value handed to
  \<open>JSON.stringify\<close>.
\<close>

datatype req_body = FormBody "(string \<times> string) list" | JsonBody jsval | TextBody string

record http_request =
  rq_url :: string
  rq_query :: "(string \<times> string) list"
  rq_verb :: string
  rq_headers :: "(string \<times> string) list"
  rq_body :: "req_body option"

record token_response =
  access_token :: string
  token_type :: string
  expires_in :: int
  granted_scope :: string

text \<open>
  What one operation meets outside the process: the clock when the cached token is
  checked, the reply of the token endpoint and the clock when that reply is handled,
  and the reply of the resource endpoint. Times are in milliseconds.
\<close>

record world =
  w_now :: int
  w_token_reply :: "token_response fetch_result"
  w_token_time :: int
  w_api_reply :: "jsval fetch_result"

text \<open>The message of the \<open>SyntaxError\<close> a failed JSON parse raises (engine specific).\<close>

definition json_parse_error :: error where
  "json_parse_error = Error ''Unexpected token in JSON''"

text \<open>
  The validity test shared by the three clients:
  \<open>this.accessToken && this.tokenExpiry && this.tokenExpiry > new Date()\<close>.
\<close>

definition token_valid :: "string option \<Rightarrow> int option \<Rightarrow> int \<Rightarrow> bool" where
  "token_valid accessToken tokenExpiry t =
     (case accessToken of
        None \<Rightarrow> False
      | Some tok \<Rightarrow> tok \<noteq> [] \<and> (case tokenExpiry of None \<Rightarrow> False | Some e \<Rightarrow> t < e))"

subsection \<open>NinjaOne client\<close>

record ninja_client =
  n_clientId :: string
  n_clientSecret :: string
  n_region :: string
  n_scope :: string
  n_baseUrl :: string
  n_accessToken :: "string option"
  n_tokenExpiry :: "int option"

text \<open>
  \<open>getRegionUrl\<close>: \<open>regionMap[region.toLowerCase()] || regionMap['us']\<close>. The map is a
  plain object, so a lookup also finds what every object inherits; of those names only
  \<open>constructor\<close> and \<open>__proto__\<close> are in lower case. Both are truthy and are returned in
  place of a URL. The base URL is used only inside template literals and is kept as the
  text it gives there: the source text of the built-in \<open>Object\<close> function (as V8 prints
  it), and \<open>[object Object]\<close> for the prototype.
\<close>

definition getRegionUrl :: "string \<Rightarrow> string" where
  "getRegionUrl region =
     (let key = toLowerCase region in
      case map_of [(''eu'', ''https://eu.ninjarmm.com''),
                   (''us'', ''https://api.ninjarmm.com''),
                   (''ca'', ''https://ca.ninjarmm.com''),
                   (''oc'', ''https://oc.ninjarmm.com''),
                   (''app'', ''https://app.ninjarmm.com'')] key of
        Some url \<Rightarrow> url
      | None \<Rightarrow>
          if key = ''constructor'' then ''function Object() { [native code] }''
          else if key = ''__proto__'' then ''[object Object]''
          else ''https://api.ninjarmm.com'')"

definition new_NinjaOneClient :: "string \<Rightarrow> string \<Rightarrow> string \<Rightarrow> string \<Rightarrow> ninja_client" where
  "new_NinjaOneClient clientId clientSecret region scope =
     \<lparr>n_clientId = clientId, n_clientSecret = clientSecret, n_region = region, n_scope = scope,
      n_baseUrl = getRegionUrl region, n_accessToken = None, n_tokenExpiry = None\<rparr>"

text \<open>
  \<open>NinjaOneClient.authenticate\<close>, cut at its one \<open>await\<close> of the network: the part that
  runs when it is called sends the token request; the part that runs when the reply
  arrives stores the token, with the expiry \<open>expires_in - 60\<close> seconds after the clock
  then, or throws. Every failure inside is rethrown with one message.

  The expiry is computed with \<open>setSeconds(getSeconds() + expires_in - 60)\<close>, which works
  on local wall-clock time. The host is taken to run in a zone whose offset from UTC does
  not change while a token lives (as a server on UTC does); the instant then moves by
  exactly that many seconds. Across a change of the offset the stored instant would be
  off by the size of the change.
\<close>

definition ninja_token_request :: "ninja_client \<Rightarrow> http_request" where
  "ninja_token_request c =
     \<lparr>rq_url = n_baseUrl c @ ''/ws/oauth/token'', rq_query = [], rq_verb = ''POST'',
      rq_headers = [(''Content-Type'', ''application/x-www-form-urlencoded'')],
      rq_body = Some (FormBody [(''grant_type'', ''client_credentials''),
                                (''client_id'', n_clientId c),
                                (''client_secret'', n_clientSecret c),
                                (''scope'', n_scope c)])\<rparr>"

definition ninja_authenticate_resume ::
  "token_response fetch_result \<Rightarrow> int \<Rightarrow> ninja_client \<Rightarrow> (error + unit) \<times> ninja_client" where
  "ninja_authenticate_resume reply t c =
     (let failed = (Inl (Error ''Failed to authenticate with NinjaOne API''), c)
      in case reply of
           NetworkError e \<Rightarrow> failed
         | Response r \<Rightarrow>
             if \<not> resp_ok r then failed
             else (case resp_json r of
                     None \<Rightarrow> failed
                   | Some d \<Rightarrow>
                       (Inr (),
                        c\<lparr>n_accessToken := Some (access_token d),
                          n_tokenExpiry := Some (t + (expires_in d - 60) * 1000)\<rparr>)))"

definition ninja_authenticate :: "world \<Rightarrow> ninja_client \<Rightarrow> (error + unit) \<times> ninja_client \<times> http_request list" where
  "ninja_authenticate w c =
     (let (res, c') = ninja_authenticate_resume (w_token_reply w) (w_token_time w) c
      in (res, c', [ninja_token_request c]))"

definition ninja_ensureAuthenticated ::
  "world \<Rightarrow> ninja_client \<Rightarrow> (error + unit) \<times> ninja_client \<times> http_request list" where
  "ninja_ensureAuthenticated w c =
     (if token_valid (n_accessToken c) (n_tokenExpiry c) (w_now w) then (Inr (), c, [])
      else ninja_authenticate w c)"

text \<open>
  \<open>NinjaOneClient.request\<close>: authenticate if needed, send the request with the bearer
  token, fail on a response that is not ok, and otherwise return \<open>response.json()\<close>.
\<close>

definition bearer :: "string option \<Rightarrow> string" where
  "bearer tok = ''Bearer '' @ (case tok of None \<Rightarrow> ''null'' | Some t \<Rightarrow> t)"

definition ninja_request ::
  "world \<Rightarrow> ninja_client \<Rightarrow> string \<Rightarrow> string \<Rightarrow> req_body option
     \<Rightarrow> (error + jsval) \<times> ninja_client \<times> http_request list" where
  "ninja_request w c path verb body =
     (case ninja_ensureAuthenticated w c of
        (Inl e, c', log) \<Rightarrow> (Inl e, c', log)
      | (Inr u, c', log) \<Rightarrow>
          let rq = \<lparr>rq_url = n_baseUrl c' @ path, rq_query = [], rq_verb = verb,
                    rq_headers = [(''Accept'', ''application/json''),
                                  (''Content-Type'', ''application/json''),
                                  (''Authorization'', bearer (n_accessToken c'))],
                    rq_body = body\<rparr>
          in (case w_api_reply w of
                NetworkError e \<Rightarrow> (Inl e, c', log @ [rq])
              | Response r \<Rightarrow>
                  if \<not> resp_ok r
                  then (Inl (Error (''API request failed: '' @ show_nat (resp_status r) @ '' ''
                                     @ resp_statusText r)), c', log @ [rq])
                  else (case resp_json r of
                          None \<Rightarrow> (Inl json_parse_error, c', log @ [rq])
                        | Some v \<Rightarrow> (Inr v, c', log @ [rq]))))"

subsection \<open>HaloPSA client\<close>

record halo_client =
  h_url :: string
  h_clientId :: string
  h_clientSecret :: string
  h_tenant :: string
  h_accessToken :: "string option"
  h_tokenExpiry :: "int option"

definition halo_token_request :: "halo_client \<Rightarrow> http_request" where
  "halo_token_request c =
     \<lparr>rq_url = h_url c @ ''/auth/token'', rq_query = [], rq_verb = ''POST'',
      rq_headers = [(''Content-Type'', ''application/x-www-form-urlencoded''),
                    (''Accept'', ''application/json'')],
      rq_body = Some (FormBody [(''grant_type'', ''client_credentials''),
                                (''client_id'', h_clientId c),
                                (''client_secret'', h_clientSecret c),
                                (''scope'', ''all'')])\<rparr>"

text \<open>
  \<open>HaloPSAClient.authenticate\<close>: returns at once on a valid cached token; otherwise one
  token request, and the expiry \<open>(expires_in - 60) * 1000\<close> milliseconds after the clock
  at the reply (the comment in the code: subtract 60 seconds for safety).
\<close>

definition halo_authenticate :: "world \<Rightarrow> halo_client \<Rightarrow> (error + unit) \<times> halo_client \<times> http_request list" where
  "halo_authenticate w c =
     (if token_valid (h_accessToken c) (h_tokenExpiry c) (w_now w) then (Inr (), c, [])
      else
        let wrap = (\<lambda>e. Inl (Error (''Failed to authenticate with HaloPSA: '' @ error_string e)));
            log = [halo_token_request c]
        in case w_token_reply w of
             NetworkError e \<Rightarrow> (wrap e, c, log)
           | Response r \<Rightarrow>
               if \<not> resp_ok r
               then (wrap (Error (''Authentication failed: '' @ show_nat (resp_status r) @ '' - ''
                                   @ resp_body r)), c, log)
               else (case resp_json r of
                       None \<Rightarrow> (wrap json_parse_error, c, log)
                     | Some d \<Rightarrow>
                         (Inr (),
                          c\<lparr>h_accessToken := Some (access_token d),
                            h_tokenExpiry := Some (w_token_time w + (expires_in d - 60) * 1000)\<rparr>,
                          log)))"

text \<open>
  \<open>HaloPSAClient.executeQuery\<close>: authenticate, then POST a one-element array holding
  \<open>{_loadreportonly: true, sql: sql}\<close> to the report endpoint of the tenant.
\<close>

definition halo_report_request :: "halo_client \<Rightarrow> jsval \<Rightarrow> http_request" where
  "halo_report_request c sql =
     \<lparr>rq_url = h_url c @ ''/api/Report?tenant='' @ h_tenant c, rq_query = [], rq_verb = ''POST'',
      rq_headers = [(''accept'', ''*/*''),
                    (''accept-language'', ''en-GB,en-US;q=0.9,en;q=0.8''),
                    (''authorization'', bearer (h_accessToken c)),
                    (''Content-Type'', ''application/json'')],
      rq_body = Some (JsonBody (JArr [JObj [(''_loadreportonly'', JBool True), (''sql'', sql)]]))\<rparr>"

definition executeQuery ::
  "world \<Rightarrow> halo_client \<Rightarrow> jsval \<Rightarrow> (error + jsval) \<times> halo_client \<times> http_request list" where
  "executeQuery w c sql =
     (case halo_authenticate w c of
        (Inl e, c', log) \<Rightarrow> (Inl e, c', log)
      | (Inr u, c', log) \<Rightarrow>
          let wrap = (\<lambda>e. Inl (Error (''Failed to execute query: '' @ error_string e)));
              log' = log @ [halo_report_request c' sql]
          in (case w_api_reply w of
                NetworkError e \<Rightarrow> (wrap e, c', log')
              | Response r \<Rightarrow>
                  if \<not> resp_ok r
                  then (wrap (Error (''Query execution failed: '' @ show_nat (resp_status r) @ '' - ''
                                      @ resp_body r)), c', log')
                  else (case resp_json r of
                          None \<Rightarrow> (wrap json_parse_error, c', log')
                        | Some v \<Rightarrow> (Inr v, c', log'))))"

text \<open>
  \<open>HaloPSAClient.makeApiCall\<close>: the tenant and every query parameter that is neither
  \<open>null\<close> nor \<open>undefined\<close> are appended, before the \<open>try\<close>, so that a parameter that
  cannot be converted throws unwrapped; a truthy body is sent with POST, PUT and PATCH.
  On a response that is ok the content type decides between \<open>response.json()\<close> and
  \<open>response.text()\<close>.
\<close>

definition present_params :: "(string \<times> jsval) list \<Rightarrow> (string \<times> jsval) list" where
  "present_params qs = filter (\<lambda>kv. snd kv \<noteq> JUndefined \<and> snd kv \<noteq> JNull) qs"

text \<open>
  Appending a parameter converts its value to a string, which throws for a value that
  cannot be converted.
\<close>

definition params_convertible :: "(string \<times> jsval) list option \<Rightarrow> bool" where
  "params_convertible queryParams =
     (case queryParams of
        None \<Rightarrow> True
      | Some qs \<Rightarrow> \<forall>kv \<in> set (present_params qs). js_convertible (snd kv))"

definition sends_body :: "string \<Rightarrow> jsval \<Rightarrow> bool" where
  "sends_body verb body = (js_truthy body \<and> verb \<in> set [''POST'', ''PUT'', ''PATCH''])"

definition halo_makeApiCall ::
  "world \<Rightarrow> halo_client \<Rightarrow> string \<Rightarrow> string option \<Rightarrow> jsval
     \<Rightarrow> (string \<times> jsval) list option \<Rightarrow> (error + jsval) \<times> halo_client \<times> http_request list" where
  "halo_makeApiCall w c path verb_arg body queryParams =
     (case halo_authenticate w c of
        (Inl e, c', log) \<Rightarrow> (Inl e, c', log)
      | (Inr u, c', log) \<Rightarrow>
          if \<not> params_convertible queryParams
          then (Inl (TypeError ''Cannot convert object to primitive value''), c', log)
          else
          let verb = (case verb_arg of None \<Rightarrow> ''GET'' | Some v \<Rightarrow> v);
              params = (''tenant'', h_tenant c')
                 # (case queryParams of
                      None \<Rightarrow> []
                    | Some qs \<Rightarrow> map (\<lambda>kv. (fst kv, js_String (snd kv))) (present_params qs));
              rq = \<lparr>rq_url = h_url c' @ path, rq_query = params, rq_verb = verb,
                    rq_headers = [(''accept'', ''application/json''),
                                  (''authorization'', bearer (h_accessToken c')),
                                  (''Content-Type'', ''application/json'')],
                    rq_body = (if sends_body verb body
                               then Some (case body of JStr s \<Rightarrow> TextBody s | v \<Rightarrow> JsonBody v)
                               else None)\<rparr>;
              wrap = (\<lambda>e. Inl (Error (''Failed to make API call: '' @ error_string e)));
              log' = log @ [rq]
          in (case w_api_reply w of
                NetworkError e \<Rightarrow> (wrap e, c', log')
              | Response r \<Rightarrow>
                  if \<not> resp_ok r
                  then (wrap (Error (''API call failed: '' @ show_nat (resp_status r) @ '' - ''
                                      @ resp_body r)), c', log')
                  else if (case resp_contentType r of
                             None \<Rightarrow> False
                           | Some ct \<Rightarrow> ct \<noteq> [] \<and> str_includes ct ''application/json'')
                  then (case resp_json r of
                          None \<Rightarrow> (wrap json_parse_error, c', log')
                        | Some v \<Rightarrow> (Inr v, c', log'))
                  else (Inr (JStr (resp_body r)), c', log')))"

text \<open>The content type of a response indicates JSON when it includes \<open>application/json\<close>.\<close>

definition json_content_type :: "string option \<Rightarrow> bool" where
  "json_content_type ct = (case ct of None \<Rightarrow> False | Some s \<Rightarrow> str_includes s ''application/json'')"

subsection \<open>Callers that overlap\<close>

text \<open>
  Operations run on one thread and interleave only where they await. A caller of
  \<open>ensureAuthenticated\<close> tests the cached token and, when it is not valid, sends the token
  request before it yields; the token is stored when the reply to that request is
  handled. Between the two, other callers may enter. The state holds the client, the
  number of token requests still unanswered, and the requests sent so far.
\<close>

datatype event = Call int | Reply "token_response fetch_result" int

record overlap_state =
  os_client :: ninja_client
  os_pending :: nat
  os_log :: "http_request list"

fun overlap_step :: "overlap_state \<Rightarrow> event \<Rightarrow> overlap_state" where
  "overlap_step s (Call t) =
     (if token_valid (n_accessToken (os_client s)) (n_tokenExpiry (os_client s)) t then s
      else s\<lparr>os_pending := os_pending s + 1,
             os_log := os_log s @ [ninja_token_request (os_client s)]\<rparr>)"
| "overlap_step s (Reply reply t) =
     (if os_pending s = 0 then s
      else s\<lparr>os_client := snd (ninja_authenticate_resume reply t (os_client s)),
             os_pending := os_pending s - 1\<rparr>)"

definition overlap_run :: "overlap_state \<Rightarrow> event list \<Rightarrow> overlap_state" where
  "overlap_run s events = foldl overlap_step s events"

section \<open>ConnectWise RMM client\<close>

text \<open>
  The description the ConnectWise client loads is typed by the interfaces
  \<open>OpenAPISchema\<close>, \<open>OpenAPIPath\<close> and \<open>OpenAPIOperation\<close>. A member of a path item that
  is not an object (or is \<open>null\<close>) is skipped by every scan.
\<close>

record operation =
  op_operationId :: "string option"
  op_summary :: "string option"
  op_description :: "string option"
  op_tags :: "string list option"
  op_parameters :: "jsval option"
  op_requestBody :: "jsval option"
  op_responses :: "(string \<times> jsval) list option"
  op_security :: "jsval option"

datatype path_member = NotAnObject | Operation operation

record openapi_schema =
  oa_servers :: jsval
  oa_paths :: "(string \<times> (string \<times> path_member) list) list"

record endpoint =
  e_path :: string
  e_method :: string
  e_operationId :: "string option"
  e_summary :: "string option"
  e_description :: "string option"
  e_tags :: "string list"
  e_parameters :: "jsval option"
  e_requestBody :: "jsval option"
  e_responses :: "(string \<times> jsval) list option"
  e_example :: "jsval option"
  e_security :: "jsval option"

record cw_options =
  o_includeSchemas :: "bool option"
  o_includeExamples :: "bool option"
  o_summaryOnly :: "bool option"
  o_maxEndpoints :: "int option"

record cw_details =
  cd_matchCount :: nat
  cd_endpoints :: "endpoint list"

text \<open>
  The cache key is the pattern, a dash, and \<open>JSON.stringify(options)\<close>. The options hold
  only booleans and a number, so the key determines the pattern and the options that
  are set; the cache is keyed by that pair here.
\<close>

record cw_client =
  c_clientId :: string
  c_clientSecret :: string
  c_baseUrl :: string
  c_accessToken :: "string option"
  c_tokenExpiry :: "int option"
  c_schema :: "openapi_schema option"
  c_schemaCache :: "((string \<times> cw_options) \<times> cw_details) list"

subsection \<open>Token and requests\<close>

definition cw_token_request :: "cw_client \<Rightarrow> http_request" where
  "cw_token_request c =
     \<lparr>rq_url = c_baseUrl c @ ''/v1/token'', rq_query = [], rq_verb = ''POST'',
      rq_headers = [(''Content-Type'', ''application/json''), (''Accept'', ''application/json'')],
      rq_body = Some (JsonBody (JObj [(''grant_type'', JStr ''client_credentials''),
                                      (''client_id'', JStr (c_clientId c)),
                                      (''client_secret'', JStr (c_clientSecret c)),
                                      (''scope'', JStr [])]))\<rparr>"

text \<open>
  \<open>ConnectWiseRMMClient.authenticate\<close>: returns at once on a valid cached token;
  otherwise one token request, and the expiry
  \<open>new Date(Date.now() + (data.expires_in * 1000))\<close>.
\<close>

definition cw_authenticate :: "world \<Rightarrow> cw_client \<Rightarrow> (error + unit) \<times> cw_client \<times> http_request list" where
  "cw_authenticate w c =
     (if token_valid (c_accessToken c) (c_tokenExpiry c) (w_now w) then (Inr (), c, [])
      else
        let wrap = (\<lambda>e. Inl (Error (''Authentication failed: '' @ error_message e)));
            log = [cw_token_request c]
        in case w_token_reply w of
             NetworkError e \<Rightarrow> (wrap e, c, log)
           | Response r \<Rightarrow>
               if \<not> resp_ok r
               then (wrap (Error (''Authentication failed: '' @ show_nat (resp_status r) @ '' ''
                                   @ resp_statusText r)), c, log)
               else (case resp_json r of
                       None \<Rightarrow> (wrap json_parse_error, c, log)
                     | Some d \<Rightarrow>
                         (Inr (),
                          c\<lparr>c_accessToken := Some (access_token d),
                            c_tokenExpiry := Some (w_token_time w + expires_in d * 1000)\<rparr>,
                          log)))"

text \<open>
  \<open>ConnectWiseRMMClient.makeRequest\<close>: the query parameters are appended inside the
  \<open>try\<close> (one that cannot be converted to a string throws there, before anything is
  sent). On a response that is ok the body text is read, and the result is \<open>JSON.parse\<close>
  of a non-empty text and \<open>null\<close> for an empty one. The content type is not looked at.
\<close>

definition cw_makeRequest ::
  "world \<Rightarrow> cw_client \<Rightarrow> string \<Rightarrow> string \<Rightarrow> jsval \<Rightarrow> (string \<times> jsval) list option
     \<Rightarrow> (error + jsval) \<times> cw_client \<times> http_request list" where
  "cw_makeRequest w c verb path body queryParams =
     (case cw_authenticate w c of
        (Inl e, c', log) \<Rightarrow> (Inl e, c', log)
      | (Inr u, c', log) \<Rightarrow>
          if \<not> params_convertible queryParams
          then (Inl (Error (''API request failed: ''
                            @ ''Cannot convert object to primitive value'')), c', log)
          else
          let rq = \<lparr>rq_url = c_baseUrl c' @ path,
                    rq_query = (case queryParams of
                                  None \<Rightarrow> []
                                | Some qs \<Rightarrow> map (\<lambda>kv. (fst kv, js_String (snd kv))) (present_params qs)),
                    rq_verb = verb,
                    rq_headers = [(''Authorization'', bearer (c_accessToken c')),
                                  (''Accept'', ''application/json''),
                                  (''Content-Type'', ''application/json'')],
                    rq_body = (if sends_body (toUpperCase verb) body then Some (JsonBody body)
                               else None)\<rparr>;
              wrap = (\<lambda>e. Inl (Error (''API request failed: '' @ error_message e)));
              log' = log @ [rq]
          in (case w_api_reply w of
                NetworkError e \<Rightarrow> (wrap e, c', log')
              | Response r \<Rightarrow>
                  if \<not> resp_ok r
                  then (wrap (Error (''API request failed: '' @ show_nat (resp_status r) @ '' ''
                                      @ resp_statusText r @ '' - '' @ resp_body r)), c', log')
                  else if resp_body r = [] then (Inr JNull, c', log')
                  else (case resp_json r of
                          None \<Rightarrow> (wrap json_parse_error, c', log')
                        | Some v \<Rightarrow> (Inr v, c', log'))))"

subsection \<open>Endpoint details\<close>

text \<open>
  \<open>new RegExp(pathPattern, 'i')\<close>. A pattern without regular-expression metacharacters
  tests for a case-insensitive occurrence of its text; any other pattern is left to the
  engine, which either rejects it with a \<open>SyntaxError\<close> (\<open>None\<close>) or gives its test.
\<close>

type_synonym regexp_engine = "string \<Rightarrow> (string \<Rightarrow> bool) option"

definition regexp_metachars :: "char list" where
  "regexp_metachars =
     [CHR 0x5C, CHR ''^'', CHR ''$'', CHR ''.'', CHR ''|'', CHR ''?'', CHR ''*'', CHR ''+'',
      CHR ''('', CHR '')'', CHR ''['', CHR '']'', CHR ''{'', CHR ''}'']"

definition new_RegExp_i :: "regexp_engine \<Rightarrow> string \<Rightarrow> (string \<Rightarrow> bool) option" where
  "new_RegExp_i engine pathPattern =
     (if list_all (\<lambda>ch. ch \<notin> set regexp_metachars) pathPattern
      then Some (\<lambda>s. str_includes (toLowerCase s) (toLowerCase pathPattern))
      else engine pathPattern)"

text \<open>An engine for developments that only use literal patterns.\<close>

definition literal_patterns_only :: regexp_engine where
  "literal_patterns_only pathPattern = None"

definition opt_truthy :: "jsval option \<Rightarrow> bool" where
  "opt_truthy v = (case v of None \<Rightarrow> False | Some x \<Rightarrow> js_truthy x)"

text \<open>
  Copying the responses reads \<open>description\<close> and \<open>content\<close> of each response; that read
  throws on a response that is \<open>null\<close>.
\<close>

fun copy_responses :: "(string \<times> jsval) list \<Rightarrow> (string \<times> jsval) list \<Rightarrow> error + (string \<times> jsval) list" where
  "copy_responses [] acc = Inr acc"
| "copy_responses ((code, response) # rest) acc =
     (if response = JNull \<or> response = JUndefined
      then Inl (TypeError ''Cannot read properties of null'')
      else copy_responses rest
             (AList.update code
                (JObj [(''description'', js_get response ''description''),
                       (''content'', js_get response ''content'')]) acc))"

definition request_example :: "operation \<Rightarrow> jsval" where
  "request_example op =
     (case op_requestBody op of
        None \<Rightarrow> JUndefined
      | Some rb \<Rightarrow> js_get (js_get (js_get rb ''content'') ''application/json'') ''example'')"

definition make_endpoint :: "bool \<Rightarrow> bool \<Rightarrow> bool \<Rightarrow> string \<Rightarrow> string \<Rightarrow> operation \<Rightarrow> error + endpoint" where
  "make_endpoint includeSchemas includeExamples summaryOnly path m op =
     (let base = \<lparr>e_path = path, e_method = toUpperCase m,
                   e_operationId = op_operationId op, e_summary = op_summary op,
                   e_description = op_description op,
                   e_tags = (case op_tags op of None \<Rightarrow> [] | Some ts \<Rightarrow> ts),
                   e_parameters = None, e_requestBody = None, e_responses = None,
                   e_example = None, e_security = None\<rparr>
      in if summaryOnly then Inr base
         else
           let e1 = (if opt_truthy (op_parameters op)
                     then base\<lparr>e_parameters := op_parameters op\<rparr> else base);
               e2 = (if opt_truthy (op_requestBody op) \<and> includeSchemas
                     then e1\<lparr>e_requestBody := op_requestBody op\<rparr> else e1)
           in case (case op_responses op of
                      None \<Rightarrow> Inr e2
                    | Some responses \<Rightarrow>
                        if includeSchemas
                        then (case copy_responses responses [] of
                                Inl err \<Rightarrow> Inl err
                              | Inr rs \<Rightarrow> Inr (e2\<lparr>e_responses := Some rs\<rparr>))
                        else Inr e2) of
                Inl err \<Rightarrow> Inl err
              | Inr e3 \<Rightarrow>
                  let e4 = (if includeExamples \<and> js_truthy (request_example op)
                            then e3\<lparr>e_example := Some (request_example op)\<rparr> else e3);
                      e5 = (if opt_truthy (op_security op)
                            then e4\<lparr>e_security := op_security op\<rparr> else e4)
                  in Inr e5)"

text \<open>
  The two nested loops. An endpoint is pushed first and the length compared with
  \<open>maxEndpoints\<close> afterwards; the outer loop repeats the comparison after every path
  that passed the pattern.
\<close>

fun cw_methods_loop :: "bool \<Rightarrow> bool \<Rightarrow> bool \<Rightarrow> int \<Rightarrow> string \<Rightarrow> (string \<times> path_member) list
    \<Rightarrow> endpoint list \<Rightarrow> error + endpoint list" where
  "cw_methods_loop iS iE sO maxEndpoints path [] acc = Inr acc"
| "cw_methods_loop iS iE sO maxEndpoints path ((m, member) # rest) acc =
     (case member of
        NotAnObject \<Rightarrow> cw_methods_loop iS iE sO maxEndpoints path rest acc
      | Operation op \<Rightarrow>
          (case make_endpoint iS iE sO path m op of
             Inl err \<Rightarrow> Inl err
           | Inr ep \<Rightarrow>
               if int (length (acc @ [ep])) \<ge> maxEndpoints then Inr (acc @ [ep])
               else cw_methods_loop iS iE sO maxEndpoints path rest (acc @ [ep])))"

fun cw_paths_loop :: "(string \<Rightarrow> bool) \<Rightarrow> bool \<Rightarrow> bool \<Rightarrow> bool \<Rightarrow> int
    \<Rightarrow> (string \<times> (string \<times> path_member) list) list \<Rightarrow> endpoint list \<Rightarrow> error + endpoint list" where
  "cw_paths_loop test iS iE sO maxEndpoints [] acc = Inr acc"
| "cw_paths_loop test iS iE sO maxEndpoints ((path, pathItem) # rest) acc =
     (if \<not> test path then cw_paths_loop test iS iE sO maxEndpoints rest acc
      else (case cw_methods_loop iS iE sO maxEndpoints path pathItem acc of
              Inl err \<Rightarrow> Inl err
            | Inr acc' \<Rightarrow>
                if int (length acc') \<ge> maxEndpoints then Inr acc'
                else cw_paths_loop test iS iE sO maxEndpoints rest acc'))"

definition cw_getEndpointDetails ::
  "regexp_engine \<Rightarrow> cw_client \<Rightarrow> string \<Rightarrow> cw_options \<Rightarrow> (error + cw_details) \<times> cw_client" where
  "cw_getEndpointDetails engine c pathPattern options =
     (case c_schema c of
        None \<Rightarrow> (Inl (Error ''Schema not loaded''), c)
      | Some schema \<Rightarrow>
          let includeSchemas = (case o_includeSchemas options of None \<Rightarrow> True | Some b \<Rightarrow> b);
              includeExamples = (case o_includeExamples options of None \<Rightarrow> False | Some b \<Rightarrow> b);
              summaryOnly = (case o_summaryOnly options of None \<Rightarrow> False | Some b \<Rightarrow> b);
              maxEndpoints = (case o_maxEndpoints options of None \<Rightarrow> 10 | Some k \<Rightarrow> k)
          in case map_of (c_schemaCache c) (pathPattern, options) of
               Some cached \<Rightarrow> (Inr cached, c)
             | None \<Rightarrow>
                 (case new_RegExp_i engine pathPattern of
                    None \<Rightarrow> (Inl (Error (''Invalid regular expression: /'' @ pathPattern @ ''/'')), c)
                  | Some test \<Rightarrow>
                      (case cw_paths_loop test includeSchemas includeExamples summaryOnly
                              maxEndpoints (oa_paths schema) [] of
                         Inl err \<Rightarrow> (Inl err, c)
                       | Inr matchingEndpoints \<Rightarrow>
                           let result = \<lparr>cd_matchCount = length matchingEndpoints,
                                         cd_endpoints = matchingEndpoints\<rparr>
                           in (Inr result,
                               c\<lparr>c_schemaCache :=
                                    AList.update (pathPattern, options) result (c_schemaCache c)\<rparr>))))"

text \<open>
  The tool handler of \<open>connectwise_get_endpoint_details\<close> passes
  \<open>Math.min(args.maxEndpoints || 10, 50)\<close> as \<open>maxEndpoints\<close>.
\<close>

definition cw_handler_maxEndpoints :: "int option \<Rightarrow> int" where
  "cw_handler_maxEndpoints arg =
     min (case arg of None \<Rightarrow> 10 | Some k \<Rightarrow> if k \<noteq> 0 then k else 10) 50"

subsection \<open>Searching endpoints\<close>

text \<open>
  \<open>ConnectWiseRMMClient.searchEndpoints\<close>: the query is lower-cased and split at white
  space; an operation is reported when every term occurs in its searchable text.
\<close>

definition or_default :: "string option \<Rightarrow> string \<Rightarrow> string" where
  "or_default v d = (case v of None \<Rightarrow> d | Some s \<Rightarrow> if s = [] then d else s)"

definition searchableText :: "string \<Rightarrow> string \<Rightarrow> operation \<Rightarrow> string" where
  "searchableText path m op =
     toLowerCase (js_join '' ''
       ([path, m, or_default (op_operationId op) [], or_default (op_summary op) [],
         or_default (op_description op) []]
        @ (case op_tags op of None \<Rightarrow> [] | Some ts \<Rightarrow> ts)))"

definition search_line :: "string \<Rightarrow> string \<Rightarrow> operation \<Rightarrow> string" where
  "search_line path m op =
     toUpperCase m @ '' '' @ path @ '' - '' @ or_default (op_summary op) ''No summary''"

fun search_methods_loop :: "string list \<Rightarrow> string \<Rightarrow> (string \<times> path_member) list \<Rightarrow> string list \<Rightarrow> string list" where
  "search_methods_loop searchTerms path [] results = results"
| "search_methods_loop searchTerms path ((m, member) # rest) results =
     (case member of
        NotAnObject \<Rightarrow> search_methods_loop searchTerms path rest results
      | Operation op \<Rightarrow>
          if list_all (\<lambda>term. str_includes (searchableText path m op) term) searchTerms
          then search_methods_loop searchTerms path rest (results @ [search_line path m op])
          else search_methods_loop searchTerms path rest results)"

fun search_paths_loop :: "string list \<Rightarrow> (string \<times> (string \<times> path_member) list) list \<Rightarrow> string list \<Rightarrow> string list" where
  "search_paths_loop searchTerms [] results = results"
| "search_paths_loop searchTerms ((path, pathItem) # rest) results =
     search_paths_loop searchTerms rest (search_methods_loop searchTerms path pathItem results)"

definition searchEndpoints :: "cw_client \<Rightarrow> string \<Rightarrow> error + string list" where
  "searchEndpoints c query =
     (case c_schema c of
        None \<Rightarrow> Inl (Error ''Schema not loaded'')
      | Some schema \<Rightarrow>
          Inr (search_paths_loop (split_whitespace (toLowerCase query)) (oa_paths schema) []))"

text \<open>
  The specification's reading: the candidate entries are the operations of the
  description, path by path and method by method.
\<close>

fun member_candidates :: "string \<Rightarrow> (string \<times> path_member) list \<Rightarrow> (string \<times> string \<times> operation) list" where
  "member_candidates path [] = []"
| "member_candidates path ((m, NotAnObject) # rest) = member_candidates path rest"
| "member_candidates path ((m, Operation op) # rest) = (path, m, op) # member_candidates path rest"

definition candidates :: "openapi_schema \<Rightarrow> (string \<times> string \<times> operation) list" where
  "candidates schema = concat (map (\<lambda>pi. member_candidates (fst pi) (snd pi)) (oa_paths schema))"

definition all_terms_occur :: "string \<Rightarrow> string \<times> string \<times> operation \<Rightarrow> bool" where
  "all_terms_occur query cand =
     (case cand of (path, m, op) \<Rightarrow>
        list_all (str_includes (searchableText path m op)) (split_whitespace (toLowerCase query)))"

section \<open>Schema catalog: endpoint details (NinjaOne, HaloPSA)\<close>

text \<open>
  \<open>getApiEndpointDetails\<close> of the NinjaOne and the HaloPSA client. In summary mode a path
  is reported with the upper-cased names of its methods and the first truthy summary.
\<close>

fun summary_scan :: "(string \<times> jsval) list \<Rightarrow> string list \<times> jsval \<Rightarrow> string list \<times> jsval" where
  "summary_scan [] acc = acc"
| "summary_scan ((m, methodObj) # rest) (methods, summary) =
     summary_scan rest
       (methods @ [toUpperCase m],
        if \<not> js_truthy summary \<and> js_truthy (js_get methodObj ''summary'')
        then js_get methodObj ''summary'' else summary)"

definition summary_entry :: "jsval \<Rightarrow> jsval" where
  "summary_entry pathObj =
     (let (methods, summary) =
            (if js_is_object pathObj then summary_scan (js_entries pathObj) ([], JStr [])
             else ([], JStr []))
      in JObj [(''methods'', JArr (map JStr methods)), (''summary'', summary)])"

text \<open>
  Otherwise each method object is cut down to the fields asked for. The HaloPSA client
  also copies \<open>description\<close>; the NinjaOne client does not.
\<close>

definition ninja_filteredMethodObj :: "bool \<Rightarrow> bool \<Rightarrow> jsval \<Rightarrow> jsval" where
  "ninja_filteredMethodObj includeSchemas includeExamples methodObj =
     JObj ([(''summary'', js_get methodObj ''summary''),
            (''operationId'', js_get methodObj ''operationId''),
            (''tags'', js_get methodObj ''tags'')]
           @ (if includeSchemas
              then [(''parameters'', js_get methodObj ''parameters''),
                    (''requestBody'', js_get methodObj ''requestBody''),
                    (''responses'', js_get methodObj ''responses'')]
              else [])
           @ (if includeExamples \<and> js_truthy (js_get methodObj ''examples'')
              then [(''examples'', js_get methodObj ''examples'')]
              else []))"

definition halo_filteredMethodObj :: "bool \<Rightarrow> bool \<Rightarrow> jsval \<Rightarrow> jsval" where
  "halo_filteredMethodObj includeSchemas includeExamples methodObj =
     JObj ([(''summary'', js_get methodObj ''summary''),
            (''description'', js_get methodObj ''description''),
            (''operationId'', js_get methodObj ''operationId''),
            (''tags'', js_get methodObj ''tags'')]
           @ (if includeSchemas
              then [(''parameters'', js_get methodObj ''parameters''),
                    (''requestBody'', js_get methodObj ''requestBody''),
                    (''responses'', js_get methodObj ''responses'')]
              else [])
           @ (if includeExamples \<and> js_truthy (js_get methodObj ''examples'')
              then [(''examples'', js_get methodObj ''examples'')]
              else []))"

fun filtered_scan :: "(jsval \<Rightarrow> jsval) \<Rightarrow> (string \<times> jsval) list \<Rightarrow> (string \<times> jsval) list
    \<Rightarrow> (string \<times> jsval) list" where
  "filtered_scan f [] acc = acc"
| "filtered_scan f ((m, methodObj) # rest) acc =
     filtered_scan f rest (AList.update m (f methodObj) acc)"

definition filtered_entry :: "(jsval \<Rightarrow> jsval) \<Rightarrow> jsval \<Rightarrow> jsval" where
  "filtered_entry f pathObj =
     JObj (if js_is_object pathObj then filtered_scan f (js_entries pathObj) [] else [])"

text \<open>
  The loop over the path entries: it stops as soon as \<open>matchCount\<close> has reached
  \<open>Math.min(maxEndpoints, 50)\<close>, and otherwise records a path whose lower-cased text
  includes the lower-cased pattern.
\<close>

definition path_matches :: "string \<Rightarrow> string \<Rightarrow> bool" where
  "path_matches pathPattern path = str_includes (toLowerCase path) (toLowerCase pathPattern)"

fun details_loop :: "(jsval \<Rightarrow> jsval) \<Rightarrow> string \<Rightarrow> bool \<Rightarrow> int \<Rightarrow> (string \<times> jsval) list
    \<Rightarrow> (string \<times> jsval) list \<times> nat \<Rightarrow> (string \<times> jsval) list \<times> nat" where
  "details_loop f pathPattern summaryOnly maxEndpoints [] acc = acc"
| "details_loop f pathPattern summaryOnly maxEndpoints ((path, pathObj) # rest) (matchingPaths, matchCount) =
     (if int matchCount \<ge> min maxEndpoints 50 then (matchingPaths, matchCount)
      else if path_matches pathPattern path then
        details_loop f pathPattern summaryOnly maxEndpoints rest
          (AList.update path
             (if summaryOnly then summary_entry pathObj else filtered_entry f pathObj)
             matchingPaths,
           matchCount + 1)
      else details_loop f pathPattern summaryOnly maxEndpoints rest (matchingPaths, matchCount))"

record details_result =
  d_pathPattern :: string
  d_matchingPaths :: "(string \<times> jsval) list"
  d_matchCount :: nat
  d_totalMatches :: nat
  d_limited :: bool
  d_components :: "jsval option"

definition details_of :: "(jsval \<Rightarrow> jsval) \<Rightarrow> api_doc \<Rightarrow> string \<Rightarrow> bool \<Rightarrow> bool \<Rightarrow> int
    \<Rightarrow> details_result" where
  "details_of f schema pathPattern summaryOnly includeSchemas maxEndpoints =
     (let pathEntries = (case doc_paths schema of None \<Rightarrow> [] | Some ps \<Rightarrow> ps);
          (matchingPaths, matchCount) =
             details_loop f pathPattern summaryOnly maxEndpoints pathEntries ([], 0)
      in \<lparr>d_pathPattern = pathPattern,
          d_matchingPaths = matchingPaths,
          d_matchCount = matchCount,
          d_totalMatches = length (filter (\<lambda>e. path_matches pathPattern (fst e)) pathEntries),
          d_limited = (int matchCount \<ge> min maxEndpoints 50),
          d_components =
            (if includeSchemas \<and> \<not> summaryOnly \<and> matchCount > 0
             then Some (JObj [(''schemas'',
                     case doc_schemas schema of
                       None \<Rightarrow> JUndefined
                     | Some all \<Rightarrow> JObj (take 20 all))])
             else None)\<rparr>)"

text \<open>
  The NinjaOne client fetches the description on every call: a rejected fetch, a
  response that is not ok and a body that does not parse all end in the same error.
  The parameters default to \<open>summaryOnly = false\<close>, \<open>includeSchemas = true\<close>,
  \<open>maxEndpoints = 10\<close>, \<open>includeExamples = false\<close>.
\<close>

definition ninja_getApiEndpointDetails ::
  "api_doc fetch_result \<Rightarrow> string \<Rightarrow> bool option \<Rightarrow> bool option \<Rightarrow> int option \<Rightarrow> bool option
     \<Rightarrow> error + details_result" where
  "ninja_getApiEndpointDetails fetched pathPattern summaryOnly_arg includeSchemas_arg
       maxEndpoints_arg includeExamples_arg =
     (let summaryOnly = (case summaryOnly_arg of None \<Rightarrow> False | Some b \<Rightarrow> b);
          includeSchemas = (case includeSchemas_arg of None \<Rightarrow> True | Some b \<Rightarrow> b);
          maxEndpoints = (case maxEndpoints_arg of None \<Rightarrow> 10 | Some k \<Rightarrow> k);
          includeExamples = (case includeExamples_arg of None \<Rightarrow> False | Some b \<Rightarrow> b);
          failed = Inl (Error ''Failed to fetch NinjaOne API endpoint details'')
      in case fetched of
           NetworkError e \<Rightarrow> failed
         | Response r \<Rightarrow>
             if \<not> resp_ok r then failed
             else (case resp_json r of
                     None \<Rightarrow> failed
                   | Some schema \<Rightarrow>
                       Inr (details_of (ninja_filteredMethodObj includeSchemas includeExamples)
                              schema pathPattern summaryOnly includeSchemas maxEndpoints)))"

text \<open>The HaloPSA client imports the bundled \<open>swagger.json\<close> instead.\<close>

definition halo_getApiEndpointDetails ::
  "error + api_doc \<Rightarrow> string \<Rightarrow> bool option \<Rightarrow> bool option \<Rightarrow> int option \<Rightarrow> bool option
     \<Rightarrow> error + details_result" where
  "halo_getApiEndpointDetails swagger pathPattern summaryOnly_arg includeSchemas_arg
       maxEndpoints_arg includeExamples_arg =
     (let summaryOnly = (case summaryOnly_arg of None \<Rightarrow> False | Some b \<Rightarrow> b);
          includeSchemas = (case includeSchemas_arg of None \<Rightarrow> True | Some b \<Rightarrow> b);
          maxEndpoints = (case maxEndpoints_arg of None \<Rightarrow> 10 | Some k \<Rightarrow> k);
          includeExamples = (case includeExamples_arg of None \<Rightarrow> False | Some b \<Rightarrow> b)
      in case swagger of
           Inl e \<Rightarrow> Inl (Error (''Failed to fetch HaloPSA API endpoint details: '' @ error_string e))
         | Inr schema \<Rightarrow>
             Inr (details_of (halo_filteredMethodObj includeSchemas includeExamples)
                    schema pathPattern summaryOnly includeSchemas maxEndpoints))"

section \<open>Schema catalog: searching endpoints (HaloPSA)\<close>

text \<open>
  \<open>HaloPSAClient.searchApiEndpoints\<close>. The searchable text of a method joins the path,
  the summary, the description and the tags; the tags are spread into the array, which
  throws when they are truthy and not iterable; so does joining when an element cannot
  be converted to a string. A method is a hit when the text includes the whole lower-cased
  query.
\<close>

definition js_or :: "jsval \<Rightarrow> jsval \<Rightarrow> jsval" where
  "js_or v d = (if js_truthy v then v else d)"

fun spread :: "jsval \<Rightarrow> error + jsval list" where
  "spread (JArr xs) = Inr xs"
| "spread (JStr s) = Inr (map (\<lambda>ch. JStr [ch]) s)"
| "spread v = Inl (TypeError ''value is not iterable'')"

definition halo_searchableText :: "string \<Rightarrow> jsval \<Rightarrow> error + string" where
  "halo_searchableText path methodObj =
     (case spread (js_or (js_get methodObj ''tags'') (JArr [])) of
        Inl e \<Rightarrow> Inl e
      | Inr tags \<Rightarrow>
          (case js_array_join '' ''
                  ([JStr path, js_or (js_get methodObj ''summary'') (JStr []),
                    js_or (js_get methodObj ''description'') (JStr [])] @ tags) of
             Inl e \<Rightarrow> Inl e
           | Inr joined \<Rightarrow> Inr (toLowerCase joined)))"

definition search_hit :: "string \<Rightarrow> string \<Rightarrow> jsval \<Rightarrow> jsval" where
  "search_hit path m methodObj =
     JObj [(''path'', JStr path), (''method'', JStr (toUpperCase m)),
           (''summary'', js_get methodObj ''summary''),
           (''description'', js_get methodObj ''description''),
           (''tags'', js_get methodObj ''tags'')]"

fun halo_search_methods :: "string \<Rightarrow> string \<Rightarrow> (string \<times> jsval) list \<Rightarrow> jsval list \<Rightarrow> error + jsval list" where
  "halo_search_methods query path [] acc = Inr acc"
| "halo_search_methods query path ((m, methodObj) # rest) acc =
     (case halo_searchableText path methodObj of
        Inl e \<Rightarrow> Inl e
      | Inr txt \<Rightarrow>
          if str_includes txt (toLowerCase query)
          then halo_search_methods query path rest (acc @ [search_hit path m methodObj])
          else halo_search_methods query path rest acc)"

fun halo_search_paths :: "string \<Rightarrow> (string \<times> jsval) list \<Rightarrow> jsval list \<Rightarrow> error + jsval list" where
  "halo_search_paths query [] acc = Inr acc"
| "halo_search_paths query ((path, pathObj) # rest) acc =
     (if js_is_object pathObj
      then (case halo_search_methods query path (js_entries pathObj) acc of
              Inl e \<Rightarrow> Inl e
            | Inr acc' \<Rightarrow> halo_search_paths query rest acc')
      else halo_search_paths query rest acc)"

record search_result =
  s_query :: string
  s_results :: "jsval list"
  s_returnedCount :: nat
  s_totalResults :: nat
  s_skipped :: int
  s_hasMore :: bool
  s_message :: string

definition searchApiEndpoints ::
  "error + api_doc \<Rightarrow> string \<Rightarrow> int option \<Rightarrow> int option \<Rightarrow> error + search_result" where
  "searchApiEndpoints swagger query limit_arg skip_arg =
     (let lim = (case limit_arg of None \<Rightarrow> 50 | Some l \<Rightarrow> l);
          skip = (case skip_arg of None \<Rightarrow> 0 | Some s \<Rightarrow> s);
          wrap = (\<lambda>e. Inl (Error (''Failed to search API endpoints: '' @ error_string e)))
      in case swagger of
           Inl e \<Rightarrow> wrap e
         | Inr schema \<Rightarrow>
             (case (case doc_paths schema of
                      None \<Rightarrow> Inr []
                    | Some paths \<Rightarrow> halo_search_paths query paths []) of
                Inl e \<Rightarrow> wrap e
              | Inr matchingEndpoints \<Rightarrow>
                  let paginatedResults = js_slice skip (skip + lim) matchingEndpoints
                  in Inr \<lparr>s_query = query,
                          s_results = paginatedResults,
                          s_returnedCount = length paginatedResults,
                          s_totalResults = length matchingEndpoints,
                          s_skipped = skip,
                          s_hasMore = (skip + int (length paginatedResults)
                                         < int (length matchingEndpoints)),
                          s_message =
                            ''Found '' @ show_nat (length matchingEndpoints)
                              @ '' endpoints matching '' @ dquote @ query @ dquote
                              @ ''. Showing '' @ show_nat (length paginatedResults)
                              @ '' starting from position '' @ show_int skip @ ''.''\<rparr>))"

text \<open>
  The candidate entries of the HaloPSA search, and its test: the searchable text
  includes the whole lower-cased query.
\<close>

definition halo_candidates :: "(string \<times> jsval) list \<Rightarrow> (string \<times> string \<times> jsval) list" where
  "halo_candidates paths =
     concat (map (\<lambda>pe. if js_is_object (snd pe)
                        then map (\<lambda>me. (fst pe, fst me, snd me)) (js_entries (snd pe))
                        else []) paths)"

definition whole_query_occurs :: "string \<Rightarrow> string \<times> string \<times> jsval \<Rightarrow> bool" where
  "whole_query_occurs query cand =
     (case cand of (path, m, methodObj) \<Rightarrow>
        (case halo_searchableText path methodObj of
           Inl e \<Rightarrow> False
         | Inr txt \<Rightarrow> str_includes txt (toLowerCase query)))"

section \<open>Schema catalog: categorising a path\<close>

text \<open>
  \<open>NinjaOneClient.categorizeApiPath\<close>: a cascade of substring tests on the path as given;
  the first test that succeeds returns.
\<close>

definition ninja_categorizeApiPath :: "string \<Rightarrow> string" where
  "ninja_categorizeApiPath path =
    (if str_includes path ''/device'' then ''Device Management''
     else if str_includes path ''/organization'' then ''Organization Management''
     else if str_includes path ''/alert'' then ''Alert Management''
     else if str_includes path ''/policy'' \<or> str_includes path ''/policies'' then ''Policy Management''
     else if str_includes path ''/software'' then ''Software Management''
     else if str_includes path ''/patch'' then ''Patch Management''
     else if str_includes path ''/script'' then ''Script Management''
     else if str_includes path ''/job'' then ''Job Management''
     else if str_includes path ''/maintenance'' then ''Maintenance Management''
     else if str_includes path ''/backup'' then ''Backup Management''
     else if str_includes path ''/antivirus'' then ''Antivirus Management''
     else if str_includes path ''/user'' then ''User Management''
     else if str_includes path ''/location'' then ''Location Management''
     else if str_includes path ''/activity'' \<or> str_includes path ''/activities'' then ''Activity Management''
     else if str_includes path ''/webhook'' then ''Webhook Management''
     else ''Other'')"

text \<open>
  \<open>HaloPSAClient.categorizeApiPath\<close>: the same cascade over the lower-cased path.
\<close>

definition halo_categorizeApiPath :: "string \<Rightarrow> string" where
  "halo_categorizeApiPath path =
    (let lowerPath = toLowerCase path in
     if str_includes lowerPath ''/actions'' then ''Actions''
     else if str_includes lowerPath ''/ticket'' then ''Tickets''
     else if str_includes lowerPath ''/agent'' then ''Agents''
     else if str_includes lowerPath ''/client'' then ''Clients''
     else if str_includes lowerPath ''/site'' then ''Sites''
     else if str_includes lowerPath ''/user'' then ''Users''
     else if str_includes lowerPath ''/asset'' then ''Assets''
     else if str_includes lowerPath ''/invoice'' then ''Invoicing''
     else if str_includes lowerPath ''/report'' then ''Reports''
     else if str_includes lowerPath ''/address'' then ''Addresses''
     else if str_includes lowerPath ''/appointment'' then ''Appointments''
     else if str_includes lowerPath ''/project'' then ''Projects''
     else if str_includes lowerPath ''/contract'' then ''Contracts''
     else if str_includes lowerPath ''/supplier'' then ''Suppliers''
     else if str_includes lowerPath ''/product'' then ''Products''
     else if str_includes lowerPath ''/kb'' \<or> str_includes lowerPath ''/knowledge'' then ''Knowledge Base''
     else if str_includes lowerPath ''/integration'' then ''Integrations''
     else if str_includes lowerPath ''/webhook'' then ''Webhooks''
     else if str_includes lowerPath ''/api'' then ''API Management''
     else ''Other'')"

text \<open>
  The specification's reading of the cascade: an ordered table of rules, each a list of
  marker substrings with a category, scanned top to bottom; the first rule one of whose
  markers occurs in the path gives the category, and \<open>Other\<close> is the default.
\<close>

type_synonym rule = "string list \<times> string"

definition rule_matches :: "string \<Rightarrow> rule \<Rightarrow> bool" where
  "rule_matches path r = list_ex (str_includes path) (fst r)"

fun spec_categorize :: "rule list \<Rightarrow> string \<Rightarrow> string" where
  "spec_categorize [] path = ''Other''"
| "spec_categorize (r # rs) path =
     (if rule_matches path r then snd r else spec_categorize rs path)"

definition ninja_rules :: "rule list" where
  "ninja_rules =
    [([''/device''], ''Device Management''),
     ([''/organization''], ''Organization Management''),
     ([''/alert''], ''Alert Management''),
     ([''/policy'', ''/policies''], ''Policy Management''),
     ([''/software''], ''Software Management''),
     ([''/patch''], ''Patch Management''),
     ([''/script''], ''Script Management''),
     ([''/job''], ''Job Management''),
     ([''/maintenance''], ''Maintenance Management''),
     ([''/backup''], ''Backup Management''),
     ([''/antivirus''], ''Antivirus Management''),
     ([''/user''], ''User Management''),
     ([''/location''], ''Location Management''),
     ([''/activity'', ''/activities''], ''Activity Management''),
     ([''/webhook''], ''Webhook Management'')]"

definition halo_rules :: "rule list" where
  "halo_rules =
    [([''/actions''], ''Actions''),
     ([''/ticket''], ''Tickets''),
     ([''/agent''], ''Agents''),
     ([''/client''], ''Clients''),
     ([''/site''], ''Sites''),
     ([''/user''], ''Users''),
     ([''/asset''], ''Assets''),
     ([''/invoice''], ''Invoicing''),
     ([''/report''], ''Reports''),
     ([''/address''], ''Addresses''),
     ([''/appointment''], ''Appointments''),
     ([''/project''], ''Projects''),
     ([''/contract''], ''Contracts''),
     ([''/supplier''], ''Suppliers''),
     ([''/product''], ''Products''),
     ([''/kb'', ''/knowledge''], ''Knowledge Base''),
     ([''/integration''], ''Integrations''),
     ([''/webhook''], ''Webhooks''),
     ([''/api''], ''API Management'')]"

section \<open>Schema catalog: listing component schemas\<close>

text \<open>
  \<open>HaloPSAClient.getApiSchemas\<close>. The \<open>forEach\<close> over the component schemas keeps four
  variables: the returned \<open>schemas\<close> object, \<open>matchingSchemaNames\<close>, \<open>schemaCount\<close> and
  \<open>skippedCount\<close>.
\<close>

record schemas_acc =
  acc_schemas :: "(string \<times> jsval) list"
  acc_names :: "string list"
  acc_count :: nat
  acc_skipped :: nat

text \<open>
  The filter keeps a name unless the pattern is truthy (given and non-empty) and the
  lower-cased name does not include the lower-cased pattern.
\<close>

definition schema_name_matches :: "string option \<Rightarrow> string \<Rightarrow> bool" where
  "schema_name_matches schemaPattern name =
     (case schemaPattern of
        None \<Rightarrow> True
      | Some p \<Rightarrow> p = [] \<or> str_includes (toLowerCase name) (toLowerCase p))"

fun getApiSchemas_loop ::
  "string option \<Rightarrow> int \<Rightarrow> int \<Rightarrow> (string \<times> jsval) list \<Rightarrow> schemas_acc \<Rightarrow> schemas_acc" where
  "getApiSchemas_loop pat lim skip [] a = a"
| "getApiSchemas_loop pat lim skip ((name, schemaObj) # rest) a =
     (if \<not> schema_name_matches pat name then getApiSchemas_loop pat lim skip rest a
      else
        let a1 = a\<lparr>acc_names := acc_names a @ [name]\<rparr> in
        if int (acc_skipped a1) < skip
          then getApiSchemas_loop pat lim skip rest (a1\<lparr>acc_skipped := acc_skipped a1 + 1\<rparr>)
        else if int (acc_count a1) \<ge> lim
          then getApiSchemas_loop pat lim skip rest a1
        else getApiSchemas_loop pat lim skip rest
               (a1\<lparr>acc_schemas := AList.update name schemaObj (acc_schemas a1),
                   acc_count := acc_count a1 + 1\<rparr>))"

record schemas_result =
  r_schemas :: "(string \<times> jsval) list"
  r_returnedCount :: nat
  r_matchingCount :: nat
  r_totalSchemasInAPI :: nat
  r_skipped :: int
  r_limited :: bool
  r_hasMore :: bool
  r_message :: string
  r_schemaNames :: "string list option"
  r_hint :: "string option"

text \<open>
  The document is imported from the bundled \<open>swagger.json\<close>; a failed import (the
  \<open>Inl\<close> case) is rethrown with the function's own message. The parameters default to
  \<open>limit = 50\<close>, \<open>skip = 0\<close>, \<open>listNames = false\<close> when not given. \<open>sort()\<close> without a
  comparator orders strings by their code units.
\<close>

definition getApiSchemas ::
  "error + api_doc \<Rightarrow> string option \<Rightarrow> int option \<Rightarrow> int option \<Rightarrow> bool option
     \<Rightarrow> error + schemas_result" where
  "getApiSchemas swagger schemaPattern limit_arg skip_arg listNames_arg =
     (case swagger of
        Inl e \<Rightarrow> Inl (Error (''Failed to get API schemas: '' @ error_string e))
      | Inr schema \<Rightarrow>
          let lim = (case limit_arg of None \<Rightarrow> 50 | Some l \<Rightarrow> l);
              skip = (case skip_arg of None \<Rightarrow> 0 | Some s \<Rightarrow> s);
              listNames = (case listNames_arg of None \<Rightarrow> False | Some b \<Rightarrow> b);
              start = \<lparr>acc_schemas = [], acc_names = [], acc_count = 0, acc_skipped = 0\<rparr>;
              a = (case doc_schemas schema of
                     None \<Rightarrow> start
                   | Some allSchemas \<Rightarrow> getApiSchemas_loop schemaPattern lim skip allSchemas start);
              totalSchemaCount = (case doc_schemas schema of None \<Rightarrow> 0 | Some allSchemas \<Rightarrow> length allSchemas);
              withNames = (listNames \<or> length (acc_names a) \<le> 20)
          in Inr \<lparr>r_schemas = acc_schemas a,
                  r_returnedCount = acc_count a,
                  r_matchingCount = length (acc_names a),
                  r_totalSchemasInAPI = totalSchemaCount,
                  r_skipped = skip,
                  r_limited = (int (acc_count a) \<ge> lim),
                  r_hasMore = (skip + int (acc_count a) < int (length (acc_names a))),
                  r_message =
                    (case schemaPattern of
                       Some p \<Rightarrow>
                         if p \<noteq> [] then
                           ''Showing '' @ show_nat (acc_count a) @ '' of '' @ show_nat (length (acc_names a))
                             @ '' schemas matching '' @ dquote @ p @ dquote @ '' (skipped '' @ show_int skip @ '')''
                         else ''Showing '' @ show_nat (acc_count a) @ '' schemas starting from position ''
                             @ show_int skip @ ''. Total: '' @ show_nat totalSchemaCount @ ''.''
                     | None \<Rightarrow>
                         ''Showing '' @ show_nat (acc_count a) @ '' schemas starting from position ''
                           @ show_int skip @ ''. Total: '' @ show_nat totalSchemaCount @ ''.''),
                  r_schemaNames = (if withNames then Some (sort (acc_names a)) else None),
                  r_hint =
                    (if withNames then None
                     else Some (show_nat (length (acc_names a))
                                 @ '' schemas match. Set listNames=true to see all names.''))\<rparr>)"

text \<open>
  The specification's reading: filter first, then skip the first \<open>skip\<close> matches and
  return at most \<open>limit\<close> of the rest, in discovery order. \<open>acc_after\<close> gives the loop
  variables after the matches \<open>ms\<close> have been seen.
\<close>

definition page_of :: "int \<Rightarrow> int \<Rightarrow> 'a list \<Rightarrow> 'a list" where
  "page_of lim skip xs = take (nat lim) (drop (nat skip) xs)"

definition acc_after :: "int \<Rightarrow> int \<Rightarrow> (string \<times> jsval) list \<Rightarrow> schemas_acc" where
  "acc_after lim skip ms =
     \<lparr>acc_schemas = page_of lim skip ms, acc_names = map fst ms,
      acc_count = length (page_of lim skip ms),
      acc_skipped = min (length ms) (nat skip)\<rparr>"

section \<open>Tool handlers\<close>

text \<open>
  A handler either returns a response envelope or lets an exception escape to its
  caller. The text of an envelope is either \<open>JSON.stringify(v, null, 2)\<close> of a value,
  kept as that value, or a plain string.
\<close>

datatype content = JsonText jsval | PlainText string

record tool_response =
  tr_content :: content
  tr_isError :: bool

datatype 'a outcome = Returned 'a | Thrown error

text \<open>
  The argument bag of a call: \<open>None\<close> when the request carries no \<open>arguments\<close>, and
  otherwise the entries of the object. Destructuring \<open>const { a, b } = args\<close> throws on a
  missing bag, naming the first member it was to read; a member that is not there reads
  as \<open>undefined\<close>.
\<close>

type_synonym args = "(string \<times> jsval) list option"

definition arg_of :: "(string \<times> jsval) list \<Rightarrow> string \<Rightarrow> jsval" where
  "arg_of a k = (case map_of a k of None \<Rightarrow> JUndefined | Some v \<Rightarrow> v)"

definition destructure :: "string \<Rightarrow> args \<Rightarrow> error + (string \<times> jsval) list" where
  "destructure first_member a =
     (case a of
        None \<Rightarrow>
          Inl (TypeError (''Cannot destructure property '' @ squote @ first_member @ squote
                          @ '' of '' @ squote @ ''args'' @ squote @ '' as it is undefined.''))
      | Some entries \<Rightarrow> Inr entries)"

subsection \<open>HaloPSA reporting: building SQL text\<close>

text \<open>\<open>s.replace(/'/g, "''")\<close>: every single quote is doubled.\<close>

definition escape_quotes :: "string \<Rightarrow> string" where
  "escape_quotes s = concat (map (\<lambda>ch. if ch = CHR 0x27 then [ch, ch] else [ch]) s)"

text \<open>
  Calling \<open>.replace\<close> on a truthy argument that is not a string throws: only strings
  have the method. The message names the variable the method was called on.
\<close>

definition escaped_arg :: "string \<Rightarrow> jsval \<Rightarrow> error + string" where
  "escaped_arg variable v =
     (case v of
        JStr s \<Rightarrow> Inr (escape_quotes s)
      | _ \<Rightarrow> Inl (TypeError (variable @ ''.replace is not a function'')))"

definition newline :: string where
  "newline = [CHR 0x0A]"

definition columns_select :: string where
  "columns_select =
     ''SELECT '' @ newline
     @ ''          Table_name as [Table Name],'' @ newline
     @ ''          Column_name as [Column Name],'' @ newline
     @ ''          Data_type as [Data Type],'' @ newline
     @ ''          Character_maximum_length as [Max Characters],'' @ newline
     @ ''          Is_nullable as [Can be Null?]'' @ newline
     @ ''        FROM information_schema.columns''"

definition list_tables_sql :: "jsval \<Rightarrow> error + string" where
  "list_tables_sql filter_arg =
     (if js_truthy filter_arg then
        (case escaped_arg ''filter'' filter_arg of
           Inl e \<Rightarrow> Inl e
         | Inr escapedFilter \<Rightarrow>
             Inr (''SELECT Name FROM sys.tables'' @ '' WHERE LOWER(Name) LIKE '' @ squote @ ''%''
                  @ toLowerCase escapedFilter @ ''%'' @ squote))
      else Inr ''SELECT Name FROM sys.tables'')"

definition list_columns_sql :: "jsval \<Rightarrow> jsval \<Rightarrow> error + string" where
  "list_columns_sql tableName columnFilter =
     (case (if js_truthy tableName
            then (case escaped_arg ''tableName'' tableName of
                    Inl e \<Rightarrow> Inl e
                  | Inr escapedTable \<Rightarrow>
                      Inr [''LOWER(Table_name) = '' @ squote @ toLowerCase escapedTable @ squote])
            else Inr []) of
        Inl e \<Rightarrow> Inl e
      | Inr conds1 \<Rightarrow>
          (case (if js_truthy columnFilter
                 then (case escaped_arg ''columnFilter'' columnFilter of
                         Inl e \<Rightarrow> Inl e
                       | Inr escapedFilter \<Rightarrow>
                           Inr (conds1 @ [''LOWER(Column_name) LIKE '' @ squote @ ''%''
                                          @ toLowerCase escapedFilter @ ''%'' @ squote]))
                 else Inr conds1) of
             Inl e \<Rightarrow> Inl e
           | Inr conditions \<Rightarrow>
               Inr (if conditions \<noteq> []
                    then columns_select @ '' WHERE '' @ js_join '' AND '' conditions
                    else columns_select)))"

definition table_info_sql :: "jsval \<Rightarrow> error + string" where
  "table_info_sql tableName =
     (if \<not> js_truthy tableName then Inl (Error ''Table name is required'')
      else (case escaped_arg ''tableName'' tableName of
              Inl e \<Rightarrow> Inl e
            | Inr escapedTable \<Rightarrow>
                Inr (columns_select @ newline @ ''        WHERE LOWER(Table_name) = '' @ squote
                     @ toLowerCase escapedTable @ squote)))"

subsection \<open>HaloPSA reporting: \<open>halopsa_build_query\<close>\<close>

text \<open>
  \<open>columns && columns.length > 0\<close>: an array or a string that is not empty, or an object
  whose \<open>length\<close> member converts to a number above zero (the conversion may throw).
  A number or \<open>true\<close> has no \<open>length\<close>. Then \<open>columns.join(', ')\<close>: only arrays have
  \<open>join\<close>, so a non-empty string or such an object throws.
\<close>

definition columns_given :: "jsval \<Rightarrow> error + bool" where
  "columns_given columns =
     (if \<not> js_truthy columns then Inr False
      else (case columns of
              JArr xs \<Rightarrow> Inr (xs \<noteq> [])
            | JStr s \<Rightarrow> Inr (s \<noteq> [])
            | JObj es \<Rightarrow> js_gt_zero (js_get columns ''length'')
            | _ \<Rightarrow> Inr False))"

definition columns_join :: "jsval \<Rightarrow> error + string" where
  "columns_join columns =
     (case columns of
        JArr xs \<Rightarrow> js_array_join '', '' xs
      | _ \<Rightarrow> Inl (TypeError ''columns.join is not a function''))"

text \<open>
  One condition of the WHERE clause, by the kind of its value: \<open>null\<close>, a string (quoted,
  with its single quotes doubled), or anything else (interpolated as it is).
\<close>

definition condition_clause :: "string \<times> jsval \<Rightarrow> error + string" where
  "condition_clause kv =
     (case snd kv of
        JNull \<Rightarrow> Inr (fst kv @ '' IS NULL'')
      | JStr s \<Rightarrow> Inr (fst kv @ '' = '' @ squote @ escape_quotes s @ squote)
      | v \<Rightarrow> and_then (js_ToString v) (\<lambda>rendered. Inr (fst kv @ '' = '' @ rendered)))"

text \<open>\<open>conditions && Object.keys(conditions).length > 0\<close>.\<close>

definition conditions_given :: "jsval \<Rightarrow> bool" where
  "conditions_given conditions = (js_truthy conditions \<and> js_entries conditions \<noteq> [])"

definition where_part :: "jsval \<Rightarrow> error + string" where
  "where_part conditions =
     (if conditions_given conditions
      then and_then (collect (map condition_clause (js_entries conditions)))
             (\<lambda>clauses. Inr ('' WHERE '' @ js_join '' AND '' clauses))
      else Inr [])"

definition order_part :: "jsval \<Rightarrow> error + string" where
  "order_part orderBy =
     (if js_truthy orderBy
      then and_then (js_ToString orderBy) (\<lambda>rendered. Inr ('' ORDER BY '' @ rendered))
      else Inr [])"

text \<open>
  The query is first built without the limit. When \<open>limit\<close> is truthy it is built again,
  starting from \<open>SELECT TOP\<close>, with the WHERE clause and the ORDER BY clause added by a
  second copy of the same code.
\<close>

definition build_query :: "(string \<times> jsval) list \<Rightarrow> error + string" where
  "build_query a =
     (let tableName = arg_of a ''tableName''; columns = arg_of a ''columns'';
          conditions = arg_of a ''conditions''; orderBy = arg_of a ''orderBy'';
          limit = arg_of a ''limit''
      in and_then (columns_given columns) (\<lambda>given.
         and_then (if given then columns_join columns else Inr ''*'') (\<lambda>cols.
         and_then (js_ToString tableName) (\<lambda>table.
         and_then (where_part conditions) (\<lambda>where_clause.
         and_then (order_part orderBy) (\<lambda>order_clause.
           if js_truthy limit then
             and_then (columns_given columns) (\<lambda>given2.
             and_then (js_ToString limit) (\<lambda>top.
             and_then (if given2 then columns_join columns else Inr ''*'') (\<lambda>cols2.
             and_then (js_ToString tableName) (\<lambda>table2.
             and_then (where_part conditions) (\<lambda>where_clause2.
             and_then (order_part orderBy) (\<lambda>order_clause2.
               Inr (''SELECT TOP '' @ top @ '' '' @ cols2 @ '' FROM '' @ table2
                    @ where_clause2 @ order_clause2)))))))
           else Inr (''SELECT '' @ cols @ '' FROM '' @ table @ where_clause @ order_clause)))))))"

subsection \<open>HaloPSA reporting: the call-tool handler\<close>

text \<open>
  The reply of \<open>halopsa_table_info\<close>: the rows of the report (\<open>result.report.rows\<close>, when
  all three are truthy and the rows are an array) are mapped to column descriptions;
  reading a member of a row that is \<open>null\<close> throws. With no column the handler throws;
  otherwise the reply carries the table name in upper case, the count and the columns.
\<close>

definition report_rows :: "jsval \<Rightarrow> jsval list option" where
  "report_rows result =
     (if js_truthy result \<and> js_truthy (js_get result ''report'')
      then (case js_get (js_get result ''report'') ''rows'' of
              JArr rows \<Rightarrow> Some rows
            | _ \<Rightarrow> None)
      else None)"

definition column_of_row :: "jsval \<Rightarrow> error + jsval" where
  "column_of_row row =
     (if row = JNull \<or> row = JUndefined
      then Inl (TypeError (''Cannot read properties of '' @ js_String row @ '' (reading ''
                           @ squote @ ''Column Name'' @ squote @ '')''))
      else Inr (JObj [(''name'', js_get row ''Column Name''),
                      (''type'', js_get row ''Data Type''),
                      (''nullable'', js_get row ''Can be Null?''),
                      (''maxLength'', js_get row ''Max Characters'')]))"

definition table_info_reply :: "string \<Rightarrow> jsval \<Rightarrow> error + jsval" where
  "table_info_reply tableName result =
     and_then (case report_rows result of
                 None \<Rightarrow> Inr []
               | Some rows \<Rightarrow> collect (map column_of_row rows))
       (\<lambda>columns.
          if columns = []
          then Inl (Error (''Table '' @ tableName @ '' not found or has no columns''))
          else Inr (JObj [(''tableName'', JStr (toUpperCase tableName)),
                          (''columnCount'', JNum (int (length columns))),
                          (''columns'', JArr columns)]))"

text \<open>
  Shaping the rows of \<open>halopsa_list_tables\<close> and \<open>halopsa_list_columns\<close> into the reply
  sorts them with \<open>localeCompare\<close>, whose order and whose calls are the engine's; these two
  steps are taken as given functions of the arguments and the report, each of which may
  throw.
\<close>

record platform =
  shape_tables :: "jsval \<Rightarrow> error + jsval"
  shape_columns :: "jsval \<Rightarrow> jsval \<Rightarrow> error + jsval"

type_synonym halo_run = "(error + content) \<times> halo_client \<times> http_request list"

definition query_then :: "world \<Rightarrow> halo_client \<Rightarrow> error + string \<Rightarrow> (jsval \<Rightarrow> error + jsval) \<Rightarrow> halo_run" where
  "query_then w c sql shape =
     (case sql of
        Inl e \<Rightarrow> (Inl e, c, [])
      | Inr q \<Rightarrow>
          (case executeQuery w c (JStr q) of
             (Inl e, c', log) \<Rightarrow> (Inl e, c', log)
           | (Inr result, c', log) \<Rightarrow>
               (case shape result of
                  Inl e \<Rightarrow> (Inl e, c', log)
                | Inr v \<Rightarrow> (Inr (JsonText v), c', log))))"

text \<open>The tool names the \<open>switch\<close> has a case for.\<close>

definition halo_tool_names :: "string list" where
  "halo_tool_names =
     [''halopsa_list_tables'', ''halopsa_list_columns'', ''halopsa_query'',
      ''halopsa_table_info'', ''halopsa_build_query'']"

text \<open>The body of the \<open>try\<close>: the \<open>switch\<close> over the tool name.\<close>

definition halo_dispatch :: "platform \<Rightarrow> world \<Rightarrow> halo_client \<Rightarrow> string \<Rightarrow> args \<Rightarrow> halo_run" where
  "halo_dispatch pf w c name a =
     (if name = ''halopsa_list_tables'' then
        (case destructure ''filter'' a of
           Inl e \<Rightarrow> (Inl e, c, [])
         | Inr entries \<Rightarrow>
             query_then w c (list_tables_sql (arg_of entries ''filter'')) (shape_tables pf))
      else if name = ''halopsa_list_columns'' then
        (case destructure ''tableName'' a of
           Inl e \<Rightarrow> (Inl e, c, [])
         | Inr entries \<Rightarrow>
             query_then w c
               (list_columns_sql (arg_of entries ''tableName'') (arg_of entries ''columnFilter''))
               (shape_columns pf (arg_of entries ''tableName'')))
      else if name = ''halopsa_query'' then
        (case destructure ''sql'' a of
           Inl e \<Rightarrow> (Inl e, c, [])
         | Inr entries \<Rightarrow>
             (case executeQuery w c (arg_of entries ''sql'') of
                (Inl e, c', log) \<Rightarrow> (Inl e, c', log)
              | (Inr result, c', log) \<Rightarrow> (Inr (JsonText result), c', log)))
      else if name = ''halopsa_table_info'' then
        (case destructure ''tableName'' a of
           Inl e \<Rightarrow> (Inl e, c, [])
         | Inr entries \<Rightarrow>
             query_then w c (table_info_sql (arg_of entries ''tableName''))
               (table_info_reply (js_String (arg_of entries ''tableName''))))
      else if name = ''halopsa_build_query'' then
        (case destructure ''tableName'' a of
           Inl e \<Rightarrow> (Inl e, c, [])
         | Inr entries \<Rightarrow>
             (case build_query entries of
                Inl e \<Rightarrow> (Inl e, c, [])
              | Inr query \<Rightarrow> (Inr (PlainText query), c, [])))
      else (Inl (Error (''Unknown tool: '' @ name)), c, []))"

text \<open>
  The handler: whatever the \<open>try\<close> body throws is turned into an error envelope by the
  \<open>catch\<close>.
\<close>

definition halo_handler ::
  "platform \<Rightarrow> world \<Rightarrow> halo_client \<Rightarrow> string \<Rightarrow> args
     \<Rightarrow> tool_response outcome \<times> halo_client \<times> http_request list" where
  "halo_handler pf w c name a =
     (case halo_dispatch pf w c name a of
        (Inr text, c', log) \<Rightarrow> (Returned \<lparr>tr_content = text, tr_isError = False\<rparr>, c', log)
      | (Inl e, c', log) \<Rightarrow>
          (Returned \<lparr>tr_content = PlainText (''Error: '' @ error_message e), tr_isError = True\<rparr>,
           c', log))"

subsection \<open>NinjaOne: the call-tool handler\<close>

record ninja_env =
  env_clientId :: "string option"
  env_clientSecret :: "string option"
  env_region :: "string option"
  env_scope :: "string option"

definition env_truthy :: "string option \<Rightarrow> bool" where
  "env_truthy v = (case v of None \<Rightarrow> False | Some s \<Rightarrow> s \<noteq> [])"

text \<open>\<open>initializeClient\<close>: throws unless both credentials are set.\<close>

definition initializeClient :: "ninja_env \<Rightarrow> error + ninja_client" where
  "initializeClient env =
     (if \<not> env_truthy (env_clientId env) \<or> \<not> env_truthy (env_clientSecret env)
      then Inl (Error ''NINJAONE_CLIENT_ID and NINJAONE_CLIENT_SECRET environment variables are required'')
      else Inr (new_NinjaOneClient
                  (or_default (env_clientId env) [])
                  (or_default (env_clientSecret env) [])
                  (or_default (env_region env) ''us'')
                  (or_default (env_scope env) ''monitoring'')))"

text \<open>
  \<open>getArg(key, defaultValue)\<close>: the member when the bag is there and has the key, and
  the default (\<open>undefined\<close> when none is given) otherwise.
\<close>

definition getArg :: "args \<Rightarrow> string \<Rightarrow> jsval \<Rightarrow> jsval" where
  "getArg a key defaultValue =
     (case a of
        None \<Rightarrow> defaultValue
      | Some entries \<Rightarrow> (case map_of entries key of None \<Rightarrow> defaultValue | Some v \<Rightarrow> v))"

text \<open>
  The \<open>switch\<close>: each tool name selects one method of the client and the arguments it
  is called with; an unknown name selects nothing.
\<close>

definition ninja_route :: "string \<Rightarrow> args \<Rightarrow> (string \<times> jsval list) option" where
  "ninja_route name a =
     (let g = (\<lambda>key. getArg a key JUndefined) in
      map_of
       [(''ninjaone_get_organizations'', (''getOrganizations'', [g ''pageSize'', g ''after''])),
        (''ninjaone_get_organization'', (''getOrganization'', [g ''id''])),
        (''ninjaone_get_devices'', (''getDevices'', [g ''pageSize'', g ''after'', g ''df''])),
        (''ninjaone_get_device'', (''getDevice'', [g ''id''])),
        (''ninjaone_get_devices_by_org'',
           (''getDevicesByOrganization'', [g ''orgId'', g ''pageSize'', g ''after''])),
        (''ninjaone_get_alerts'', (''getAlerts'', [g ''status'', g ''since''])),
        (''ninjaone_reset_alert'', (''resetAlert'', [g ''uid''])),
        (''ninjaone_get_activities'',
           (''getActivities'', [g ''pageSize'', g ''after'', g ''since'', g ''type''])),
        (''ninjaone_get_device_activities'',
           (''getDeviceActivities'', [g ''deviceId'', g ''pageSize'', g ''after'', g ''since''])),
        (''ninjaone_get_device_software'', (''getDeviceSoftware'', [g ''deviceId''])),
        (''ninjaone_get_org_software'', (''getOrganizationSoftware'', [g ''orgId''])),
        (''ninjaone_get_policies'', (''getPolicies'', [])),
        (''ninjaone_get_policy'', (''getPolicy'', [g ''id''])),
        (''ninjaone_get_locations'', (''getLocations'', [g ''pageSize'', g ''after''])),
        (''ninjaone_get_location'', (''getLocation'', [g ''id''])),
        (''ninjaone_get_users'', (''getUsers'', [g ''pageSize'', g ''after''])),
        (''ninjaone_get_device_roles'', (''getDeviceRoles'', [])),
        (''ninjaone_get_device_custom_fields'', (''getDeviceCustomFields'', [g ''deviceId''])),
        (''ninjaone_update_device_custom_fields'',
           (''updateDeviceCustomFields'', [g ''deviceId'', g ''fields''])),
        (''ninjaone_get_jobs'', (''getJobs'', [g ''pageSize'', g ''after'', g ''status''])),
        (''ninjaone_get_job'', (''getJob'', [g ''id''])),
        (''ninjaone_get_tasks'', (''getTasks'', [g ''pageSize'', g ''after''])),
        (''ninjaone_run_script'',
           (''runScript'', [g ''deviceId'', g ''scriptId'', g ''parameters''])),
        (''ninjaone_get_api_schema_overview'', (''getApiSchemaOverview'', [])),
        (''ninjaone_get_api_endpoint_details'',
           (''getApiEndpointDetails'',
            [g ''pathPattern'', getArg a ''summaryOnly'' (JBool False),
             getArg a ''includeSchemas'' (JBool True), getArg a ''maxEndpoints'' (JNum 10),
             getArg a ''includeExamples'' (JBool False)])),
        (''ninjaone_search_devices'',
           (''searchDevices'',
            [g ''hostname'', g ''status'', g ''os'', g ''organization'', g ''location'',
             g ''deviceType'', g ''pageSize'', g ''after''])),
        (''ninjaone_api_call'',
           (''makeApiCall'', [g ''path'', g ''method'', g ''body'', g ''queryParams'']))]
       name)"

text \<open>
  A method of the client, called by name with its arguments: it returns a value or
  throws, and leaves the client with its token cache updated.
\<close>

type_synonym ninja_methods =
  "ninja_client \<Rightarrow> string \<Rightarrow> jsval list \<Rightarrow> (error + jsval) \<times> ninja_client"

text \<open>
  The handler. The client is created on the first call, before the \<open>try\<close>: an exception
  of \<open>initializeClient\<close> escapes. Inside the \<open>try\<close> every exception becomes an envelope.
\<close>

definition ninja_handler ::
  "ninja_env \<Rightarrow> ninja_methods \<Rightarrow> ninja_client option \<Rightarrow> string \<Rightarrow> args
     \<Rightarrow> tool_response outcome \<times> ninja_client option" where
  "ninja_handler env methods ninjaClient name a =
     (case (case ninjaClient of
              None \<Rightarrow> initializeClient env
            | Some c \<Rightarrow> Inr c) of
        Inl e \<Rightarrow> (Thrown e, ninjaClient)
      | Inr c \<Rightarrow>
          (case ninja_route name a of
             None \<Rightarrow>
               (Returned \<lparr>tr_content = PlainText (''Error: '' @ ''Unknown tool: '' @ name),
                          tr_isError = False\<rparr>, Some c)
           | Some (m, actuals) \<Rightarrow>
               (case methods c m actuals of
                  (Inl e, c') \<Rightarrow>
                    (Returned \<lparr>tr_content = PlainText (''Error: '' @ error_message e),
                               tr_isError = False\<rparr>, Some c')
                | (Inr result, c') \<Rightarrow>
                    (Returned \<lparr>tr_content = JsonText result, tr_isError = False\<rparr>, Some c'))))"

section \<open>Sample documents and clients\<close>

text \<open>Concrete inputs on which the theorems below are instantiated.\<close>

definition plain_operation :: operation where
  "plain_operation =
     \<lparr>op_operationId = None, op_summary = None, op_description = None, op_tags = None,
      op_parameters = None, op_requestBody = None, op_responses = None, op_security = None\<rparr>"

definition fresh_cw_client :: "openapi_schema \<Rightarrow> cw_client" where
  "fresh_cw_client schema =
     \<lparr>c_clientId = ''id'', c_clientSecret = ''secret'',
      c_baseUrl = ''https://openapi.service.auplatform.connectwise.com'',
      c_accessToken = None, c_tokenExpiry = None, c_schema = Some schema, c_schemaCache = []\<rparr>"

definition no_options :: cw_options where
  "no_options = \<lparr>o_includeSchemas = None, o_includeExamples = None, o_summaryOnly = None,
                  o_maxEndpoints = None\<rparr>"

definition ticket_operation :: "string \<Rightarrow> operation" where
  "ticket_operation summary = plain_operation\<lparr>op_summary := Some summary\<rparr>"

definition ticket_schema :: openapi_schema where
  "ticket_schema =
     \<lparr>oa_servers = JNull,
      oa_paths = [(''/api/tickets'', [(''get'', Operation (ticket_operation ''List tickets'')),
                                      (''parameters'', NotAnObject),
                                      (''post'', Operation (ticket_operation ''Create ticket''))]),
                  (''/api/companies'', [(''post'', Operation (ticket_operation ''Create company''))])]\<rparr>"

definition halo_ticket_paths :: "(string \<times> jsval) list" where
  "halo_ticket_paths =
     [(''/Tickets'', JObj [(''post'', JObj [(''summary'', JStr ''Create ticket'')])])]"

definition halo_ticket_doc :: api_doc where
  "halo_ticket_doc = \<lparr>doc_info = JNull, doc_servers = JNull,
                       doc_paths = Some halo_ticket_paths, doc_schemas = None\<rparr>"

definition device_paths :: "(string \<times> jsval) list" where
  "device_paths =
     [(''/v2/devices'', JObj [(''get'', JObj [(''summary'', JStr ''List devices'')])]),
      (''/v2/device/{id}'', JObj [(''get'', JObj [(''summary'', JStr ''Get device'')])]),
      (''/v2/organizations'', JObj [(''get'', JObj [(''summary'', JStr ''List organizations'')])]),
      (''/v2/device/{id}/software'', JObj [(''get'', JObj [])]),
      (''/v2/Device-roles'', JObj [(''get'', JObj [])]),
      (''/v2/organization/{id}/devices'', JObj [(''get'', JObj [])])]"

definition device_doc :: api_doc where
  "device_doc = \<lparr>doc_info = JNull, doc_servers = JNull, doc_paths = Some device_paths,
                  doc_schemas = None\<rparr>"

definition device_response :: "api_doc response" where
  "device_response =
     \<lparr>resp_ok = True, resp_status = 200, resp_statusText = ''OK'',
      resp_contentType = Some ''application/json'', resp_body = [],
      resp_json = Some device_doc\<rparr>"

definition two_device_schema :: openapi_schema where
  "two_device_schema =
     \<lparr>oa_servers = JNull,
      oa_paths = [(''/devices'', [(''get'', Operation plain_operation),
                                  (''post'', Operation plain_operation)])]\<rparr>"

definition many_devices_schema :: openapi_schema where
  "many_devices_schema =
     \<lparr>oa_servers = JNull,
      oa_paths = map (\<lambda>i. (''/devices/'' @ show_nat i, [(''get'', Operation plain_operation)]))
                   [0..<51]\<rparr>"

definition ticket_doc :: api_doc where
  "ticket_doc =
     \<lparr>doc_info = JNull, doc_servers = JNull, doc_paths = None,
      doc_schemas = Some [(''Ticket'', JNum 1), (''TicketType'', JNum 2), (''Asset'', JNum 3),
                          (''NewTicket'', JNum 4), (''ticketrule'', JNum 5),
                          (''TicketArea'', JNum 6)]\<rparr>"

definition hour_token :: token_response where
  "hour_token = \<lparr>access_token = ''abc'', token_type = ''Bearer'', expires_in = 3600,
                  granted_scope = ''monitoring''\<rparr>"

definition token_granted :: "token_response fetch_result" where
  "token_granted =
     Response \<lparr>resp_ok = True, resp_status = 200, resp_statusText = ''OK'',
               resp_contentType = Some ''application/json'', resp_body = [],
               resp_json = Some hour_token\<rparr>"

definition plain_text_reply :: "jsval fetch_result" where
  "plain_text_reply =
     Response \<lparr>resp_ok = True, resp_status = 200, resp_statusText = ''OK'',
               resp_contentType = Some ''text/plain'', resp_body = ''pong'',
               resp_json = None\<rparr>"

definition json_reply :: "jsval fetch_result" where
  "json_reply =
     Response \<lparr>resp_ok = True, resp_status = 200, resp_statusText = ''OK'',
               resp_contentType = Some ''application/json; charset=utf-8'',
               resp_body = ''{}'', resp_json = Some (JObj [])\<rparr>"

definition sample_world :: world where
  "sample_world = \<lparr>w_now = 0, w_token_reply = token_granted, w_token_time = 0,
                    w_api_reply = plain_text_reply\<rparr>"

definition sample_halo_client :: halo_client where
  "sample_halo_client =
     \<lparr>h_url = ''https://halo.example'', h_clientId = ''id'', h_clientSecret = ''secret'',
      h_tenant = ''acme'', h_accessToken = None, h_tokenExpiry = None\<rparr>"

definition sample_ninja_client :: ninja_client where
  "sample_ninja_client = new_NinjaOneClient ''id'' ''secret'' ''eu'' ''monitoring''"

definition empty_env :: ninja_env where
  "empty_env = \<lparr>env_clientId = None, env_clientSecret = None, env_region = None,
                 env_scope = None\<rparr>"

definition sample_env :: ninja_env where
  "sample_env = \<lparr>env_clientId = Some ''id'', env_clientSecret = Some ''secret'',
                  env_region = None, env_scope = None\<rparr>"

definition failing_methods :: ninja_methods where
  "failing_methods c m actuals = (Inl (TypeError ''fetch failed''), c)"

definition failing_platform :: platform where
  "failing_platform =
     \<lparr>shape_tables = (\<lambda>result. Inl (TypeError ''Cannot read properties of null'')),
      shape_columns = (\<lambda>tableName result. Inl (TypeError ''Cannot read properties of null''))\<rparr>"

definition sample_query_args :: "(string \<times> jsval) list" where
  "sample_query_args =
     [(''tableName'', JStr ''FAULTS''),
      (''columns'', JArr [JStr ''Faultid'', JStr ''Symptom'']),
      (''conditions'', JObj [(''Status'', JNum 1),
                             (''Symptom'', JStr (''O'' @ squote @ ''Neil'' @ squote @ ''s'')),
                             (''Closed'', JNull)]),
      (''orderBy'', JStr ''datereported DESC''),
      (''limit'', JNum 10)]"

section \<open>Properties of the string primitives\<close>

text \<open>\<open>str_includes\<close> is the contiguous-substring relation; the pieces of a split occur in the string.\<close>


lemma str_includes_sublist: "str_includes s n \<longleftrightarrow> sublist n s"
  by (induction s) (simp_all add: sublist_Cons_right)

lemma split_scan_pieces:
  "(in_space \<longrightarrow> cur = []) \<Longrightarrow>
   set (split_scan cs pieces cur in_space) \<subseteq> set pieces \<union> {t. sublist t (cur @ cs)}"
proof (induction cs arbitrary: pieces cur in_space)
  case Nil
  then show ?case by auto
next
  case (Cons c cs)
  show ?case
  proof (cases "is_space c")
    case False
    have "set (split_scan cs pieces (cur @ [c]) False) \<subseteq> set pieces \<union> {t. sublist t ((cur @ [c]) @ cs)}"
      by (rule Cons.IH) simp
    with False show ?thesis by simp
  next
    case True
    show ?thesis
    proof (cases in_space)
      case True
      with Cons.prems have cur: "cur = []" by simp
      have "set (split_scan cs pieces cur True) \<subseteq> set pieces \<union> {t. sublist t (cur @ cs)}"
        by (rule Cons.IH) (simp add: cur)
      moreover have "\<And>t. sublist t (cur @ cs) \<Longrightarrow> sublist t (cur @ c # cs)"
        using cur by (simp add: sublist_Cons_right)
      ultimately show ?thesis using \<open>is_space c\<close> True by auto
    next
      case False
      have "set (split_scan cs (pieces @ [cur]) [] True)
          \<subseteq> set (pieces @ [cur]) \<union> {t. sublist t ([] @ cs)}"
        by (rule Cons.IH) simp
      moreover have "sublist cur (cur @ c # cs)"
        unfolding sublist_def by (intro exI [of _ "[]"] exI [of _ "c # cs"]) simp
      moreover have "\<And>t. sublist t cs \<Longrightarrow> sublist t (cur @ c # cs)"
        unfolding sublist_def
      proof -
        fix t assume "\<exists>ps ss. cs = ps @ t @ ss"
        then obtain ps ss where "cs = ps @ t @ ss" by blast
        then have "cur @ c # cs = (cur @ c # ps) @ t @ ss" by simp
        then show "\<exists>ps ss. cur @ c # cs = ps @ t @ ss" by blast
      qed
      ultimately show ?thesis using \<open>is_space c\<close> False by auto
    qed
  qed
qed

lemma split_whitespace_pieces:
  "t \<in> set (split_whitespace s) \<Longrightarrow> sublist t s"
  using split_scan_pieces [of False "[]" s "[]"] by (auto simp: split_whitespace_def)

lemma whole_query_gives_terms:
  assumes "str_includes stext (toLowerCase query)"
    and "t \<in> set (split_whitespace (toLowerCase query))"
  shows "str_includes stext t"
proof -
  from assms(2) have "sublist t (toLowerCase query)" by (rule split_whitespace_pieces)
  moreover from assms(1) have "sublist (toLowerCase query) stext" by (simp add: str_includes_sublist)
  ultimately have "sublist t stext" by (rule sublist_order.order_trans)
  then show ?thesis by (simp add: str_includes_sublist)
qed

section \<open>Properties of the token cache\<close>

lemma token_valid_iff:
  "token_valid (Some tok) (Some e) t \<longleftrightarrow> tok \<noteq> [] \<and> t < e"
  by (simp add: token_valid_def)

lemma ninja_cached_token_reused:
  "token_valid (n_accessToken c) (n_tokenExpiry c) (w_now w) \<Longrightarrow>
   ninja_ensureAuthenticated w c = (Inr (), c, [])"
  by (simp add: ninja_ensureAuthenticated_def)

lemma ninja_token_refresh:
  assumes "\<not> token_valid (n_accessToken c) (n_tokenExpiry c) (w_now w)"
    and "w_token_reply w = Response r" and "resp_ok r" and "resp_json r = Some d"
  shows "\<exists>c'. ninja_ensureAuthenticated w c = (Inr (), c', [ninja_token_request c])
          \<and> n_accessToken c' = Some (access_token d)
          \<and> n_tokenExpiry c' = Some (w_token_time w + (expires_in d - 60) * 1000)
          \<and> (\<forall>t. token_valid (n_accessToken c') (n_tokenExpiry c') t \<longleftrightarrow>
                 access_token d \<noteq> [] \<and> t < w_token_time w + expires_in d * 1000 - 60000)"
  using assms
  by (simp add: ninja_ensureAuthenticated_def ninja_authenticate_def
      ninja_authenticate_resume_def token_valid_def algebra_simps)

lemma halo_cached_token_reused:
  "token_valid (h_accessToken c) (h_tokenExpiry c) (w_now w) \<Longrightarrow>
   halo_authenticate w c = (Inr (), c, [])"
  by (simp add: halo_authenticate_def)

lemma halo_token_refresh:
  assumes "\<not> token_valid (h_accessToken c) (h_tokenExpiry c) (w_now w)"
    and "w_token_reply w = Response r" and "resp_ok r" and "resp_json r = Some d"
  shows "\<exists>c'. halo_authenticate w c = (Inr (), c', [halo_token_request c])
          \<and> h_accessToken c' = Some (access_token d)
          \<and> h_tokenExpiry c' = Some (w_token_time w + (expires_in d - 60) * 1000)
          \<and> (\<forall>t. token_valid (h_accessToken c') (h_tokenExpiry c') t \<longleftrightarrow>
                 access_token d \<noteq> [] \<and> t < w_token_time w + expires_in d * 1000 - 60000)"
  using assms
  by (simp add: halo_authenticate_def token_valid_def Let_def algebra_simps)

lemma cw_cached_token_reused:
  "token_valid (c_accessToken c) (c_tokenExpiry c) (w_now w) \<Longrightarrow>
   cw_authenticate w c = (Inr (), c, [])"
  by (simp add: cw_authenticate_def)

lemma cw_token_refresh:
  assumes "\<not> token_valid (c_accessToken c) (c_tokenExpiry c) (w_now w)"
    and "w_token_reply w = Response r" and "resp_ok r" and "resp_json r = Some d"
  shows "\<exists>c'. cw_authenticate w c = (Inr (), c', [cw_token_request c])
          \<and> c_accessToken c' = Some (access_token d)
          \<and> c_tokenExpiry c' = Some (w_token_time w + expires_in d * 1000)
          \<and> (\<forall>t. token_valid (c_accessToken c') (c_tokenExpiry c') t \<longleftrightarrow>
                 access_token d \<noteq> [] \<and> t < w_token_time w + expires_in d * 1000)"
  using assms
  by (simp add: cw_authenticate_def token_valid_def Let_def algebra_simps)

text \<open>
  Claim C1 on the ConnectWise client. A token granted at time 0 for 3600 seconds is
  cached there with the expiry 3600000 ms, with no margin: at 3540000 ms (granted + E - 60 s)
  the token still counts as valid and \<open>authenticate\<close> sends no request. The HaloPSA and the
  NinjaOne client, given the same grant, cache 3540000 ms and take the token as invalid at
  that instant.
\<close>

theorem connectwise_token_kept_for_full_lifetime:
  "fst (cw_authenticate sample_world (fresh_cw_client two_device_schema)) = Inr ()
   \<and> c_tokenExpiry (fst (snd (cw_authenticate sample_world (fresh_cw_client two_device_schema))))
       = Some 3600000
   \<and> token_valid
         (c_accessToken (fst (snd (cw_authenticate sample_world (fresh_cw_client two_device_schema)))))
         (c_tokenExpiry (fst (snd (cw_authenticate sample_world (fresh_cw_client two_device_schema)))))
         3540000
   \<and> snd (snd (cw_authenticate (sample_world\<lparr>w_now := 3540000\<rparr>)
                  (fst (snd (cw_authenticate sample_world (fresh_cw_client two_device_schema))))))
       = []
   \<and> h_tokenExpiry (fst (snd (halo_authenticate sample_world sample_halo_client))) = Some 3540000
   \<and> \<not> token_valid
         (h_accessToken (fst (snd (halo_authenticate sample_world sample_halo_client))))
         (h_tokenExpiry (fst (snd (halo_authenticate sample_world sample_halo_client))))
         3540000
   \<and> n_tokenExpiry (fst (snd (ninja_ensureAuthenticated sample_world sample_ninja_client)))
       = Some 3540000
   \<and> \<not> token_valid
         (n_accessToken (fst (snd (ninja_ensureAuthenticated sample_world sample_ninja_client))))
         (n_tokenExpiry (fst (snd (ninja_ensureAuthenticated sample_world sample_ninja_client))))
         3540000"
  by (simp add: cw_authenticate_def sample_world_def fresh_cw_client_def token_granted_def
      hour_token_def token_valid_def Let_def halo_authenticate_def sample_halo_client_def
      ninja_ensureAuthenticated_def ninja_authenticate_def ninja_authenticate_resume_def
      sample_ninja_client_def new_NinjaOneClient_def)

section \<open>Properties of overlapping callers\<close>

lemma overlap_calls_client:
  "os_client (overlap_run s (map Call ts)) = os_client s"
  unfolding overlap_run_def by (induction ts arbitrary: s) simp_all

lemma overlap_calls_each_request:
  "\<forall>t \<in> set ts. \<not> token_valid (n_accessToken (os_client s)) (n_tokenExpiry (os_client s)) t \<Longrightarrow>
   os_log (overlap_run s (map Call ts))
     = os_log s @ replicate (length ts) (ninja_token_request (os_client s))
   \<and> os_pending (overlap_run s (map Call ts)) = os_pending s + length ts"
  unfolding overlap_run_def
proof (induction ts arbitrary: s)
  case Nil
  then show ?case by simp
next
  case (Cons t ts)
  let ?s = "s\<lparr>os_pending := os_pending s + 1,
               os_log := os_log s @ [ninja_token_request (os_client s)]\<rparr>"
  from Cons.prems have step: "overlap_step s (Call t) = ?s" by simp
  have "\<forall>t \<in> set ts. \<not> token_valid (n_accessToken (os_client ?s)) (n_tokenExpiry (os_client ?s)) t"
    using Cons.prems by simp
  from Cons.IH [OF this] step show ?case
    by (simp add: replicate_app_Cons_same)
qed

lemma overlap_sequential_refresh:
  "overlap_run s [Call t, Reply reply t']
   = (if token_valid (n_accessToken (os_client s)) (n_tokenExpiry (os_client s)) t
      then overlap_step s (Reply reply t')
      else s\<lparr>os_client := snd (ninja_authenticate_resume reply t' (os_client s)),
             os_log := os_log s @ [ninja_token_request (os_client s)]\<rparr>)"
  by (simp add: overlap_run_def)

text \<open>
  Claim C6, as amended. The clients have no single-flight guard: every caller of
  \<open>ensureAuthenticated\<close> that finds the cached token absent or expired sends a token
  request of its own. \<open>N\<close> callers that enter before any reply is handled make exactly
  \<open>N\<close> token exchanges; a caller that enters after a granted token was stored, and before
  its expiry, makes none.
\<close>

theorem overlapping_callers_each_exchange:
  "((\<forall>t \<in> set ts. \<not> token_valid (n_accessToken (os_client s)) (n_tokenExpiry (os_client s)) t) \<longrightarrow>
      os_log (overlap_run s (map Call ts))
        = os_log s @ replicate (length ts) (ninja_token_request (os_client s)))
   \<and> (token_valid (n_accessToken (os_client s)) (n_tokenExpiry (os_client s)) t \<longrightarrow>
        os_log (overlap_run s [Call t]) = os_log s)
   \<and> (ninja_ensureAuthenticated w c
        = (if token_valid (n_accessToken c) (n_tokenExpiry c) (w_now w) then (Inr (), c, [])
           else (fst (ninja_authenticate_resume (w_token_reply w) (w_token_time w) c),
                 os_client (overlap_run \<lparr>os_client = c, os_pending = 0, os_log = []\<rparr>
                              [Call (w_now w), Reply (w_token_reply w) (w_token_time w)]),
                 os_log (overlap_run \<lparr>os_client = c, os_pending = 0, os_log = []\<rparr>
                              [Call (w_now w), Reply (w_token_reply w) (w_token_time w)]))))"
proof (intro conjI impI)
  assume "\<forall>t \<in> set ts. \<not> token_valid (n_accessToken (os_client s)) (n_tokenExpiry (os_client s)) t"
  from overlap_calls_each_request [OF this]
  show "os_log (overlap_run s (map Call ts))
        = os_log s @ replicate (length ts) (ninja_token_request (os_client s))" by simp
next
  assume "token_valid (n_accessToken (os_client s)) (n_tokenExpiry (os_client s)) t"
  then show "os_log (overlap_run s [Call t]) = os_log s" by (simp add: overlap_run_def)
next
  show "ninja_ensureAuthenticated w c
        = (if token_valid (n_accessToken c) (n_tokenExpiry c) (w_now w) then (Inr (), c, [])
           else (fst (ninja_authenticate_resume (w_token_reply w) (w_token_time w) c),
                 os_client (overlap_run \<lparr>os_client = c, os_pending = 0, os_log = []\<rparr>
                              [Call (w_now w), Reply (w_token_reply w) (w_token_time w)]),
                 os_log (overlap_run \<lparr>os_client = c, os_pending = 0, os_log = []\<rparr>
                              [Call (w_now w), Reply (w_token_reply w) (w_token_time w)])))"
    by (simp add: ninja_ensureAuthenticated_def ninja_authenticate_def overlap_run_def
        split: prod.splits)
qed

theorem overlapping_callers_each_exchange_witness:
  "length (os_log (overlap_run \<lparr>os_client = sample_ninja_client, os_pending = 0, os_log = []\<rparr>
                     (map Call [5, 6, 7]))) = 3
   \<and> os_log (overlap_run \<lparr>os_client = sample_ninja_client, os_pending = 0, os_log = []\<rparr>
                [Call 5, Reply token_granted 10, Call 20])
       = [ninja_token_request sample_ninja_client]"
proof -
  let ?s = "\<lparr>os_client = sample_ninja_client, os_pending = 0, os_log = []\<rparr>"
  have inv: "\<forall>t \<in> set [5, 6, 7].
      \<not> token_valid (n_accessToken (os_client ?s)) (n_tokenExpiry (os_client ?s)) t"
    by (simp add: sample_ninja_client_def new_NinjaOneClient_def token_valid_def)
  from overlapping_callers_each_exchange [of "[5, 6, 7]" ?s] inv
  have "os_log (overlap_run ?s (map Call [5, 6, 7]))
      = os_log ?s @ replicate (length [5, 6, 7::int]) (ninja_token_request (os_client ?s))"
    by blast
  then have A: "length (os_log (overlap_run ?s (map Call [5, 6, 7]))) = 3" by simp
  let ?s1 = "overlap_run ?s [Call 5, Reply token_granted 10]"
  have s1: "os_log ?s1 = [ninja_token_request sample_ninja_client]"
    "token_valid (n_accessToken (os_client ?s1)) (n_tokenExpiry (os_client ?s1)) 20"
    by (simp_all add: overlap_run_def sample_ninja_client_def new_NinjaOneClient_def
        token_valid_def ninja_authenticate_resume_def token_granted_def hour_token_def)
  from overlapping_callers_each_exchange [of _ ?s1 20] s1(2)
  have "os_log (overlap_run ?s1 [Call 20]) = os_log ?s1" by blast
  moreover have "overlap_run ?s [Call 5, Reply token_granted 10, Call 20] = overlap_run ?s1 [Call 20]"
    by (simp add: overlap_run_def)
  ultimately have B: "os_log (overlap_run ?s [Call 5, Reply token_granted 10, Call 20])
       = [ninja_token_request sample_ninja_client]" using s1(1) by simp
  from A B show ?thesis by blast
qed

text \<open>
  The claim as stated fails: two callers that both find no token, before either reply
  is handled, make two token exchanges.
\<close>

theorem two_callers_two_exchanges:
  "os_log (overlap_run \<lparr>os_client = sample_ninja_client, os_pending = 0, os_log = []\<rparr>
             [Call 5, Call 6, Reply token_granted 10, Reply token_granted 11])
   = [ninja_token_request sample_ninja_client, ninja_token_request sample_ninja_client]"
  by (simp add: overlap_run_def sample_ninja_client_def new_NinjaOneClient_def
      token_valid_def ninja_authenticate_resume_def token_granted_def hour_token_def)

section \<open>Properties of request dispatch\<close>

lemma str_includes_nonempty: "str_includes s n \<Longrightarrow> n \<noteq> [] \<Longrightarrow> s \<noteq> []"
  by (cases s) simp_all

lemma json_content_type_code:
  "(case ct of None \<Rightarrow> False | Some s \<Rightarrow> s \<noteq> [] \<and> str_includes s ''application/json'')
   = json_content_type ct"
  by (cases ct) (auto simp: json_content_type_def dest: str_includes_nonempty)

lemma halo_makeApiCall_ok:
  assumes "halo_authenticate w c = (Inr (), c', log)"
    and "w_api_reply w = Response r" and "resp_ok r"
  shows "fst (halo_makeApiCall w c path verb body qs)
         = (if \<not> params_convertible qs
            then Inl (TypeError ''Cannot convert object to primitive value'')
            else if json_content_type (resp_contentType r)
            then (case resp_json r of
                    Some v \<Rightarrow> Inr v
                  | None \<Rightarrow> Inl (Error (''Failed to make API call: '' @ error_string json_parse_error)))
            else Inr (JStr (resp_body r)))"
  using assms
  by (simp add: halo_makeApiCall_def Let_def json_content_type_code split: option.splits)

lemma ninja_request_ok:
  assumes "ninja_ensureAuthenticated w c = (Inr (), c', log)"
    and "w_api_reply w = Response r" and "resp_ok r"
  shows "fst (ninja_request w c path verb body)
         = (case resp_json r of Some v \<Rightarrow> Inr v | None \<Rightarrow> Inl json_parse_error)"
  using assms by (simp add: ninja_request_def Let_def split: option.splits)

lemma cw_makeRequest_ok:
  assumes "cw_authenticate w c = (Inr (), c', log)"
    and "w_api_reply w = Response r" and "resp_ok r"
  shows "fst (cw_makeRequest w c verb path body qs)
         = (if \<not> params_convertible qs
            then Inl (Error (''API request failed: ''
                             @ ''Cannot convert object to primitive value''))
            else if resp_body r = [] then Inr JNull
            else (case resp_json r of
                    Some v \<Rightarrow> Inr v
                  | None \<Rightarrow> Inl (Error (''API request failed: '' @ error_message json_parse_error))))"
  using assms by (simp add: cw_makeRequest_def Let_def split: option.splits)

text \<open>
  Claim C8, as amended. For a dispatched request that receives a 2xx response: the
  HaloPSA \<open>makeApiCall\<close> returns the parsed JSON body when the content type includes
  \<open>application/json\<close> and the raw text otherwise. The NinjaOne \<open>request\<close> and the
  ConnectWise \<open>makeRequest\<close> do not look at the content type: the first always parses the
  body as JSON, the second returns \<open>null\<close> for an empty body and parses any other; a body
  that does not parse is an error, never raw text. (In the HaloPSA and the ConnectWise
  client a query parameter that cannot be converted to a string throws before the request
  is sent.)
\<close>

theorem ok_response_decoding:
  "(halo_authenticate w hc = (Inr (), hc', hlog) \<and> w_api_reply w = Response r \<and> resp_ok r \<longrightarrow>
      fst (halo_makeApiCall w hc path hverb body qs)
        = (if \<not> params_convertible qs
           then Inl (TypeError ''Cannot convert object to primitive value'')
           else if json_content_type (resp_contentType r)
           then (case resp_json r of
                   Some v \<Rightarrow> Inr v
                 | None \<Rightarrow> Inl (Error (''Failed to make API call: '' @ error_string json_parse_error)))
           else Inr (JStr (resp_body r))))
   \<and> (ninja_ensureAuthenticated w nc = (Inr (), nc', nlog) \<and> w_api_reply w = Response r \<and> resp_ok r \<longrightarrow>
      fst (ninja_request w nc path verb rbody)
        = (case resp_json r of Some v \<Rightarrow> Inr v | None \<Rightarrow> Inl json_parse_error))
   \<and> (cw_authenticate w cc = (Inr (), cc', clog) \<and> w_api_reply w = Response r \<and> resp_ok r \<longrightarrow>
      fst (cw_makeRequest w cc verb path body qs)
        = (if \<not> params_convertible qs
           then Inl (Error (''API request failed: ''
                            @ ''Cannot convert object to primitive value''))
           else if resp_body r = [] then Inr JNull
           else (case resp_json r of
                   Some v \<Rightarrow> Inr v
                 | None \<Rightarrow> Inl (Error (''API request failed: '' @ error_message json_parse_error)))))"
proof (intro conjI impI)
  assume "halo_authenticate w hc = (Inr (), hc', hlog) \<and> w_api_reply w = Response r \<and> resp_ok r"
  then have "halo_authenticate w hc = (Inr (), hc', hlog)" "w_api_reply w = Response r" "resp_ok r"
    by simp_all
  then show "fst (halo_makeApiCall w hc path hverb body qs)
        = (if \<not> params_convertible qs
           then Inl (TypeError ''Cannot convert object to primitive value'')
           else if json_content_type (resp_contentType r)
           then (case resp_json r of
                   Some v \<Rightarrow> Inr v
                 | None \<Rightarrow> Inl (Error (''Failed to make API call: '' @ error_string json_parse_error)))
           else Inr (JStr (resp_body r)))"
    by (rule halo_makeApiCall_ok)
next
  assume "ninja_ensureAuthenticated w nc = (Inr (), nc', nlog) \<and> w_api_reply w = Response r \<and> resp_ok r"
  then have "ninja_ensureAuthenticated w nc = (Inr (), nc', nlog)" "w_api_reply w = Response r" "resp_ok r"
    by simp_all
  then show "fst (ninja_request w nc path verb rbody)
        = (case resp_json r of Some v \<Rightarrow> Inr v | None \<Rightarrow> Inl json_parse_error)"
    by (rule ninja_request_ok)
next
  assume "cw_authenticate w cc = (Inr (), cc', clog) \<and> w_api_reply w = Response r \<and> resp_ok r"
  then have "cw_authenticate w cc = (Inr (), cc', clog)" "w_api_reply w = Response r" "resp_ok r"
    by simp_all
  then show "fst (cw_makeRequest w cc verb path body qs)
        = (if \<not> params_convertible qs
           then Inl (Error (''API request failed: ''
                            @ ''Cannot convert object to primitive value''))
           else if resp_body r = [] then Inr JNull
           else (case resp_json r of
                   Some v \<Rightarrow> Inr v
                 | None \<Rightarrow> Inl (Error (''API request failed: '' @ error_message json_parse_error))))"
    by (rule cw_makeRequest_ok)
qed

theorem ok_response_decoding_witness:
  "fst (halo_makeApiCall sample_world sample_halo_client ''/api/ping'' None JUndefined None)
     = Inr (JStr ''pong'')
   \<and> fst (halo_makeApiCall (sample_world\<lparr>w_api_reply := json_reply\<rparr>) sample_halo_client
            ''/api/Ticket'' None JUndefined None) = Inr (JObj [])
   \<and> fst (ninja_request (sample_world\<lparr>w_api_reply := json_reply\<rparr>) sample_ninja_client
            ''/v2/devices'' ''GET'' None) = Inr (JObj [])
   \<and> fst (cw_makeRequest (sample_world\<lparr>w_api_reply := json_reply\<rparr>)
            (fresh_cw_client two_device_schema) ''GET'' ''/api/x'' JUndefined None) = Inr (JObj [])"
proof -
  let ?wj = "sample_world\<lparr>w_api_reply := json_reply\<rparr>"
  let ?pr = "\<lparr>resp_ok = True, resp_status = 200, resp_statusText = ''OK'',
               resp_contentType = Some ''text/plain'', resp_body = ''pong'',
               resp_json = None :: jsval option\<rparr>"
  let ?jr = "\<lparr>resp_ok = True, resp_status = 200, resp_statusText = ''OK'',
               resp_contentType = Some ''application/json; charset=utf-8'',
               resp_body = ''{}'', resp_json = Some (JObj [])\<rparr>"
  obtain hc' hlog where ha: "halo_authenticate sample_world sample_halo_client = (Inr (), hc', hlog)"
    by (simp add: halo_authenticate_def sample_world_def sample_halo_client_def token_granted_def
        token_valid_def Let_def)
  obtain hj' hjlog where haj: "halo_authenticate ?wj sample_halo_client = (Inr (), hj', hjlog)"
    by (simp add: halo_authenticate_def sample_world_def sample_halo_client_def token_granted_def
        token_valid_def Let_def)
  obtain nc' nlog where na: "ninja_ensureAuthenticated ?wj sample_ninja_client = (Inr (), nc', nlog)"
    by (simp add: ninja_ensureAuthenticated_def ninja_authenticate_def
        ninja_authenticate_resume_def sample_world_def sample_ninja_client_def
        new_NinjaOneClient_def token_granted_def token_valid_def Let_def)
  obtain cc' clog where ca:
    "cw_authenticate ?wj (fresh_cw_client two_device_schema) = (Inr (), cc', clog)"
    by (simp add: cw_authenticate_def sample_world_def fresh_cw_client_def token_granted_def
        token_valid_def Let_def)
  have rp: "w_api_reply sample_world = Response ?pr" "resp_ok ?pr"
    by (simp_all add: sample_world_def plain_text_reply_def)
  have rj: "w_api_reply ?wj = Response ?jr" "resp_ok ?jr"
    by (simp_all add: json_reply_def)
  have pc: "params_convertible None"
    by (simp add: params_convertible_def)
  have ctp: "\<not> json_content_type (resp_contentType ?pr)"
    by (simp add: json_content_type_def)
  have ctj: "json_content_type (resp_contentType ?jr)"
    by (simp add: json_content_type_def)
  from ok_response_decoding [where w = sample_world and hc = sample_halo_client and hc' = hc'
      and hlog = hlog and r = ?pr and qs = None] ha rp ctp pc
  have A: "fst (halo_makeApiCall sample_world sample_halo_client ''/api/ping'' None JUndefined None)
     = Inr (JStr ''pong'')" by simp
  from ok_response_decoding [where w = ?wj and hc = sample_halo_client and hc' = hj'
      and hlog = hjlog and r = ?jr and nc = sample_ninja_client and nc' = nc' and nlog = nlog
      and cc = "fresh_cw_client two_device_schema" and cc' = cc' and clog = clog
      and qs = None]
    haj na ca rj ctj pc
  have B: "fst (halo_makeApiCall ?wj sample_halo_client ''/api/Ticket'' None JUndefined None)
       = Inr (JObj [])"
    and C: "fst (ninja_request ?wj sample_ninja_client ''/v2/devices'' ''GET'' None) = Inr (JObj [])"
    and D: "fst (cw_makeRequest ?wj (fresh_cw_client two_device_schema) ''GET'' ''/api/x''
                   JUndefined None) = Inr (JObj [])"
    by simp_all
  from A B C D show ?thesis by blast
qed

text \<open>
  The claim as stated fails for the ConnectWise and the NinjaOne client: a 2xx response
  of type \<open>text/plain\<close> with the body \<open>pong\<close> is not returned as raw text; both throw
  (\<open>isl\<close>: the result is an error), where the HaloPSA client returns the text.
\<close>

theorem plain_text_reply_is_an_error:
  "isl (fst (cw_makeRequest sample_world (fresh_cw_client two_device_schema) ''GET'' ''/api/ping''
               JUndefined None))
   \<and> isl (fst (ninja_request sample_world sample_ninja_client ''/v2/ping'' ''GET'' None))
   \<and> fst (halo_makeApiCall sample_world sample_halo_client ''/api/ping'' None JUndefined None)
       = Inr (JStr ''pong'')"
  by (simp add: cw_makeRequest_def cw_authenticate_def sample_world_def fresh_cw_client_def
      token_granted_def plain_text_reply_def token_valid_def Let_def json_parse_error_def
      ninja_request_def ninja_ensureAuthenticated_def ninja_authenticate_def
      ninja_authenticate_resume_def sample_ninja_client_def new_NinjaOneClient_def
      halo_makeApiCall_def halo_authenticate_def sample_halo_client_def
      params_convertible_def)

section \<open>Properties of endpoint search\<close>


lemma search_methods_loop_eq:
  "search_methods_loop terms path ms results
   = results @ map (\<lambda>c. search_line (fst c) (fst (snd c)) (snd (snd c)))
       (filter (\<lambda>c. list_all (str_includes (searchableText (fst c) (fst (snd c)) (snd (snd c)))) terms)
          (member_candidates path ms))"
proof (induction ms arbitrary: results)
  case Nil
  then show ?case by simp
next
  case (Cons e ms)
  obtain m member where e: "e = (m, member)" by (cases e)
  show ?case
    using Cons.IH e by (cases member) simp_all
qed

lemma search_paths_loop_eq:
  "search_paths_loop terms ps results
   = results @ map (\<lambda>c. search_line (fst c) (fst (snd c)) (snd (snd c)))
       (filter (\<lambda>c. list_all (str_includes (searchableText (fst c) (fst (snd c)) (snd (snd c)))) terms)
          (concat (map (\<lambda>pi. member_candidates (fst pi) (snd pi)) ps)))"
proof (induction ps arbitrary: results)
  case Nil
  then show ?case by simp
next
  case (Cons e ps)
  obtain path item where e: "e = (path, item)" by (cases e)
  show ?case
    using Cons.IH e by (simp add: search_methods_loop_eq)
qed

lemma halo_search_methods_eq:
  "halo_search_methods query path ms acc = Inr hits \<Longrightarrow>
   hits = acc @ map (\<lambda>c. search_hit (fst c) (fst (snd c)) (snd (snd c)))
            (filter (whole_query_occurs query) (map (\<lambda>me. (path, fst me, snd me)) ms))"
proof (induction ms arbitrary: acc)
  case Nil
  then show ?case by simp
next
  case (Cons e ms)
  obtain m obj where e: "e = (m, obj)" by (cases e)
  show ?case
  proof (cases "halo_searchableText path obj")
    case (Inl err)
    with Cons.prems e show ?thesis by simp
  next
    case (Inr stext)
    show ?thesis
    proof (cases "str_includes stext (toLowerCase query)")
      case True
      with Cons.prems e Inr have
        "halo_search_methods query path ms (acc @ [search_hit path m obj]) = Inr hits" by simp
      from Cons.IH [OF this] True Inr e show ?thesis
        by (simp add: whole_query_occurs_def)
    next
      case False
      with Cons.prems e Inr have "halo_search_methods query path ms acc = Inr hits" by simp
      from Cons.IH [OF this] False Inr e show ?thesis
        by (simp add: whole_query_occurs_def)
    qed
  qed
qed

lemma halo_search_paths_eq:
  "halo_search_paths query ps acc = Inr hits \<Longrightarrow>
   hits = acc @ map (\<lambda>c. search_hit (fst c) (fst (snd c)) (snd (snd c)))
            (filter (whole_query_occurs query) (halo_candidates ps))"
proof (induction ps arbitrary: acc)
  case Nil
  then show ?case by (simp add: halo_candidates_def)
next
  case (Cons e ps)
  obtain path obj where e: "e = (path, obj)" by (cases e)
  show ?case
  proof (cases "js_is_object obj")
    case False
    with Cons.prems e have "halo_search_paths query ps acc = Inr hits" by simp
    from Cons.IH [OF this] False e show ?thesis by (simp add: halo_candidates_def)
  next
    case True
    show ?thesis
    proof (cases "halo_search_methods query path (js_entries obj) acc")
      case (Inl err)
      with Cons.prems e True show ?thesis by simp
    next
      case (Inr mid)
      with Cons.prems e True have "halo_search_paths query ps mid = Inr hits" by simp
      from Cons.IH [OF this] halo_search_methods_eq [OF Inr] True e show ?thesis
        by (simp add: halo_candidates_def)
    qed
  qed
qed


text \<open>
  Claim C4, as amended. The ConnectWise \<open>searchEndpoints\<close> splits the lower-cased query at
  white space and reports a candidate operation (path, method, operationId, summary,
  description and tags, joined and lower-cased) if and only if every term occurs in that
  text; the lines come in discovery order. The HaloPSA \<open>searchApiEndpoints\<close> does not
  split the query: it reports a candidate exactly when its text (path, summary,
  description and tags) includes the whole lower-cased query, and then pages the hits;
  every term of the query then occurs in the text of a reported candidate, but a candidate
  that holds all the terms apart is not reported.
\<close>

theorem search_term_semantics:
  "(\<forall>c schema. c_schema c = Some schema \<longrightarrow>
      searchEndpoints c query
        = Inr (map (\<lambda>cand. search_line (fst cand) (fst (snd cand)) (snd (snd cand)))
                 (filter (all_terms_occur query) (candidates schema))))
   \<and> (\<forall>path m op. all_terms_occur query (path, m, op) \<longleftrightarrow>
          (\<forall>t \<in> set (split_whitespace (toLowerCase query)).
             str_includes (searchableText path m op) t))
   \<and> (\<forall>doc paths r. doc_paths doc = Some paths
          \<and> searchApiEndpoints (Inr doc) query lim skip = Inr r \<longrightarrow>
        s_totalResults r = length (filter (whole_query_occurs query) (halo_candidates paths))
        \<and> s_results r
            = js_slice (case skip of None \<Rightarrow> 0 | Some s \<Rightarrow> s)
                ((case skip of None \<Rightarrow> 0 | Some s \<Rightarrow> s) + (case lim of None \<Rightarrow> 50 | Some l \<Rightarrow> l))
                (map (\<lambda>cand. search_hit (fst cand) (fst (snd cand)) (snd (snd cand)))
                   (filter (whole_query_occurs query) (halo_candidates paths))))
   \<and> (\<forall>path m methodObj. whole_query_occurs query (path, m, methodObj) \<longrightarrow>
        (\<exists>stext. halo_searchableText path methodObj = Inr stext
           \<and> str_includes stext (toLowerCase query)
           \<and> (\<forall>t \<in> set (split_whitespace (toLowerCase query)). str_includes stext t)))"
proof (intro conjI allI impI)
  fix c :: cw_client and schema
  assume "c_schema c = Some schema"
  then have "searchEndpoints c query
      = Inr (search_paths_loop (split_whitespace (toLowerCase query)) (oa_paths schema) [])"
    by (simp add: searchEndpoints_def)
  also have "search_paths_loop (split_whitespace (toLowerCase query)) (oa_paths schema) []
      = map (\<lambda>cand. search_line (fst cand) (fst (snd cand)) (snd (snd cand)))
          (filter (all_terms_occur query) (candidates schema))"
  proof -
    have "all_terms_occur query
        = (\<lambda>c. list_all (str_includes (searchableText (fst c) (fst (snd c)) (snd (snd c))))
                  (split_whitespace (toLowerCase query)))"
      by (rule ext) (simp add: all_terms_occur_def split: prod.splits)
    then show ?thesis
      by (simp add: search_paths_loop_eq candidates_def)
  qed
  finally show "searchEndpoints c query
        = Inr (map (\<lambda>cand. search_line (fst cand) (fst (snd cand)) (snd (snd cand)))
                 (filter (all_terms_occur query) (candidates schema)))" .
next
  fix path m op
  show "all_terms_occur query (path, m, op) \<longleftrightarrow>
          (\<forall>t \<in> set (split_whitespace (toLowerCase query)).
             str_includes (searchableText path m op) t)"
    by (simp add: all_terms_occur_def list_all_iff)
next
  fix doc paths r
  assume h: "doc_paths doc = Some paths \<and> searchApiEndpoints (Inr doc) query lim skip = Inr r"
  then obtain hits where run: "halo_search_paths query paths [] = Inr hits"
    and r: "r = \<lparr>s_query = query,
              s_results = js_slice (case skip of None \<Rightarrow> 0 | Some s \<Rightarrow> s)
                ((case skip of None \<Rightarrow> 0 | Some s \<Rightarrow> s) + (case lim of None \<Rightarrow> 50 | Some l \<Rightarrow> l)) hits,
              s_returnedCount = length (js_slice (case skip of None \<Rightarrow> 0 | Some s \<Rightarrow> s)
                ((case skip of None \<Rightarrow> 0 | Some s \<Rightarrow> s) + (case lim of None \<Rightarrow> 50 | Some l \<Rightarrow> l)) hits),
              s_totalResults = length hits,
              s_skipped = (case skip of None \<Rightarrow> 0 | Some s \<Rightarrow> s),
              s_hasMore = s_hasMore r, s_message = s_message r\<rparr>"
    by (auto simp: searchApiEndpoints_def Let_def split: sum.splits)
  from halo_search_paths_eq [OF run]
  have hits: "hits = map (\<lambda>cand. search_hit (fst cand) (fst (snd cand)) (snd (snd cand)))
                   (filter (whole_query_occurs query) (halo_candidates paths))" by simp
  show "s_totalResults r = length (filter (whole_query_occurs query) (halo_candidates paths))"
    by (subst r) (simp add: hits)
  show "s_results r
            = js_slice (case skip of None \<Rightarrow> 0 | Some s \<Rightarrow> s)
                ((case skip of None \<Rightarrow> 0 | Some s \<Rightarrow> s) + (case lim of None \<Rightarrow> 50 | Some l \<Rightarrow> l))
                (map (\<lambda>cand. search_hit (fst cand) (fst (snd cand)) (snd (snd cand)))
                   (filter (whole_query_occurs query) (halo_candidates paths)))"
    by (subst r) (simp add: hits)
next
  fix path m methodObj
  assume "whole_query_occurs query (path, m, methodObj)"
  then obtain stext where st: "halo_searchableText path methodObj = Inr stext"
    "str_includes stext (toLowerCase query)"
    by (cases "halo_searchableText path methodObj") (simp_all add: whole_query_occurs_def)
  from st(2) have "\<forall>t \<in> set (split_whitespace (toLowerCase query)). str_includes stext t"
    by (blast intro: whole_query_gives_terms)
  with st show "\<exists>stext. halo_searchableText path methodObj = Inr stext
           \<and> str_includes stext (toLowerCase query)
           \<and> (\<forall>t \<in> set (split_whitespace (toLowerCase query)). str_includes stext t)"
    by blast
qed

theorem search_term_semantics_witness:
  "searchEndpoints (fresh_cw_client ticket_schema) ''Ticket  create''
     = Inr [''POST /api/tickets - Create ticket'']
   \<and> all_terms_occur ''Ticket  create'' (''/api/tickets'', ''post'', ticket_operation ''Create ticket'')
   \<and> \<not> all_terms_occur ''Ticket  create'' (''/api/tickets'', ''get'', ticket_operation ''List tickets'')
   \<and> \<not> all_terms_occur ''Ticket  create'' (''/api/companies'', ''post'', ticket_operation ''Create company'')
   \<and> map_sum id s_totalResults (searchApiEndpoints (Inr halo_ticket_doc) ''create ticket'' None None)
       = Inr 1"
proof -
  have s: "c_schema (fresh_cw_client ticket_schema) = Some ticket_schema"
    by (simp add: fresh_cw_client_def)
  have ev: "all_terms_occur ''Ticket  create'' (''/api/tickets'', ''post'', ticket_operation ''Create ticket'')"
    "\<not> all_terms_occur ''Ticket  create'' (''/api/tickets'', ''get'', ticket_operation ''List tickets'')"
    "\<not> all_terms_occur ''Ticket  create'' (''/api/companies'', ''post'', ticket_operation ''Create company'')"
    by code_simp+
  have cands: "candidates ticket_schema
     = [(''/api/tickets'', ''get'', ticket_operation ''List tickets''),
        (''/api/tickets'', ''post'', ticket_operation ''Create ticket''),
        (''/api/companies'', ''post'', ticket_operation ''Create company'')]"
    by (simp add: candidates_def ticket_schema_def)
  have line: "search_line ''/api/tickets'' ''post'' (ticket_operation ''Create ticket'')
     = ''POST /api/tickets - Create ticket''"
    by code_simp
  from search_term_semantics [of "''Ticket  create''"] s
  have "searchEndpoints (fresh_cw_client ticket_schema) ''Ticket  create''
        = Inr (map (\<lambda>cand. search_line (fst cand) (fst (snd cand)) (snd (snd cand)))
                 (filter (all_terms_occur ''Ticket  create'') (candidates ticket_schema)))"
    by blast
  with cands ev line have A: "searchEndpoints (fresh_cw_client ticket_schema) ''Ticket  create''
     = Inr [''POST /api/tickets - Create ticket'']" by simp
  have run: "map_sum id (\<lambda>x. ()) (searchApiEndpoints (Inr halo_ticket_doc) ''create ticket'' None None)
      = Inr ()"
    by code_simp
  then obtain r where r: "searchApiEndpoints (Inr halo_ticket_doc) ''create ticket'' None None = Inr r"
    by (cases "searchApiEndpoints (Inr halo_ticket_doc) ''create ticket'' None None") auto
  have p: "doc_paths halo_ticket_doc = Some halo_ticket_paths" by (simp add: halo_ticket_doc_def)
  have n: "length (filter (whole_query_occurs ''create ticket'') (halo_candidates halo_ticket_paths)) = 1"
    by code_simp
  from search_term_semantics [of "''create ticket''" None None] p r
  have "s_totalResults r
      = length (filter (whole_query_occurs ''create ticket'') (halo_candidates halo_ticket_paths))"
    by blast
  with n r have B: "map_sum id s_totalResults
      (searchApiEndpoints (Inr halo_ticket_doc) ''create ticket'' None None) = Inr 1" by simp
  from A ev B show ?thesis by blast
qed

text \<open>
  The claim as stated fails for the HaloPSA search: both terms of \<open>ticket create\<close> occur in
  the text of the operation, but the query as a whole does not, and nothing is returned.
\<close>

theorem halo_search_is_not_per_term:
  "halo_searchableText ''/Tickets'' (JObj [(''summary'', JStr ''Create ticket'')])
     = Inr ''/tickets create ticket ''
   \<and> list_all (str_includes ''/tickets create ticket '') (split_whitespace (toLowerCase ''ticket create''))
   \<and> map_sum id s_results (searchApiEndpoints (Inr halo_ticket_doc) ''ticket create'' None None)
       = Inr []"
  by code_simp

section \<open>Properties of endpoint details\<close>


lemma details_loop_count_bound:
  "details_loop f pat so K es (mp, mc) = (mp', mc') \<Longrightarrow>
   int mc' \<le> max (int mc) (min K 50) \<and> mc \<le> mc'"
proof (induction es arbitrary: mp mc)
  case Nil
  then show ?case by simp
next
  case (Cons e es)
  obtain path obj where e: "e = (path, obj)" by (cases e)
  show ?case
  proof (cases "int mc \<ge> min K 50")
    case True
    with Cons.prems e show ?thesis by simp
  next
    case False
    show ?thesis
    proof (cases "path_matches pat path")
      case True
      with False Cons.prems e have
        "details_loop f pat so K es
           (AList.update path (if so then summary_entry obj else filtered_entry f obj) mp, mc + 1)
         = (mp', mc')" by simp
      from Cons.IH [OF this] False show ?thesis by linarith
    next
      case nomatch: False
      with False Cons.prems e have "details_loop f pat so K es (mp, mc) = (mp', mc')" by simp
      from Cons.IH [OF this] show ?thesis .
    qed
  qed
qed

lemma details_loop_total:
  "details_loop f pat so K es (mp, mc) = (mp', mc') \<Longrightarrow>
   mc' \<le> mc + length (filter (\<lambda>e. path_matches pat (fst e)) es)
   \<and> (int mc' < min K 50 \<longrightarrow> mc' = mc + length (filter (\<lambda>e. path_matches pat (fst e)) es))"
proof (induction es arbitrary: mp mc)
  case Nil
  then show ?case by simp
next
  case (Cons e es)
  obtain path obj where e: "e = (path, obj)" by (cases e)
  show ?case
  proof (cases "int mc \<ge> min K 50")
    case True
    with Cons.prems e have eq: "mc' = mc" by simp
    have "\<not> int mc' < min K 50" using True eq by linarith
    have "mc' \<le> mc + length (filter (\<lambda>e. path_matches pat (fst e)) (e # es))"
      using eq by linarith
    with \<open>\<not> int mc' < min K 50\<close> show ?thesis by blast
  next
    case False
    show ?thesis
    proof (cases "path_matches pat path")
      case True
      with False Cons.prems e have
        "details_loop f pat so K es
           (AList.update path (if so then summary_entry obj else filtered_entry f obj) mp, mc + 1)
         = (mp', mc')" by simp
      from Cons.IH [OF this] True e show ?thesis by simp
    next
      case nomatch: False
      with False Cons.prems e have "details_loop f pat so K es (mp, mc) = (mp', mc')" by simp
      from Cons.IH [OF this] nomatch e show ?thesis by simp
    qed
  qed
qed

lemma details_loop_keys:
  "details_loop f pat so K es (mp, mc) = (mp', mc') \<Longrightarrow> distinct (map fst es) \<Longrightarrow>
   fst ` set mp \<inter> fst ` set es = {} \<Longrightarrow>
   map fst mp' = map fst mp
      @ take (nat (min K 50) - mc) (map fst (filter (\<lambda>e. path_matches pat (fst e)) es))"
proof (induction es arbitrary: mp mc)
  case Nil
  then show ?case by simp
next
  case (Cons e es)
  obtain path obj where e: "e = (path, obj)" by (cases e)
  show ?case
  proof (cases "int mc \<ge> min K 50")
    case True
    then have "nat (min K 50) - mc = 0" by linarith
    with True Cons.prems e show ?thesis by simp
  next
    case False
    show ?thesis
    proof (cases "path_matches pat path")
      case True
      let ?mp = "AList.update path (if so then summary_entry obj else filtered_entry f obj) mp"
      from True False Cons.prems e have run: "details_loop f pat so K es (?mp, mc + 1) = (mp', mc')"
        by simp
      from Cons.prems e have fresh: "path \<notin> fst ` set mp" by auto
      then have mp: "map fst ?mp = map fst mp @ [path]"
        by (induction mp) auto
      from Cons.prems e have d: "distinct (map fst es)" by simp
      have disj: "fst ` set ?mp \<inter> fst ` set es = {}"
      proof -
        have "fst ` set ?mp = set (map fst ?mp)" by simp
        also have "\<dots> = insert path (fst ` set mp)" unfolding mp by simp
        finally show ?thesis using Cons.prems e by auto
      qed
      from False have "nat (min K 50) - mc = Suc (nat (min K 50) - (mc + 1))" by linarith
      with Cons.IH [OF run d disj] mp True e show ?thesis by simp
    next
      case nomatch: False
      with False Cons.prems e have run: "details_loop f pat so K es (mp, mc) = (mp', mc')" by simp
      from Cons.prems e have d: "distinct (map fst es)"
        and disj: "fst ` set mp \<inter> fst ` set es = {}" by auto
      from Cons.IH [OF run d disj] nomatch e show ?thesis by simp
    qed
  qed
qed


lemma details_of_props:
  assumes "doc_paths doc = Some paths" and "distinct (map fst paths)"
    and "matches = filter (\<lambda>e. path_matches pat (fst e)) paths"
    and "r = details_of f doc pat so incl K"
  shows "map fst (d_matchingPaths r) = take (nat (min K 50)) (map fst matches)"
    and "d_matchCount r = length (d_matchingPaths r)"
    and "int (length (d_matchingPaths r)) \<le> max 0 (min K 50)"
    and "d_totalMatches r = length matches"
    and "length (d_matchingPaths r) < d_totalMatches r \<longrightarrow> d_limited r"
    and "d_limited r \<longleftrightarrow> int (d_matchCount r) \<ge> min K 50"
proof -
  obtain mp mc where run: "details_loop f pat so K paths ([], 0) = (mp, mc)"
    by (cases "details_loop f pat so K paths ([], 0)")
  have r: "d_matchingPaths r = mp" "d_matchCount r = mc"
    "d_totalMatches r = length matches" "d_limited r \<longleftrightarrow> int mc \<ge> min K 50"
    using assms run by (simp_all add: details_of_def)
  from details_loop_keys [OF run assms(2)] assms(3)
  have keys: "map fst mp = take (nat (min K 50)) (map fst matches)" by simp
  from details_loop_count_bound [OF run] have cap: "int mc \<le> max 0 (min K 50)" by simp
  from details_loop_total [OF run] assms(3)
  have tot: "mc \<le> length matches" "int mc < min K 50 \<longrightarrow> mc = length matches" by simp_all
  have len: "length mp = mc"
  proof -
    have "length mp = length (map fst mp)" by simp
    also have "\<dots> = min (length matches) (nat (min K 50))" unfolding keys by simp
    also have "\<dots> = mc" using cap tot by linarith
    finally show ?thesis .
  qed
  show "map fst (d_matchingPaths r) = take (nat (min K 50)) (map fst matches)"
    using r keys by simp
  show "d_matchCount r = length (d_matchingPaths r)" using r len by simp
  show "int (length (d_matchingPaths r)) \<le> max 0 (min K 50)" using r len cap by simp
  show "d_totalMatches r = length matches" using r by simp
  show "length (d_matchingPaths r) < d_totalMatches r \<longrightarrow> d_limited r"
    using r len tot by auto
  show "d_limited r \<longleftrightarrow> int (d_matchCount r) \<ge> min K 50" using r by simp
qed

lemma cw_methods_loop_bound:
  "cw_methods_loop iS iE sO K path ms acc = Inr acc' \<Longrightarrow>
   int (length acc) < K \<or> acc = [] \<Longrightarrow> int (length acc') \<le> max 1 K"
proof (induction ms arbitrary: acc)
  case Nil
  then show ?case by auto
next
  case (Cons e ms)
  obtain m member where e: "e = (m, member)" by (cases e)
  show ?case
  proof (cases member)
    case NotAnObject
    with Cons e show ?thesis by simp
  next
    case (Operation op)
    show ?thesis
    proof (cases "make_endpoint iS iE sO path m op")
      case (Inl err)
      with Cons.prems e Operation show ?thesis by simp
    next
      case (Inr ep)
      show ?thesis
      proof (cases "int (length (acc @ [ep])) \<ge> K")
        case True
        with Cons.prems e Operation Inr have "acc' = acc @ [ep]" by simp
        with Cons.prems(2) show ?thesis by auto
      next
        case False
        with Cons.prems e Operation Inr have
          run: "cw_methods_loop iS iE sO K path ms (acc @ [ep]) = Inr acc'" by simp
        from False have "int (length (acc @ [ep])) < K \<or> acc @ [ep] = []" by simp
        from Cons.IH [OF run this] show ?thesis .
      qed
    qed
  qed
qed

lemma cw_paths_loop_bound:
  "cw_paths_loop test iS iE sO K ps acc = Inr acc' \<Longrightarrow>
   int (length acc) < K \<or> acc = [] \<Longrightarrow> int (length acc') \<le> max 1 K"
proof (induction ps arbitrary: acc)
  case Nil
  then show ?case by auto
next
  case (Cons e ps)
  obtain path item where e: "e = (path, item)" by (cases e)
  show ?case
  proof (cases "test path")
    case False
    with Cons e show ?thesis by simp
  next
    case True
    show ?thesis
    proof (cases "cw_methods_loop iS iE sO K path item acc")
      case (Inl err)
      with Cons.prems e True show ?thesis by simp
    next
      case (Inr mid)
      from cw_methods_loop_bound [OF Inr Cons.prems(2)] have b: "int (length mid) \<le> max 1 K" .
      show ?thesis
      proof (cases "int (length mid) \<ge> K")
        case stop: True
        with Cons.prems e True Inr have "acc' = mid" by simp
        with b show ?thesis by simp
      next
        case go: False
        with Cons.prems e True Inr have run: "cw_paths_loop test iS iE sO K ps mid = Inr acc'"
          by simp
        from go have "int (length mid) < K \<or> mid = []" by simp
        from Cons.IH [OF run this] show ?thesis .
      qed
    qed
  qed
qed

lemma cw_getEndpointDetails_bound:
  assumes "map_of (c_schemaCache c) (pat, opts) = None"
    and "cw_getEndpointDetails engine c pat opts = (Inr r, c')"
  shows "cd_matchCount r = length (cd_endpoints r)
         \<and> int (cd_matchCount r) \<le> max 1 (case o_maxEndpoints opts of None \<Rightarrow> 10 | Some k \<Rightarrow> k)"
proof -
  let ?K = "case o_maxEndpoints opts of None \<Rightarrow> 10 | Some k \<Rightarrow> k"
  from assms obtain schema test eps where
    "c_schema c = Some schema" "new_RegExp_i engine pat = Some test"
    and run: "cw_paths_loop test (case o_includeSchemas opts of None \<Rightarrow> True | Some b \<Rightarrow> b)
           (case o_includeExamples opts of None \<Rightarrow> False | Some b \<Rightarrow> b)
           (case o_summaryOnly opts of None \<Rightarrow> False | Some b \<Rightarrow> b) ?K (oa_paths schema) [] = Inr eps"
    and r: "r = \<lparr>cd_matchCount = length eps, cd_endpoints = eps\<rparr>"
    by (auto simp: cw_getEndpointDetails_def Let_def split: option.splits sum.splits)
  from cw_paths_loop_bound [OF run] have "int (length eps) \<le> max 1 ?K" by simp
  with r show ?thesis by simp
qed

lemma cw_handler_maxEndpoints_le: "cw_handler_maxEndpoints arg \<le> 50"
  by (simp add: cw_handler_maxEndpoints_def)


lemma path_matches_unfold:
  "(\<lambda>e. path_matches pat (fst e)) = (\<lambda>e. str_includes (toLowerCase (fst e)) (toLowerCase pat))"
  by (simp add: path_matches_def)

text \<open>
  Claim C3, as amended. For the NinjaOne and the HaloPSA client, for every pattern and
  every \<open>maxEndpoints = K\<close> (10 when not given): \<open>getApiEndpointDetails\<close> returns the first \<open>min(K, 50)\<close>
  matching paths in the document's order (none when \<open>K \<le> 0\<close>), \<open>totalMatches\<close> is the number
  of matching paths before truncation, and \<open>limited\<close> is set whenever more paths match than
  were returned. The ConnectWise \<open>getEndpointDetails\<close> has no ceiling of 50 and no
  \<open>totalMatches\<close> or \<open>limited\<close>: a call that is not answered from its cache returns
  \<open>matchCount\<close> endpoints, at most \<open>max(1, K)\<close>; its tool handler never passes a \<open>K\<close> above 50.
\<close>

theorem endpoint_details_cap:
  assumes "doc_paths doc = Some paths" and "distinct (map fst paths)"
    and "matches = filter (\<lambda>e. str_includes (toLowerCase (fst e)) (toLowerCase pat)) paths"
    and "resp_ok resp" and "resp_json resp = Some doc"
    and "K = (case maxEndpoints_arg of None \<Rightarrow> 10 | Some k \<Rightarrow> k)"
  shows "(\<exists>r. halo_getApiEndpointDetails (Inr doc) pat so incl maxEndpoints_arg ex = Inr r
            \<and> map fst (d_matchingPaths r) = take (nat (min K 50)) (map fst matches)
            \<and> d_matchCount r = length (d_matchingPaths r)
            \<and> int (length (d_matchingPaths r)) \<le> max 0 (min K 50)
            \<and> d_totalMatches r = length matches
            \<and> (length (d_matchingPaths r) < d_totalMatches r \<longrightarrow> d_limited r))
       \<and> (\<exists>r. ninja_getApiEndpointDetails (Response resp) pat so incl maxEndpoints_arg ex = Inr r
            \<and> map fst (d_matchingPaths r) = take (nat (min K 50)) (map fst matches)
            \<and> d_matchCount r = length (d_matchingPaths r)
            \<and> int (length (d_matchingPaths r)) \<le> max 0 (min K 50)
            \<and> d_totalMatches r = length matches
            \<and> (length (d_matchingPaths r) < d_totalMatches r \<longrightarrow> d_limited r))
       \<and> (\<forall>engine c opts r c'.
             map_of (c_schemaCache c) (pat, opts) = None
             \<and> cw_getEndpointDetails engine c pat opts = (Inr r, c') \<longrightarrow>
             cd_matchCount r = length (cd_endpoints r)
             \<and> int (cd_matchCount r)
                   \<le> max 1 (case o_maxEndpoints opts of None \<Rightarrow> 10 | Some k \<Rightarrow> k))
       \<and> cw_handler_maxEndpoints arg \<le> 50"
proof -
  have m: "matches = filter (\<lambda>e. path_matches pat (fst e)) paths"
    using assms(3) by (simp add: path_matches_unfold)
  let ?so = "case so of None \<Rightarrow> False | Some b \<Rightarrow> b"
  let ?incl = "case incl of None \<Rightarrow> True | Some b \<Rightarrow> b"
  let ?ex = "case ex of None \<Rightarrow> False | Some b \<Rightarrow> b"
  let ?h = "details_of (halo_filteredMethodObj ?incl ?ex) doc pat ?so ?incl K"
  let ?n = "details_of (ninja_filteredMethodObj ?incl ?ex) doc pat ?so ?incl K"
  have h: "halo_getApiEndpointDetails (Inr doc) pat so incl maxEndpoints_arg ex = Inr ?h"
    unfolding assms(6) by (simp add: halo_getApiEndpointDetails_def Let_def)
  have n: "ninja_getApiEndpointDetails (Response resp) pat so incl maxEndpoints_arg ex = Inr ?n"
    using assms(4,5) unfolding assms(6) by (simp add: ninja_getApiEndpointDetails_def Let_def)
  note ph = details_of_props [OF assms(1,2) m refl, of "halo_filteredMethodObj ?incl ?ex" ?so ?incl K]
  note pn = details_of_props [OF assms(1,2) m refl, of "ninja_filteredMethodObj ?incl ?ex" ?so ?incl K]
  have A: "\<exists>r. halo_getApiEndpointDetails (Inr doc) pat so incl maxEndpoints_arg ex = Inr r
            \<and> map fst (d_matchingPaths r) = take (nat (min K 50)) (map fst matches)
            \<and> d_matchCount r = length (d_matchingPaths r)
            \<and> int (length (d_matchingPaths r)) \<le> max 0 (min K 50)
            \<and> d_totalMatches r = length matches
            \<and> (length (d_matchingPaths r) < d_totalMatches r \<longrightarrow> d_limited r)"
    using h ph(1-5) by blast
  have B: "\<exists>r. ninja_getApiEndpointDetails (Response resp) pat so incl maxEndpoints_arg ex = Inr r
            \<and> map fst (d_matchingPaths r) = take (nat (min K 50)) (map fst matches)
            \<and> d_matchCount r = length (d_matchingPaths r)
            \<and> int (length (d_matchingPaths r)) \<le> max 0 (min K 50)
            \<and> d_totalMatches r = length matches
            \<and> (length (d_matchingPaths r) < d_totalMatches r \<longrightarrow> d_limited r)"
    using n pn(1-5) by blast
  have C: "\<forall>engine c opts r c'.
             map_of (c_schemaCache c) (pat, opts) = None
             \<and> cw_getEndpointDetails engine c pat opts = (Inr r, c') \<longrightarrow>
             cd_matchCount r = length (cd_endpoints r)
             \<and> int (cd_matchCount r)
                   \<le> max 1 (case o_maxEndpoints opts of None \<Rightarrow> 10 | Some k \<Rightarrow> k)"
    using cw_getEndpointDetails_bound by blast
  from A B C cw_handler_maxEndpoints_le show ?thesis by blast
qed

text \<open>
  The scenario of the specification: five paths contain \<open>device\<close> (in any case), and
  \<open>maxEndpoints\<close> is 1.
\<close>

theorem endpoint_details_cap_witness:
  "(\<exists>r. halo_getApiEndpointDetails (Inr device_doc) ''device'' None None (Some 1) None = Inr r
       \<and> map fst (d_matchingPaths r) = [''/v2/devices'']
       \<and> d_matchCount r = 1 \<and> d_totalMatches r = 5 \<and> d_limited r)
   \<and> (\<exists>r. ninja_getApiEndpointDetails (Response device_response) ''device'' None None (Some 1) None
            = Inr r
       \<and> map fst (d_matchingPaths r) = [''/v2/devices'']
       \<and> d_matchCount r = 1 \<and> d_totalMatches r = 5 \<and> d_limited r)
   \<and> (\<exists>r c'. cw_getEndpointDetails literal_patterns_only (fresh_cw_client two_device_schema)
              ''device'' (no_options\<lparr>o_maxEndpoints := Some 1\<rparr>) = (Inr r, c')
       \<and> cd_matchCount r = 1 \<and> length (cd_endpoints r) = 1)"
proof -
  let ?ms = "[(''/v2/devices'', JObj [(''get'', JObj [(''summary'', JStr ''List devices'')])]),
      (''/v2/device/{id}'', JObj [(''get'', JObj [(''summary'', JStr ''Get device'')])]),
      (''/v2/device/{id}/software'', JObj [(''get'', JObj [])]),
      (''/v2/Device-roles'', JObj [(''get'', JObj [])]),
      (''/v2/organization/{id}/devices'', JObj [(''get'', JObj [])])]"
  have a: "doc_paths device_doc = Some device_paths" by (simp add: device_doc_def)
  have b: "distinct (map fst device_paths)" by (simp add: device_paths_def)
  have c: "?ms = filter (\<lambda>e. str_includes (toLowerCase (fst e)) (toLowerCase ''device'')) device_paths"
    by (simp add: device_paths_def toLowerCase_def lower_char_def)
  have d: "resp_ok device_response" "resp_json device_response = Some device_doc"
    by (simp_all add: device_response_def)
  have k: "(1::int) = (case Some 1 of None \<Rightarrow> 10 | Some k \<Rightarrow> k)" by simp
  note T = endpoint_details_cap [OF a b c d k, where so = None and incl = None and ex = None
      and arg = None]
  from T obtain r where r:
    "halo_getApiEndpointDetails (Inr device_doc) ''device'' None None (Some 1) None = Inr r"
    "map fst (d_matchingPaths r) = take (nat (min 1 50)) (map fst ?ms)"
    "d_matchCount r = length (d_matchingPaths r)"
    "d_totalMatches r = length ?ms"
    "length (d_matchingPaths r) < d_totalMatches r \<longrightarrow> d_limited r"
    by blast
  from r(2) have r2: "map fst (d_matchingPaths r) = [''/v2/devices'']" by simp
  then have rl: "length (d_matchingPaths r) = 1" by (metis length_map length_Cons list.size(3) One_nat_def)
  have A: "\<exists>r. halo_getApiEndpointDetails (Inr device_doc) ''device'' None None (Some 1) None = Inr r
       \<and> map fst (d_matchingPaths r) = [''/v2/devices'']
       \<and> d_matchCount r = 1 \<and> d_totalMatches r = 5 \<and> d_limited r"
    using r r2 rl by (intro exI [of _ r]) simp
  from T obtain q where q:
    "ninja_getApiEndpointDetails (Response device_response) ''device'' None None (Some 1) None = Inr q"
    "map fst (d_matchingPaths q) = take (nat (min 1 50)) (map fst ?ms)"
    "d_matchCount q = length (d_matchingPaths q)"
    "d_totalMatches q = length ?ms"
    "length (d_matchingPaths q) < d_totalMatches q \<longrightarrow> d_limited q"
    by blast
  from q(2) have q2: "map fst (d_matchingPaths q) = [''/v2/devices'']" by simp
  then have ql: "length (d_matchingPaths q) = 1" by (metis length_map length_Cons list.size(3) One_nat_def)
  have B: "\<exists>r. ninja_getApiEndpointDetails (Response device_response) ''device'' None None (Some 1) None
            = Inr r
       \<and> map fst (d_matchingPaths r) = [''/v2/devices'']
       \<and> d_matchCount r = 1 \<and> d_totalMatches r = 5 \<and> d_limited r"
    using q q2 ql by (intro exI [of _ q]) simp
  have C: "\<exists>r c'. cw_getEndpointDetails literal_patterns_only (fresh_cw_client two_device_schema)
              ''device'' (no_options\<lparr>o_maxEndpoints := Some 1\<rparr>) = (Inr r, c')
       \<and> cd_matchCount r = 1 \<and> length (cd_endpoints r) = 1"
    by (simp add: cw_getEndpointDetails_def fresh_cw_client_def two_device_schema_def
        no_options_def new_RegExp_i_def regexp_metachars_def make_endpoint_def plain_operation_def
        opt_truthy_def request_example_def toLowerCase_def lower_char_def Let_def)
  from A B C show ?thesis by blast
qed

text \<open>
  The claim as stated fails for the ConnectWise client: with 51 matching endpoints and
  \<open>maxEndpoints = 60\<close> it returns all 51, more than \<open>min(60, 50)\<close>.
\<close>

theorem connectwise_details_exceed_fifty:
  "map_sum id cd_matchCount
     (fst (cw_getEndpointDetails literal_patterns_only (fresh_cw_client many_devices_schema)
             ''device'' (no_options\<lparr>o_maxEndpoints := Some 60\<rparr>))) = Inr 51
   \<and> \<not> (51 \<le> min (60::int) 50)"
  by code_simp

section \<open>Properties of path categorisation\<close>

lemma ninja_categorize_table:
  "ninja_categorizeApiPath path = spec_categorize ninja_rules path"
  by (simp add: ninja_categorizeApiPath_def ninja_rules_def rule_matches_def)

lemma halo_categorize_table:
  "halo_categorizeApiPath path = spec_categorize halo_rules (toLowerCase path)"
  by (simp add: halo_categorizeApiPath_def halo_rules_def rule_matches_def Let_def)

lemma spec_categorize_first:
  "i < length rs \<Longrightarrow> rule_matches path (rs ! i) \<Longrightarrow>
   \<forall>k < i. \<not> rule_matches path (rs ! k) \<Longrightarrow>
   spec_categorize rs path = snd (rs ! i)"
proof (induction rs arbitrary: i)
  case Nil
  then show ?case by simp
next
  case (Cons r rs)
  show ?case
  proof (cases i)
    case 0
    with Cons.prems show ?thesis by simp
  next
    case (Suc n)
    from Cons.prems Suc have head: "\<not> rule_matches path r"
      by (metis nth_Cons_0 zero_less_Suc)
    have later: "\<forall>k < n. \<not> rule_matches path (rs ! k)"
    proof (intro allI impI)
      fix k assume "k < n"
      then have "Suc k < i" using Suc by simp
      with Cons.prems(3) have "\<not> rule_matches path ((r # rs) ! Suc k)" by blast
      then show "\<not> rule_matches path (rs ! k)" by simp
    qed
    from Cons.prems Suc have "n < length rs" "rule_matches path (rs ! n)" by simp_all
    with Cons.IH later have "spec_categorize rs path = snd (rs ! n)" by blast
    with head Suc show ?thesis by simp
  qed
qed

lemma spec_categorize_least:
  "i < length rs \<Longrightarrow> rule_matches path (rs ! i) \<Longrightarrow>
   \<exists>k \<le> i. rule_matches path (rs ! k) \<and> (\<forall>m < k. \<not> rule_matches path (rs ! m))
      \<and> spec_categorize rs path = snd (rs ! k)"
proof -
  assume len: "i < length rs" and hit: "rule_matches path (rs ! i)"
  define k where "k = (LEAST n. rule_matches path (rs ! n))"
  have km: "rule_matches path (rs ! k)"
    unfolding k_def using hit by (rule LeastI)
  have kle: "k \<le> i"
    unfolding k_def using hit by (rule Least_le)
  have kmin: "\<forall>m < k. \<not> rule_matches path (rs ! m)"
    unfolding k_def using not_less_Least by blast
  from kle len have klen: "k < length rs" by simp
  have "spec_categorize rs path = snd (rs ! k)"
    using klen km kmin by (rule spec_categorize_first)
  with km kle kmin show ?thesis by blast
qed

lemma spec_categorize_none:
  "\<forall>r \<in> set rs. \<not> rule_matches path r \<Longrightarrow> spec_categorize rs path = ''Other''"
  by (induction rs) simp_all

lemma distinct_nth_neq:
  "distinct xs \<Longrightarrow> a < length xs \<Longrightarrow> b < length xs \<Longrightarrow> a \<noteq> b \<Longrightarrow> xs ! a \<noteq> xs ! b"
  by (simp add: nth_eq_iff_index_eq)

lemma ninja_categories_distinct: "distinct (map snd ninja_rules)"
  by (simp add: ninja_rules_def)

lemma halo_categories_distinct: "distinct (map snd halo_rules)"
  by (simp add: halo_rules_def)

text \<open>
  Claim C7. \<open>categorizeApiPath\<close> scans its (substring, category) rules in their textual
  order and returns the category of the first rule with a marker in the path, and
  \<open>Other\<close> when no rule matches. When the path holds markers of two distinct rules
  \<open>i < j\<close>, the category is that of the first matching rule of the table (a rule at
  or before \<open>i\<close>), never that of rule \<open>j\<close>. The result is a function of the path alone.
  The HaloPSA variant applies its table to the lower-cased path.
\<close>

theorem categorize_first_match_wins:
  "ninja_categorizeApiPath path = spec_categorize ninja_rules path
   \<and> halo_categorizeApiPath path = spec_categorize halo_rules (toLowerCase path)
   \<and> ((\<forall>r \<in> set ninja_rules. \<not> rule_matches path r) \<longrightarrow>
          ninja_categorizeApiPath path = ''Other'')
   \<and> (\<forall>i j. i < j \<and> j < length ninja_rules
          \<and> rule_matches path (ninja_rules ! i) \<and> rule_matches path (ninja_rules ! j) \<longrightarrow>
        (\<exists>k \<le> i. rule_matches path (ninja_rules ! k)
           \<and> (\<forall>m < k. \<not> rule_matches path (ninja_rules ! m))
           \<and> ninja_categorizeApiPath path = snd (ninja_rules ! k))
        \<and> ninja_categorizeApiPath path \<noteq> snd (ninja_rules ! j))"
proof (intro conjI allI impI)
  show "ninja_categorizeApiPath path = spec_categorize ninja_rules path"
    by (rule ninja_categorize_table)
  show "halo_categorizeApiPath path = spec_categorize halo_rules (toLowerCase path)"
    by (rule halo_categorize_table)
next
  assume "\<forall>r \<in> set ninja_rules. \<not> rule_matches path r"
  then show "ninja_categorizeApiPath path = ''Other''"
    by (simp only: ninja_categorize_table spec_categorize_none)
next
  fix i j
  assume h: "i < j \<and> j < length ninja_rules
          \<and> rule_matches path (ninja_rules ! i) \<and> rule_matches path (ninja_rules ! j)"
  then have ij: "i < j" and j: "j < length ninja_rules"
    and mi: "rule_matches path (ninja_rules ! i)" by simp_all
  from ij j have i: "i < length ninja_rules" by simp
  from spec_categorize_least [OF i mi] obtain k where
    k: "k \<le> i" "rule_matches path (ninja_rules ! k)"
       "\<forall>m < k. \<not> rule_matches path (ninja_rules ! m)"
       "spec_categorize ninja_rules path = snd (ninja_rules ! k)"
    by blast
  from k(1) ij j have kj: "k \<noteq> j" "k < length ninja_rules" by simp_all
  have "map snd ninja_rules ! k \<noteq> map snd ninja_rules ! j"
  proof (rule distinct_nth_neq)
    show "distinct (map snd ninja_rules)" by (rule ninja_categories_distinct)
    show "k < length (map snd ninja_rules)" using kj by simp
    show "j < length (map snd ninja_rules)" using j by simp
    show "k \<noteq> j" using kj by simp
  qed
  with kj j have ne: "snd (ninja_rules ! k) \<noteq> snd (ninja_rules ! j)" by simp
  from k show "\<exists>k \<le> i. rule_matches path (ninja_rules ! k)
         \<and> (\<forall>m < k. \<not> rule_matches path (ninja_rules ! m))
         \<and> ninja_categorizeApiPath path = snd (ninja_rules ! k)"
    by (auto simp: ninja_categorize_table)
  from k ne show "ninja_categorizeApiPath path \<noteq> snd (ninja_rules ! j)"
    by (simp add: ninja_categorize_table)
qed

theorem categorize_first_match_wins_witness:
  "rule_matches ''/v2/organization/7/devices'' (ninja_rules ! 0)
   \<and> rule_matches ''/v2/organization/7/devices'' (ninja_rules ! 1)
   \<and> ninja_categorizeApiPath ''/v2/organization/7/devices'' = ''Device Management''
   \<and> ninja_categorizeApiPath ''/v2/organization/7/devices'' \<noteq> ''Organization Management''
   \<and> ninja_categorizeApiPath ''/v2/tasks'' = ''Other''
   \<and> halo_categorizeApiPath ''/Tickets/Actions'' = ''Actions''"
proof -
  let ?p = "''/v2/organization/7/devices''"
  have m0: "rule_matches ?p (ninja_rules ! 0)"
    by (simp add: ninja_rules_def rule_matches_def)
  have m1: "rule_matches ?p (ninja_rules ! 1)"
    by (simp add: ninja_rules_def rule_matches_def)
  have len: "(1::nat) < length ninja_rules"
    by (simp add: ninja_rules_def)
  have none: "\<forall>r \<in> set ninja_rules. \<not> rule_matches ''/v2/tasks'' r"
    by (simp add: ninja_rules_def rule_matches_def)
  from categorize_first_match_wins [of ?p] m0 m1 len
  have "(\<exists>k \<le> (0::nat). ninja_categorizeApiPath ?p = snd (ninja_rules ! k))
        \<and> ninja_categorizeApiPath ?p \<noteq> snd (ninja_rules ! 1)"
    by (metis zero_less_one)
  then have a: "ninja_categorizeApiPath ?p = ''Device Management''"
    and b: "ninja_categorizeApiPath ?p \<noteq> ''Organization Management''"
    by (simp_all add: ninja_rules_def)
  from categorize_first_match_wins [of "''/v2/tasks''"] none
  have c: "ninja_categorizeApiPath ''/v2/tasks'' = ''Other''" by blast
  from categorize_first_match_wins [of "''/Tickets/Actions''"]
  have d: "halo_categorizeApiPath ''/Tickets/Actions'' = ''Actions''"
    by (simp add: halo_rules_def rule_matches_def toLowerCase_def lower_char_def)
  from m0 m1 a b c d show ?thesis by blast
qed

section \<open>Properties of the schema listing\<close>

lemma update_fresh: "k \<notin> fst ` set al \<Longrightarrow> AList.update k v al = al @ [(k, v)]"
  by (induction al) auto

lemma skip_cond: "int (min n (nat s)) < s \<longleftrightarrow> int n < s"
  by (auto simp: min_def)

lemma skip_step: "int n < s \<Longrightarrow> min (Suc n) (nat s) = Suc (min n (nat s))"
  by (auto simp: min_def)

lemma skip_done: "\<not> int n < s \<Longrightarrow> min (Suc n) (nat s) = min n (nat s)"
  by (auto simp: min_def)

lemma page_of_snoc_skip:
  "int (min (length ms) (nat skip)) < skip \<Longrightarrow> page_of lim skip (ms @ [x]) = page_of lim skip ms"
  by (auto simp: page_of_def min_def split: if_splits)

lemma page_of_snoc_full:
  "\<not> int (min (length ms) (nat skip)) < skip \<Longrightarrow> int (length (page_of lim skip ms)) \<ge> lim \<Longrightarrow>
   page_of lim skip (ms @ [x]) = page_of lim skip ms"
  by (auto simp: page_of_def min_def split: if_splits)

lemma page_of_snoc_add:
  "\<not> int (min (length ms) (nat skip)) < skip \<Longrightarrow> \<not> int (length (page_of lim skip ms)) \<ge> lim \<Longrightarrow>
   page_of lim skip (ms @ [x]) = page_of lim skip ms @ [x]"
  by (auto simp: page_of_def min_def split: if_splits)

lemma set_page_of: "set (page_of lim skip ms) \<subseteq> set ms"
  unfolding page_of_def by (meson set_take_subset set_drop_subset subset_trans)

lemma getApiSchemas_loop_inv:
  "distinct (map fst (pre @ rest)) \<Longrightarrow>
   getApiSchemas_loop pat lim skip rest
     (acc_after lim skip (filter (\<lambda>e. schema_name_matches pat (fst e)) pre))
   = acc_after lim skip (filter (\<lambda>e. schema_name_matches pat (fst e)) (pre @ rest))"
proof (induction rest arbitrary: pre)
  case Nil
  then show ?case by simp
next
  case (Cons e rest)
  obtain name obj where e: "e = (name, obj)" by (cases e)
  let ?m = "\<lambda>e. schema_name_matches pat (fst e)"
  let ?ms = "filter ?m pre"
  from Cons.prems have d: "distinct (map fst ((pre @ [e]) @ rest))" by simp
  note IH = Cons.IH [OF d]
  show ?case
  proof (cases "schema_name_matches pat name")
    case False
    with IH e show ?thesis by simp
  next
    case True
    have fresh: "name \<notin> fst ` set (page_of lim skip ?ms)"
    proof
      assume "name \<in> fst ` set (page_of lim skip ?ms)"
      with set_page_of have "name \<in> fst ` set ?ms" by fastforce
      then have "name \<in> fst ` set pre" by auto
      with Cons.prems e show False by auto
    qed
    have f: "filter ?m (pre @ [e]) = ?ms @ [e]" using True e by simp
    consider (skip) "int (min (length ?ms) (nat skip)) < skip"
      | (full) "\<not> int (min (length ?ms) (nat skip)) < skip" "int (length (page_of lim skip ?ms)) \<ge> lim"
      | (add) "\<not> int (min (length ?ms) (nat skip)) < skip" "\<not> int (length (page_of lim skip ?ms)) \<ge> lim"
      by blast
    then show ?thesis
    proof cases
      case skip
      then have "acc_after lim skip (?ms @ [e])
        = (acc_after lim skip ?ms)\<lparr>acc_names := map fst ?ms @ [name], acc_skipped := min (length ?ms) (nat skip) + 1\<rparr>"
        using e by (simp add: acc_after_def page_of_snoc_skip skip_cond skip_step)
      with skip True e IH f show ?thesis
        by (simp add: acc_after_def Let_def)
    next
      case full
      then have "acc_after lim skip (?ms @ [e])
        = (acc_after lim skip ?ms)\<lparr>acc_names := map fst ?ms @ [name]\<rparr>"
        using e by (simp add: acc_after_def page_of_snoc_full skip_cond skip_done)
      with full True e IH f show ?thesis
        by (simp add: acc_after_def Let_def)
    next
      case add
      then have "acc_after lim skip (?ms @ [e])
        = (acc_after lim skip ?ms)\<lparr>acc_names := map fst ?ms @ [name],
             acc_schemas := page_of lim skip ?ms @ [e], acc_count := length (page_of lim skip ?ms) + 1\<rparr>"
        using e by (simp add: acc_after_def page_of_snoc_add skip_cond skip_done)
      with add True e IH f fresh show ?thesis
        by (simp add: acc_after_def Let_def update_fresh)
    qed
  qed
qed

lemma getApiSchemas_loop_all:
  assumes "distinct (map fst allSchemas)"
  shows "getApiSchemas_loop pat lim skip allSchemas
           \<lparr>acc_schemas = [], acc_names = [], acc_count = 0, acc_skipped = 0\<rparr>
         = acc_after lim skip (filter (\<lambda>e. schema_name_matches pat (fst e)) allSchemas)"
proof -
  have start: "\<lparr>acc_schemas = [], acc_names = [], acc_count = 0, acc_skipped = 0\<rparr>
     = acc_after lim skip (filter (\<lambda>e. schema_name_matches pat (fst e)) [])"
    by (simp add: acc_after_def page_of_def)
  from assms have "distinct (map fst ([] @ allSchemas))" by simp
  from getApiSchemas_loop_inv [OF this, of pat lim skip] start show ?thesis by simp
qed

lemma str_includes_empty: "str_includes s []"
  by (induction s) simp_all

lemma schema_name_matches_Some:
  "schema_name_matches (Some p) name = str_includes (toLowerCase name) (toLowerCase p)"
  by (cases p) (simp_all add: schema_name_matches_def toLowerCase_def str_includes_empty)

text \<open>
  Claim C5. With the component schemas loaded (their names distinct, as the keys of an
  object are) and a pattern, limit \<open>L\<close> and skip \<open>S\<close> (50 and 0 when not given),
  \<open>getApiSchemas\<close> filters the names
  by case-insensitive substring, skips the first \<open>S\<close> matches and returns at most \<open>L\<close> of
  the remaining ones in discovery order; \<open>hasMore\<close> holds exactly when \<open>S\<close> plus the
  number returned is below the number of matches; the sorted list of all matching names
  is included exactly when \<open>listNames\<close> is set or at most 20 names match, and otherwise
  only the count and a hint are.
\<close>

theorem getApiSchemas_filter_then_paginate:
  assumes "doc_schemas doc = Some allSchemas" and "distinct (map fst allSchemas)"
    and "ms = (case schemaPattern of
                 None \<Rightarrow> allSchemas
               | Some p \<Rightarrow>
                   filter (\<lambda>e. str_includes (toLowerCase (fst e)) (toLowerCase p)) allSchemas)"
    and "L = (case limit_arg of None \<Rightarrow> 50 | Some l \<Rightarrow> l)"
    and "S = (case skip_arg of None \<Rightarrow> 0 | Some s \<Rightarrow> s)"
    and "listNames = (case listNames_arg of None \<Rightarrow> False | Some b \<Rightarrow> b)"
  shows "\<exists>r. getApiSchemas (Inr doc) schemaPattern limit_arg skip_arg listNames_arg = Inr r
          \<and> r_schemas r = take (nat L) (drop (nat S) ms)
          \<and> r_returnedCount r = length (r_schemas r)
          \<and> int (r_returnedCount r) \<le> max 0 L
          \<and> r_matchingCount r = length ms
          \<and> (r_hasMore r \<longleftrightarrow> S + int (r_returnedCount r) < int (length ms))
          \<and> r_schemaNames r =
                (if listNames \<or> length ms \<le> 20 then Some (sort (map fst ms)) else None)
          \<and> r_hint r =
                (if listNames \<or> length ms \<le> 20 then None
                 else Some (show_nat (length ms)
                              @ '' schemas match. Set listNames=true to see all names.''))"
proof -
  have ms: "ms = filter (\<lambda>e. schema_name_matches schemaPattern (fst e)) allSchemas"
  proof (cases schemaPattern)
    case None
    with assms(3) show ?thesis by (simp add: schema_name_matches_def)
  next
    case (Some p)
    with assms(3) show ?thesis by (simp add: schema_name_matches_Some)
  qed
  have loop: "getApiSchemas_loop schemaPattern L S allSchemas
           \<lparr>acc_schemas = [], acc_names = [], acc_count = 0, acc_skipped = 0\<rparr>
         = acc_after L S ms"
    unfolding ms using assms(2) by (rule getApiSchemas_loop_all)
  have bound: "int (length (page_of L S ms)) \<le> max 0 L"
    by (simp add: page_of_def)
  show ?thesis
    using bound loop unfolding assms(4,5,6)
    by (simp add: getApiSchemas_def assms(1) acc_after_def Let_def page_of_def)
qed

theorem getApiSchemas_filter_then_paginate_witness:
  "\<exists>r. getApiSchemas (Inr ticket_doc) (Some ''Ticket'') (Some 2) (Some 1) (Some False) = Inr r
      \<and> r_schemas r = [(''TicketType'', JNum 2), (''NewTicket'', JNum 4)]
      \<and> r_returnedCount r = 2
      \<and> r_matchingCount r = 5
      \<and> r_hasMore r
      \<and> r_schemaNames r
            = Some [''NewTicket'', ''Ticket'', ''TicketArea'', ''TicketType'', ''ticketrule'']
      \<and> r_hint r = None"
proof -
  let ?all = "[(''Ticket'', JNum 1), (''TicketType'', JNum 2), (''Asset'', JNum 3),
               (''NewTicket'', JNum 4), (''ticketrule'', JNum 5), (''TicketArea'', JNum 6)]"
  let ?ms = "[(''Ticket'', JNum 1), (''TicketType'', JNum 2),
              (''NewTicket'', JNum 4), (''ticketrule'', JNum 5), (''TicketArea'', JNum 6)]"
  have a: "doc_schemas ticket_doc = Some ?all" by (simp add: ticket_doc_def)
  have b: "distinct (map fst ?all)" by simp
  have c: "?ms = filter (\<lambda>e. str_includes (toLowerCase (fst e)) (toLowerCase ''Ticket'')) ?all"
    by (simp add: toLowerCase_def lower_char_def)
  have s: "sort (map fst ?ms)
     = [''NewTicket'', ''Ticket'', ''TicketArea'', ''TicketType'', ''ticketrule'']"
    by code_simp
  have c': "?ms = (case Some ''Ticket'' of
                 None \<Rightarrow> ?all
               | Some p \<Rightarrow> filter (\<lambda>e. str_includes (toLowerCase (fst e)) (toLowerCase p)) ?all)"
    using c by simp
  from getApiSchemas_filter_then_paginate [OF a b c' refl refl refl, of "Some 2" "Some 1" "Some False"] s
  obtain r where r: "getApiSchemas (Inr ticket_doc) (Some ''Ticket'') (Some 2) (Some 1) (Some False) = Inr r"
    "r_schemas r = [(''TicketType'', JNum 2), (''NewTicket'', JNum 4)]"
    "r_returnedCount r = length (r_schemas r)"
    "r_matchingCount r = 5"
    "r_hasMore r \<longleftrightarrow> 1 + int (r_returnedCount r) < 5"
    "r_schemaNames r = Some [''NewTicket'', ''Ticket'', ''TicketArea'', ''TicketType'', ''ticketrule'']"
    "r_hint r = None"
    by auto
  then show ?thesis by (intro exI [of _ r]) simp
qed

section \<open>Properties of the tool handlers\<close>

lemma arg_of_update_other:
  "k \<noteq> k' \<Longrightarrow> arg_of (AList.update k v a) k' = arg_of a k'"
  by (simp add: arg_of_def update_conv')

lemma arg_of_delete_other:
  "k \<noteq> k' \<Longrightarrow> arg_of (AList.delete k a) k' = arg_of a k'"
  by (simp add: arg_of_def delete_conv')

lemma arg_of_delete_same: "arg_of (AList.delete k a) k = JUndefined"
  by (simp add: arg_of_def delete_conv')

lemma halo_dispatch_query:
  "halo_dispatch pf w c ''halopsa_query'' (Some a)
   = (case executeQuery w c (arg_of a ''sql'') of
        (Inl e, c', log) \<Rightarrow> (Inl e, c', log)
      | (Inr result, c', log) \<Rightarrow> (Inr (JsonText result), c', log))"
  by (simp add: halo_dispatch_def destructure_def)

lemma halo_query_reads_sql_only:
  "arg_of a ''sql'' = arg_of b ''sql'' \<Longrightarrow>
   halo_handler pf w c ''halopsa_query'' (Some a) = halo_handler pf w c ''halopsa_query'' (Some b)"
  by (simp only: halo_handler_def halo_dispatch_query)

lemma executeQuery_log:
  "snd (snd (executeQuery w c sql))
   = snd (snd (halo_authenticate w c))
     @ (if fst (halo_authenticate w c) = Inr ()
        then [halo_report_request (fst (snd (halo_authenticate w c))) sql]
        else [])"
proof (cases "halo_authenticate w c")
  case (fields res c' log)
  show ?thesis
  proof (cases res)
    case (Inl e)
    with fields show ?thesis by (simp add: executeQuery_def)
  next
    case (Inr u)
    show ?thesis
    proof (cases "w_api_reply w")
      case (NetworkError e)
      with fields Inr show ?thesis by (simp add: executeQuery_def Let_def)
    next
      case (Response r)
      with fields Inr show ?thesis
        by (cases "resp_json r") (simp_all add: executeQuery_def Let_def)
    qed
  qed
qed

lemma halo_query_log:
  "snd (snd (halo_handler pf w c ''halopsa_query'' (Some a)))
   = snd (snd (executeQuery w c (arg_of a ''sql'')))"
proof (cases "executeQuery w c (arg_of a ''sql'')")
  case (fields res c' log)
  then show ?thesis
    by (cases res) (simp_all add: halo_handler_def halo_dispatch_query)
qed

text \<open>
  Claim C9. Whenever \<open>halopsa_query\<close> reaches the reporting API (the token step having
  succeeded) it POSTs exactly one request, whose body is the one-element array holding
  \<open>{_loadreportonly: true, sql: sql}\<close> with the \<open>sql\<close> argument as given. The handler reads
  no other argument: two argument bags with the same \<open>sql\<close> give the same outcome, the
  same client state and the same requests, so \<open>loadReportOnly\<close> has no effect.
\<close>

theorem halopsa_query_body:
  "snd (snd (halo_handler pf w c ''halopsa_query'' (Some a)))
     = snd (snd (halo_authenticate w c))
       @ (if fst (halo_authenticate w c) = Inr ()
          then [halo_report_request (fst (snd (halo_authenticate w c))) (arg_of a ''sql'')]
          else [])
   \<and> rq_verb (halo_report_request c' (arg_of a ''sql'')) = ''POST''
   \<and> rq_body (halo_report_request c' (arg_of a ''sql''))
       = Some (JsonBody (JArr [JObj [(''_loadreportonly'', JBool True),
                                     (''sql'', arg_of a ''sql'')]]))
   \<and> halo_handler pf w c ''halopsa_query'' (Some (AList.update ''loadReportOnly'' v a))
       = halo_handler pf w c ''halopsa_query'' (Some a)
   \<and> (\<forall>b. arg_of a ''sql'' = arg_of b ''sql'' \<longrightarrow>
         halo_handler pf w c ''halopsa_query'' (Some a)
           = halo_handler pf w c ''halopsa_query'' (Some b))"
proof (intro conjI allI impI)
  show "snd (snd (halo_handler pf w c ''halopsa_query'' (Some a)))
     = snd (snd (halo_authenticate w c))
       @ (if fst (halo_authenticate w c) = Inr ()
          then [halo_report_request (fst (snd (halo_authenticate w c))) (arg_of a ''sql'')]
          else [])"
    by (simp only: halo_query_log executeQuery_log)
  show "rq_verb (halo_report_request c' (arg_of a ''sql'')) = ''POST''"
    by (simp add: halo_report_request_def)
  show "rq_body (halo_report_request c' (arg_of a ''sql''))
       = Some (JsonBody (JArr [JObj [(''_loadreportonly'', JBool True),
                                     (''sql'', arg_of a ''sql'')]]))"
    by (simp add: halo_report_request_def)
  have "arg_of (AList.update ''loadReportOnly'' v a) ''sql'' = arg_of a ''sql''"
    by (rule arg_of_update_other) simp
  then show "halo_handler pf w c ''halopsa_query'' (Some (AList.update ''loadReportOnly'' v a))
       = halo_handler pf w c ''halopsa_query'' (Some a)"
    by (rule halo_query_reads_sql_only)
next
  fix b
  assume "arg_of a ''sql'' = arg_of b ''sql''"
  then show "halo_handler pf w c ''halopsa_query'' (Some a)
           = halo_handler pf w c ''halopsa_query'' (Some b)"
    by (rule halo_query_reads_sql_only)
qed

theorem halopsa_query_body_witness:
  "snd (snd (halo_handler failing_platform (sample_world\<lparr>w_api_reply := json_reply\<rparr>)
               sample_halo_client ''halopsa_query''
               (Some [(''sql'', JStr ''SELECT 1''), (''loadReportOnly'', JBool False)])))
     = [halo_token_request sample_halo_client,
        halo_report_request
          (sample_halo_client\<lparr>h_accessToken := Some ''abc'', h_tokenExpiry := Some 3540000\<rparr>)
          (JStr ''SELECT 1'')]
   \<and> halo_handler failing_platform (sample_world\<lparr>w_api_reply := json_reply\<rparr>)
        sample_halo_client ''halopsa_query''
        (Some [(''sql'', JStr ''SELECT 1''), (''loadReportOnly'', JBool False)])
     = halo_handler failing_platform (sample_world\<lparr>w_api_reply := json_reply\<rparr>)
        sample_halo_client ''halopsa_query'' (Some [(''sql'', JStr ''SELECT 1'')])"
proof -
  let ?w = "sample_world\<lparr>w_api_reply := json_reply\<rparr>"
  let ?a = "[(''sql'', JStr ''SELECT 1''), (''loadReportOnly'', JBool False)]"
  have auth: "halo_authenticate ?w sample_halo_client
      = (Inr (), sample_halo_client\<lparr>h_accessToken := Some ''abc'', h_tokenExpiry := Some 3540000\<rparr>,
         [halo_token_request sample_halo_client])"
    by (simp add: halo_authenticate_def sample_world_def sample_halo_client_def token_granted_def
        hour_token_def token_valid_def Let_def)
  have sql: "arg_of ?a ''sql'' = JStr ''SELECT 1''"
    "arg_of ?a ''sql'' = arg_of [(''sql'', JStr ''SELECT 1'')] ''sql''"
    by (simp_all add: arg_of_def)
  note T = halopsa_query_body [of failing_platform ?w sample_halo_client ?a]
  from T auth sql(1) have A:
    "snd (snd (halo_handler failing_platform ?w sample_halo_client ''halopsa_query'' (Some ?a)))
     = [halo_token_request sample_halo_client,
        halo_report_request
          (sample_halo_client\<lparr>h_accessToken := Some ''abc'', h_tokenExpiry := Some 3540000\<rparr>)
          (JStr ''SELECT 1'')]"
    by simp
  from T sql(2) have B:
    "halo_handler failing_platform ?w sample_halo_client ''halopsa_query'' (Some ?a)
     = halo_handler failing_platform ?w sample_halo_client ''halopsa_query''
         (Some [(''sql'', JStr ''SELECT 1'')])"
    by blast
  from A B show ?thesis by blast
qed


section \<open>Properties of the query builder\<close>

lemma and_then_Inr_iff:
  "and_then r k = Inr v \<longleftrightarrow> (\<exists>x. r = Inr x \<and> k x = Inr v)"
  by (cases r) (simp_all add: and_then_def)

lemma and_then_Inr: "and_then (Inr x) k = k x"
  by (simp add: and_then_def)

lemma js_ToString_Inr_iff: "js_ToString v = Inr s \<longleftrightarrow> js_convertible v \<and> s = js_String v"
  by (auto simp: js_ToString_def)

lemma collect_map_Inr_iff:
  assumes "\<And>x y. f x = Inr y \<longleftrightarrow> P x \<and> y = g x"
  shows "collect (map f xs) = Inr ys \<longleftrightarrow> (\<forall>x \<in> set xs. P x) \<and> ys = map g xs"
proof (induction xs arbitrary: ys)
  case Nil
  then show ?case by auto
next
  case (Cons x xs)
  show ?case
    by (auto simp: and_then_Inr_iff assms Cons.IH)
qed

lemma escape_quotes_Nil: "escape_quotes [] = []"
  by (simp add: escape_quotes_def)

lemma escape_quotes_Cons:
  "escape_quotes (ch # s) = (if ch = CHR 0x27 then [ch, ch] else [ch]) @ escape_quotes s"
  by (simp add: escape_quotes_def)

lemma escape_quotes_count:
  "length (filter (\<lambda>ch. ch = CHR 0x27) (escape_quotes s))
     = 2 * length (filter (\<lambda>ch. ch = CHR 0x27) s)"
  by (induction s) (simp_all add: escape_quotes_def)

lemma escape_quotes_rest:
  "filter (\<lambda>ch. ch \<noteq> CHR 0x27) (escape_quotes s) = filter (\<lambda>ch. ch \<noteq> CHR 0x27) s"
  by (induction s) (simp_all add: escape_quotes_def)

lemma escape_quotes_append:
  "escape_quotes (s @ t) = escape_quotes s @ escape_quotes t"
  by (simp add: escape_quotes_def)

lemma condition_clause_Inr_iff:
  "condition_clause kv = Inr cl \<longleftrightarrow>
     js_convertible (snd kv)
     \<and> cl = (case snd kv of
               JNull \<Rightarrow> fst kv @ '' IS NULL''
             | JStr s \<Rightarrow> fst kv @ '' = '' @ squote @ escape_quotes s @ squote
             | v \<Rightarrow> fst kv @ '' = '' @ js_String v)"
  by (cases "snd kv")
     (auto simp: condition_clause_def and_then_Inr_iff js_ToString_Inr_iff)

lemma where_part_Inr_iff:
  "where_part conditions = Inr wc \<longleftrightarrow>
     (js_truthy conditions \<longrightarrow> (\<forall>kv \<in> set (js_entries conditions). js_convertible (snd kv)))
     \<and> wc = (if js_truthy conditions \<and> js_entries conditions \<noteq> []
             then '' WHERE '' @ js_join '' AND ''
                    (map (\<lambda>kv. case snd kv of
                                 JNull \<Rightarrow> fst kv @ '' IS NULL''
                               | JStr s \<Rightarrow> fst kv @ '' = '' @ squote @ escape_quotes s @ squote
                               | v \<Rightarrow> fst kv @ '' = '' @ js_String v)
                       (js_entries conditions))
             else [])"
proof (cases "js_truthy conditions \<and> js_entries conditions \<noteq> []")
  case False
  then show ?thesis by (auto simp: where_part_def conditions_given_def)
next
  case True
  then show ?thesis
    by (auto simp: where_part_def conditions_given_def and_then_Inr_iff
        collect_map_Inr_iff [where f = condition_clause, OF condition_clause_Inr_iff])
qed

lemma order_part_Inr_iff:
  "order_part orderBy = Inr oc \<longleftrightarrow>
     (js_truthy orderBy \<longrightarrow> js_convertible orderBy)
     \<and> oc = (if js_truthy orderBy then '' ORDER BY '' @ js_String orderBy else [])"
  by (auto simp: order_part_def and_then_Inr_iff js_ToString_Inr_iff)

lemma columns_Inr:
  assumes "columns_given columns = Inr given"
    and "(if given then columns_join columns else Inr ''*'') = Inr cols"
  shows "cols = (case columns of
                   JArr xs \<Rightarrow> if xs = [] then ''*'' else js_join '', '' (map (js_str True) xs)
                 | _ \<Rightarrow> ''*'')"
  using assms
  by (cases columns)
     (auto simp: columns_given_def columns_join_def js_array_join_def split: if_splits)


lemma build_query_Inr_iff:
  "build_query a = Inr q \<longleftrightarrow>
     (\<exists>given cols.
        columns_given (arg_of a ''columns'') = Inr given
        \<and> (if given then columns_join (arg_of a ''columns'') else Inr ''*'') = Inr cols)
     \<and> js_convertible (arg_of a ''tableName'')
     \<and> (js_truthy (arg_of a ''conditions'') \<longrightarrow>
          (\<forall>kv \<in> set (js_entries (arg_of a ''conditions'')). js_convertible (snd kv)))
     \<and> (js_truthy (arg_of a ''orderBy'') \<longrightarrow> js_convertible (arg_of a ''orderBy''))
     \<and> (js_truthy (arg_of a ''limit'') \<longrightarrow> js_convertible (arg_of a ''limit''))
     \<and> q = ''SELECT ''
            @ (if js_truthy (arg_of a ''limit'')
               then ''TOP '' @ js_String (arg_of a ''limit'') @ '' '' else [])
            @ (case arg_of a ''columns'' of
                 JArr xs \<Rightarrow> if xs = [] then ''*'' else js_join '', '' (map (js_str True) xs)
               | _ \<Rightarrow> ''*'')
            @ '' FROM '' @ js_String (arg_of a ''tableName'')
            @ (if js_truthy (arg_of a ''conditions'') \<and> js_entries (arg_of a ''conditions'') \<noteq> []
               then '' WHERE '' @ js_join '' AND ''
                      (map (\<lambda>kv. case snd kv of
                                   JNull \<Rightarrow> fst kv @ '' IS NULL''
                                 | JStr s \<Rightarrow> fst kv @ '' = '' @ squote @ escape_quotes s @ squote
                                 | v \<Rightarrow> fst kv @ '' = '' @ js_String v)
                         (js_entries (arg_of a ''conditions'')))
               else [])
            @ (if js_truthy (arg_of a ''orderBy'')
               then '' ORDER BY '' @ js_String (arg_of a ''orderBy'') else [])"
proof -
  define C where "C = (\<lambda>g. if g then columns_join (arg_of a ''columns'') else Inr ''*'')"
  define W where "W = (if js_truthy (arg_of a ''conditions'') \<and> js_entries (arg_of a ''conditions'') \<noteq> []
               then '' WHERE '' @ js_join '' AND ''
                      (map (\<lambda>kv. case snd kv of
                                   JNull \<Rightarrow> fst kv @ '' IS NULL''
                                 | JStr s \<Rightarrow> fst kv @ '' = '' @ squote @ escape_quotes s @ squote
                                 | v \<Rightarrow> fst kv @ '' = '' @ js_String v)
                         (js_entries (arg_of a ''conditions'')))
               else [])"
  define OB where "OB = (if js_truthy (arg_of a ''orderBy'')
               then '' ORDER BY '' @ js_String (arg_of a ''orderBy'') else [])"
  define CC where "CC = (case arg_of a ''columns'' of
                 JArr xs \<Rightarrow> if xs = [] then ''*'' else js_join '', '' (map (js_str True) xs)
               | _ \<Rightarrow> ''*'')"
  define PW where "PW \<longleftrightarrow> (js_truthy (arg_of a ''conditions'') \<longrightarrow>
          (\<forall>kv \<in> set (js_entries (arg_of a ''conditions'')). js_convertible (snd kv)))"
  define PO where "PO \<longleftrightarrow> (js_truthy (arg_of a ''orderBy'') \<longrightarrow> js_convertible (arg_of a ''orderBy''))"
  have wp: "where_part (arg_of a ''conditions'') = Inr wc \<longleftrightarrow> PW \<and> wc = W" for wc
    unfolding W_def PW_def by (rule where_part_Inr_iff)
  have op: "order_part (arg_of a ''orderBy'') = Inr oc \<longleftrightarrow> PO \<and> oc = OB" for oc
    unfolding OB_def PO_def by (rule order_part_Inr_iff)
  have cc: "columns_given (arg_of a ''columns'') = Inr g \<Longrightarrow> C g = Inr cols \<Longrightarrow> cols = CC"
    for g cols
    unfolding C_def CC_def by (rule columns_Inr)
  have det: "columns_given (arg_of a ''columns'') = Inr g \<Longrightarrow>
             columns_given (arg_of a ''columns'') = Inr g' \<Longrightarrow> g' = g" for g g'
    by simp
  have bq: "build_query a =
      and_then (columns_given (arg_of a ''columns'')) (\<lambda>given.
         and_then (C given) (\<lambda>cols.
         and_then (js_ToString (arg_of a ''tableName'')) (\<lambda>table.
         and_then (where_part (arg_of a ''conditions'')) (\<lambda>where_clause.
         and_then (order_part (arg_of a ''orderBy'')) (\<lambda>order_clause.
           if js_truthy (arg_of a ''limit'') then
             and_then (columns_given (arg_of a ''columns'')) (\<lambda>given2.
             and_then (js_ToString (arg_of a ''limit'')) (\<lambda>top.
             and_then (C given2) (\<lambda>cols2.
             and_then (js_ToString (arg_of a ''tableName'')) (\<lambda>table2.
             and_then (where_part (arg_of a ''conditions'')) (\<lambda>where_clause2.
             and_then (order_part (arg_of a ''orderBy'')) (\<lambda>order_clause2.
               Inr (''SELECT TOP '' @ top @ '' '' @ cols2 @ '' FROM '' @ table2
                    @ where_clause2 @ order_clause2)))))))
           else Inr (''SELECT '' @ cols @ '' FROM '' @ table @ where_clause @ order_clause))))))"
    unfolding build_query_def Let_def C_def ..
  show ?thesis
  proof (cases "js_truthy (arg_of a ''limit'')")
    case True
    have "build_query a = Inr q \<longleftrightarrow>
       (\<exists>g cols. columns_given (arg_of a ''columns'') = Inr g \<and> C g = Inr cols)
       \<and> js_convertible (arg_of a ''tableName'') \<and> PW \<and> PO
       \<and> js_convertible (arg_of a ''limit'')
       \<and> q = ''SELECT TOP '' @ js_String (arg_of a ''limit'') @ '' '' @ CC @ '' FROM ''
               @ js_String (arg_of a ''tableName'') @ W @ OB"
      unfolding bq using True
      by (auto simp: and_then_Inr_iff js_ToString_Inr_iff wp op dest: cc)
    with True show ?thesis
      unfolding C_def CC_def W_def OB_def PW_def PO_def by simp
  next
    case False
    have "build_query a = Inr q \<longleftrightarrow>
       (\<exists>g cols. columns_given (arg_of a ''columns'') = Inr g \<and> C g = Inr cols)
       \<and> js_convertible (arg_of a ''tableName'') \<and> PW \<and> PO
       \<and> q = ''SELECT '' @ CC @ '' FROM '' @ js_String (arg_of a ''tableName'') @ W @ OB"
      unfolding bq using False
      by (auto simp: and_then_Inr_iff js_ToString_Inr_iff wp op dest: cc)
    with False show ?thesis
      unfolding C_def CC_def W_def OB_def PW_def PO_def by simp
  qed
qed


lemma build_query_shape:
  "build_query a = Inr q \<Longrightarrow> q = ''SELECT ''
            @ (if js_truthy (arg_of a ''limit'')
               then ''TOP '' @ js_String (arg_of a ''limit'') @ '' '' else [])
            @ (case arg_of a ''columns'' of
                 JArr xs \<Rightarrow> if xs = [] then ''*'' else js_join '', '' (map (js_str True) xs)
               | _ \<Rightarrow> ''*'')
            @ '' FROM '' @ js_String (arg_of a ''tableName'')
            @ (if js_truthy (arg_of a ''conditions'') \<and> js_entries (arg_of a ''conditions'') \<noteq> []
               then '' WHERE '' @ js_join '' AND ''
                      (map (\<lambda>kv. case snd kv of
                                   JNull \<Rightarrow> fst kv @ '' IS NULL''
                                 | JStr s \<Rightarrow> fst kv @ '' = '' @ squote @ escape_quotes s @ squote
                                 | v \<Rightarrow> fst kv @ '' = '' @ js_String v)
                         (js_entries (arg_of a ''conditions'')))
               else [])
            @ (if js_truthy (arg_of a ''orderBy'')
               then '' ORDER BY '' @ js_String (arg_of a ''orderBy'') else [])"
  by (simp add: build_query_Inr_iff)

lemma build_query_returns:
  assumes "(case arg_of a ''columns'' of
          JArr xs \<Rightarrow> \<forall>x \<in> set xs. js_convertible x
        | v \<Rightarrow> \<not> js_truthy v)
       \<and> js_convertible (arg_of a ''tableName'')
       \<and> (\<forall>kv \<in> set (js_entries (arg_of a ''conditions'')). js_convertible (snd kv))
       \<and> js_convertible (arg_of a ''orderBy'')
       \<and> js_convertible (arg_of a ''limit'')"
  shows "build_query a = Inr (''SELECT ''
            @ (if js_truthy (arg_of a ''limit'')
               then ''TOP '' @ js_String (arg_of a ''limit'') @ '' '' else [])
            @ (case arg_of a ''columns'' of
                 JArr xs \<Rightarrow> if xs = [] then ''*'' else js_join '', '' (map (js_str True) xs)
               | _ \<Rightarrow> ''*'')
            @ '' FROM '' @ js_String (arg_of a ''tableName'')
            @ (if js_truthy (arg_of a ''conditions'') \<and> js_entries (arg_of a ''conditions'') \<noteq> []
               then '' WHERE '' @ js_join '' AND ''
                      (map (\<lambda>kv. case snd kv of
                                   JNull \<Rightarrow> fst kv @ '' IS NULL''
                                 | JStr s \<Rightarrow> fst kv @ '' = '' @ squote @ escape_quotes s @ squote
                                 | v \<Rightarrow> fst kv @ '' = '' @ js_String v)
                         (js_entries (arg_of a ''conditions'')))
               else [])
            @ (if js_truthy (arg_of a ''orderBy'')
               then '' ORDER BY '' @ js_String (arg_of a ''orderBy'') else []))"
proof -
  have "\<exists>given cols.
        columns_given (arg_of a ''columns'') = Inr given
        \<and> (if given then columns_join (arg_of a ''columns'') else Inr ''*'') = Inr cols"
    using assms
    by (cases "arg_of a ''columns''")
       (auto simp: columns_given_def columns_join_def js_array_join_def)
  with assms show ?thesis
    unfolding build_query_Inr_iff by blast
qed

lemma build_query_single:
  "build_query [(''tableName'', JStr t), (''conditions'', JObj [(k, v)])]
   = and_then (condition_clause (k, v))
       (\<lambda>clause. Inr (''SELECT * FROM '' @ t @ '' WHERE '' @ clause))"
  by (cases "condition_clause (k, v)")
     (simp_all add: build_query_def arg_of_def columns_given_def where_part_def
        conditions_given_def order_part_def js_ToString_def js_String_def and_then_def)

lemma build_query_falsy_limit:
  "\<not> js_truthy (arg_of a ''limit'') \<Longrightarrow> build_query a = build_query (AList.delete ''limit'' a)"
  by (simp add: build_query_def Let_def arg_of_delete_other arg_of_delete_same)

lemma build_query_limit_regenerates:
  assumes "js_truthy (arg_of a ''limit'')" and "js_convertible (arg_of a ''limit'')"
    and "build_query (AList.delete ''limit'' a) = Inr q0"
  shows "\<exists>rest. q0 = ''SELECT '' @ rest
           \<and> build_query a = Inr (''SELECT TOP '' @ js_String (arg_of a ''limit'') @ '' '' @ rest)"
proof -
  have k: "arg_of (AList.delete ''limit'' a) ''columns'' = arg_of a ''columns''"
    "arg_of (AList.delete ''limit'' a) ''tableName'' = arg_of a ''tableName''"
    "arg_of (AList.delete ''limit'' a) ''conditions'' = arg_of a ''conditions''"
    "arg_of (AList.delete ''limit'' a) ''orderBy'' = arg_of a ''orderBy''"
    "arg_of (AList.delete ''limit'' a) ''limit'' = JUndefined"
    by (simp_all add: arg_of_delete_other arg_of_delete_same)
  from assms(3) [unfolded build_query_Inr_iff k] assms(1,2)
  show ?thesis
    unfolding build_query_Inr_iff by simp
qed

lemma halo_build_query_pure:
  "halo_handler pf w c ''halopsa_build_query'' (Some a)
   = (Returned (case build_query a of
                  Inr q \<Rightarrow> \<lparr>tr_content = PlainText q, tr_isError = False\<rparr>
                | Inl e \<Rightarrow> \<lparr>tr_content = PlainText (''Error: '' @ error_message e),
                             tr_isError = True\<rparr>),
      c, [])"
  by (cases "build_query a") (simp_all add: halo_handler_def halo_dispatch_def destructure_def)

text \<open>
  Claim C10, as amended. \<open>halopsa_build_query\<close> is a pure function of its arguments: it
  sends no request and leaves the client as it was, and the reply is the built query (or
  the error envelope when building throws). A query with one condition reads
  \<open>key IS NULL\<close> for a \<open>null\<close> value, \<open>key = 'text'\<close> for a string, with every single quote
  inside the string doubled and every other character kept, and \<open>key = n\<close> for a number.
  Whenever a query is built it has one form: \<open>SELECT\<close>, then \<open>TOP limit\<close> when the limit
  is truthy, the columns joined by commas (or \<open>*\<close>), the table, the conditions rendered
  one by one and joined by \<open>AND\<close> after \<open>WHERE\<close>, and \<open>ORDER BY\<close>; and a query is built
  whenever the columns are absent or an array and every value that is interpolated can be
  converted to a string. With a truthy (non-zero) limit the query is \<open>SELECT TOP limit\<close>
  followed by exactly what follows \<open>SELECT\<close> in the query built without the limit; a
  limit that is not truthy, such as 0, is treated as absent.
\<close>

theorem build_query_rendering:
  "halo_handler pf w c ''halopsa_build_query'' (Some a)
     = (Returned (case build_query a of
                    Inr q \<Rightarrow> \<lparr>tr_content = PlainText q, tr_isError = False\<rparr>
                  | Inl e \<Rightarrow> \<lparr>tr_content = PlainText (''Error: '' @ error_message e),
                               tr_isError = True\<rparr>),
        c, [])
   \<and> build_query [(''tableName'', JStr t), (''conditions'', JObj [(k, JNull)])]
       = Inr (''SELECT * FROM '' @ t @ '' WHERE '' @ k @ '' IS NULL'')
   \<and> build_query [(''tableName'', JStr t), (''conditions'', JObj [(k, JStr s)])]
       = Inr (''SELECT * FROM '' @ t @ '' WHERE '' @ k @ '' = '' @ squote @ escape_quotes s @ squote)
   \<and> build_query [(''tableName'', JStr t), (''conditions'', JObj [(k, JNum n)])]
       = Inr (''SELECT * FROM '' @ t @ '' WHERE '' @ k @ '' = '' @ show_int n)
   \<and> escape_quotes [] = []
   \<and> escape_quotes (ch # s) = (if ch = CHR 0x27 then [ch, ch] else [ch]) @ escape_quotes s
   \<and> escape_quotes (s @ s') = escape_quotes s @ escape_quotes s'
   \<and> length (filter (\<lambda>ch. ch = CHR 0x27) (escape_quotes s))
       = 2 * length (filter (\<lambda>ch. ch = CHR 0x27) s)
   \<and> filter (\<lambda>ch. ch \<noteq> CHR 0x27) (escape_quotes s) = filter (\<lambda>ch. ch \<noteq> CHR 0x27) s
   \<and> (build_query a = Inr q \<longrightarrow>
        q = ''SELECT ''
            @ (if js_truthy (arg_of a ''limit'')
               then ''TOP '' @ js_String (arg_of a ''limit'') @ '' '' else [])
            @ (case arg_of a ''columns'' of
                 JArr xs \<Rightarrow> if xs = [] then ''*'' else js_join '', '' (map (js_str True) xs)
               | _ \<Rightarrow> ''*'')
            @ '' FROM '' @ js_String (arg_of a ''tableName'')
            @ (if js_truthy (arg_of a ''conditions'') \<and> js_entries (arg_of a ''conditions'') \<noteq> []
               then '' WHERE '' @ js_join '' AND ''
                      (map (\<lambda>kv. case snd kv of
                                   JNull \<Rightarrow> fst kv @ '' IS NULL''
                                 | JStr s \<Rightarrow> fst kv @ '' = '' @ squote @ escape_quotes s @ squote
                                 | v \<Rightarrow> fst kv @ '' = '' @ js_String v)
                         (js_entries (arg_of a ''conditions'')))
               else [])
            @ (if js_truthy (arg_of a ''orderBy'')
               then '' ORDER BY '' @ js_String (arg_of a ''orderBy'') else []))
   \<and> ((case arg_of a ''columns'' of
          JArr xs \<Rightarrow> \<forall>x \<in> set xs. js_convertible x
        | v \<Rightarrow> \<not> js_truthy v)
       \<and> js_convertible (arg_of a ''tableName'')
       \<and> (\<forall>kv \<in> set (js_entries (arg_of a ''conditions'')). js_convertible (snd kv))
       \<and> js_convertible (arg_of a ''orderBy'')
       \<and> js_convertible (arg_of a ''limit'') \<longrightarrow>
        build_query a = Inr (''SELECT ''
            @ (if js_truthy (arg_of a ''limit'')
               then ''TOP '' @ js_String (arg_of a ''limit'') @ '' '' else [])
            @ (case arg_of a ''columns'' of
                 JArr xs \<Rightarrow> if xs = [] then ''*'' else js_join '', '' (map (js_str True) xs)
               | _ \<Rightarrow> ''*'')
            @ '' FROM '' @ js_String (arg_of a ''tableName'')
            @ (if js_truthy (arg_of a ''conditions'') \<and> js_entries (arg_of a ''conditions'') \<noteq> []
               then '' WHERE '' @ js_join '' AND ''
                      (map (\<lambda>kv. case snd kv of
                                   JNull \<Rightarrow> fst kv @ '' IS NULL''
                                 | JStr s \<Rightarrow> fst kv @ '' = '' @ squote @ escape_quotes s @ squote
                                 | v \<Rightarrow> fst kv @ '' = '' @ js_String v)
                         (js_entries (arg_of a ''conditions'')))
               else [])
            @ (if js_truthy (arg_of a ''orderBy'')
               then '' ORDER BY '' @ js_String (arg_of a ''orderBy'') else [])))
   \<and> (js_truthy (arg_of a ''limit'') \<and> js_convertible (arg_of a ''limit'')
       \<and> build_query (AList.delete ''limit'' a) = Inr q0 \<longrightarrow>
        (\<exists>rest. q0 = ''SELECT '' @ rest
           \<and> build_query a
               = Inr (''SELECT TOP '' @ js_String (arg_of a ''limit'') @ '' '' @ rest)))
   \<and> (\<not> js_truthy (arg_of a ''limit'') \<longrightarrow>
        build_query a = build_query (AList.delete ''limit'' a))"
proof (intro conjI impI)
  show "halo_handler pf w c ''halopsa_build_query'' (Some a)
     = (Returned (case build_query a of
                    Inr q \<Rightarrow> \<lparr>tr_content = PlainText q, tr_isError = False\<rparr>
                  | Inl e \<Rightarrow> \<lparr>tr_content = PlainText (''Error: '' @ error_message e),
                               tr_isError = True\<rparr>),
        c, [])"
    by (rule halo_build_query_pure)
  show "build_query [(''tableName'', JStr t), (''conditions'', JObj [(k, JNull)])]
       = Inr (''SELECT * FROM '' @ t @ '' WHERE '' @ k @ '' IS NULL'')"
    by (simp add: build_query_single condition_clause_def and_then_Inr)
  show "build_query [(''tableName'', JStr t), (''conditions'', JObj [(k, JStr s)])]
       = Inr (''SELECT * FROM '' @ t @ '' WHERE '' @ k @ '' = '' @ squote @ escape_quotes s @ squote)"
    by (simp add: build_query_single condition_clause_def and_then_Inr)
  show "build_query [(''tableName'', JStr t), (''conditions'', JObj [(k, JNum n)])]
       = Inr (''SELECT * FROM '' @ t @ '' WHERE '' @ k @ '' = '' @ show_int n)"
    by (simp add: build_query_single condition_clause_def and_then_Inr js_ToString_def js_String_def)
  show "escape_quotes [] = []"
    by (rule escape_quotes_Nil)
  show "escape_quotes (ch # s) = (if ch = CHR 0x27 then [ch, ch] else [ch]) @ escape_quotes s"
    by (rule escape_quotes_Cons)
  show "escape_quotes (s @ s') = escape_quotes s @ escape_quotes s'"
    by (rule escape_quotes_append)
  show "length (filter (\<lambda>ch. ch = CHR 0x27) (escape_quotes s))
       = 2 * length (filter (\<lambda>ch. ch = CHR 0x27) s)"
    by (rule escape_quotes_count)
  show "filter (\<lambda>ch. ch \<noteq> CHR 0x27) (escape_quotes s) = filter (\<lambda>ch. ch \<noteq> CHR 0x27) s"
    by (rule escape_quotes_rest)
next
  assume "build_query a = Inr q"
  then show "q = ''SELECT ''
            @ (if js_truthy (arg_of a ''limit'')
               then ''TOP '' @ js_String (arg_of a ''limit'') @ '' '' else [])
            @ (case arg_of a ''columns'' of
                 JArr xs \<Rightarrow> if xs = [] then ''*'' else js_join '', '' (map (js_str True) xs)
               | _ \<Rightarrow> ''*'')
            @ '' FROM '' @ js_String (arg_of a ''tableName'')
            @ (if js_truthy (arg_of a ''conditions'') \<and> js_entries (arg_of a ''conditions'') \<noteq> []
               then '' WHERE '' @ js_join '' AND ''
                      (map (\<lambda>kv. case snd kv of
                                   JNull \<Rightarrow> fst kv @ '' IS NULL''
                                 | JStr s \<Rightarrow> fst kv @ '' = '' @ squote @ escape_quotes s @ squote
                                 | v \<Rightarrow> fst kv @ '' = '' @ js_String v)
                         (js_entries (arg_of a ''conditions'')))
               else [])
            @ (if js_truthy (arg_of a ''orderBy'')
               then '' ORDER BY '' @ js_String (arg_of a ''orderBy'') else [])"
    by (rule build_query_shape)
next
  assume "(case arg_of a ''columns'' of
          JArr xs \<Rightarrow> \<forall>x \<in> set xs. js_convertible x
        | v \<Rightarrow> \<not> js_truthy v)
       \<and> js_convertible (arg_of a ''tableName'')
       \<and> (\<forall>kv \<in> set (js_entries (arg_of a ''conditions'')). js_convertible (snd kv))
       \<and> js_convertible (arg_of a ''orderBy'')
       \<and> js_convertible (arg_of a ''limit'')"
  then show "build_query a = Inr (''SELECT ''
            @ (if js_truthy (arg_of a ''limit'')
               then ''TOP '' @ js_String (arg_of a ''limit'') @ '' '' else [])
            @ (case arg_of a ''columns'' of
                 JArr xs \<Rightarrow> if xs = [] then ''*'' else js_join '', '' (map (js_str True) xs)
               | _ \<Rightarrow> ''*'')
            @ '' FROM '' @ js_String (arg_of a ''tableName'')
            @ (if js_truthy (arg_of a ''conditions'') \<and> js_entries (arg_of a ''conditions'') \<noteq> []
               then '' WHERE '' @ js_join '' AND ''
                      (map (\<lambda>kv. case snd kv of
                                   JNull \<Rightarrow> fst kv @ '' IS NULL''
                                 | JStr s \<Rightarrow> fst kv @ '' = '' @ squote @ escape_quotes s @ squote
                                 | v \<Rightarrow> fst kv @ '' = '' @ js_String v)
                         (js_entries (arg_of a ''conditions'')))
               else [])
            @ (if js_truthy (arg_of a ''orderBy'')
               then '' ORDER BY '' @ js_String (arg_of a ''orderBy'') else []))"
    by (rule build_query_returns)
next
  assume "js_truthy (arg_of a ''limit'') \<and> js_convertible (arg_of a ''limit'')
       \<and> build_query (AList.delete ''limit'' a) = Inr q0"
  then show "(\<exists>rest. q0 = ''SELECT '' @ rest
           \<and> build_query a
               = Inr (''SELECT TOP '' @ js_String (arg_of a ''limit'') @ '' '' @ rest))"
    by (elim conjE) (rule build_query_limit_regenerates)
next
  assume "\<not> js_truthy (arg_of a ''limit'')"
  then show "build_query a = build_query (AList.delete ''limit'' a)"
    by (rule build_query_falsy_limit)
qed

theorem build_query_rendering_witness:
  "build_query sample_query_args
     = Inr (''SELECT TOP 10 Faultid, Symptom FROM FAULTS WHERE Status = 1 AND Symptom = ''
            @ squote @ ''O'' @ squote @ squote @ ''Neil'' @ squote @ squote @ ''s'' @ squote
            @ '' AND Closed IS NULL ORDER BY datereported DESC'')
   \<and> build_query (AList.delete ''limit'' sample_query_args)
     = Inr (''SELECT Faultid, Symptom FROM FAULTS WHERE Status = 1 AND Symptom = ''
            @ squote @ ''O'' @ squote @ squote @ ''Neil'' @ squote @ squote @ ''s'' @ squote
            @ '' AND Closed IS NULL ORDER BY datereported DESC'')"
proof -
  let ?rest = "''Faultid, Symptom FROM FAULTS WHERE Status = 1 AND Symptom = ''
            @ squote @ ''O'' @ squote @ squote @ ''Neil'' @ squote @ squote @ ''s'' @ squote
            @ '' AND Closed IS NULL ORDER BY datereported DESC''"
  let ?b = "AList.delete ''limit'' sample_query_args"
  have args: "arg_of ?b ''tableName'' = JStr ''FAULTS''"
    "arg_of ?b ''columns'' = JArr [JStr ''Faultid'', JStr ''Symptom'']"
    "arg_of ?b ''conditions''
       = JObj [(''Status'', JNum 1),
               (''Symptom'', JStr (''O'' @ squote @ ''Neil'' @ squote @ ''s'')),
               (''Closed'', JNull)]"
    "arg_of ?b ''orderBy'' = JStr ''datereported DESC''"
    "arg_of ?b ''limit'' = JUndefined"
    "arg_of sample_query_args ''limit'' = JNum 10"
    by (simp_all add: sample_query_args_def arg_of_def)
  have ten: "js_String (JNum 10) = ''10''"
    by code_simp
  have one: "show_int 1 = ''1''"
    by code_simp
  have hb: "(case arg_of ?b ''columns'' of
          JArr xs \<Rightarrow> \<forall>x \<in> set xs. js_convertible x
        | v \<Rightarrow> \<not> js_truthy v)
       \<and> js_convertible (arg_of ?b ''tableName'')
       \<and> (\<forall>kv \<in> set (js_entries (arg_of ?b ''conditions'')). js_convertible (snd kv))
       \<and> js_convertible (arg_of ?b ''orderBy'')
       \<and> js_convertible (arg_of ?b ''limit'')"
    unfolding args by simp
  have cb: "''SELECT ''
            @ (if js_truthy (arg_of ?b ''limit'')
               then ''TOP '' @ js_String (arg_of ?b ''limit'') @ '' '' else [])
            @ (case arg_of ?b ''columns'' of
                 JArr xs \<Rightarrow> if xs = [] then ''*'' else js_join '', '' (map (js_str True) xs)
               | _ \<Rightarrow> ''*'')
            @ '' FROM '' @ js_String (arg_of ?b ''tableName'')
            @ (if js_truthy (arg_of ?b ''conditions'') \<and> js_entries (arg_of ?b ''conditions'') \<noteq> []
               then '' WHERE '' @ js_join '' AND ''
                      (map (\<lambda>kv. case snd kv of
                                   JNull \<Rightarrow> fst kv @ '' IS NULL''
                                 | JStr s \<Rightarrow> fst kv @ '' = '' @ squote @ escape_quotes s @ squote
                                 | v \<Rightarrow> fst kv @ '' = '' @ js_String v)
                         (js_entries (arg_of ?b ''conditions'')))
               else [])
            @ (if js_truthy (arg_of ?b ''orderBy'')
               then '' ORDER BY '' @ js_String (arg_of ?b ''orderBy'') else [])
        = ''SELECT '' @ ?rest"
    unfolding args by (simp add: js_String_def one escape_quotes_def squote_def)
  note returned =
    build_query_rendering [where a = ?b,
      THEN conjunct2, THEN conjunct2, THEN conjunct2, THEN conjunct2, THEN conjunct2,
      THEN conjunct2, THEN conjunct2, THEN conjunct2, THEN conjunct2, THEN conjunct2,
      THEN conjunct1]
  from returned hb
  have "build_query ?b = Inr (''SELECT ''
            @ (if js_truthy (arg_of ?b ''limit'')
               then ''TOP '' @ js_String (arg_of ?b ''limit'') @ '' '' else [])
            @ (case arg_of ?b ''columns'' of
                 JArr xs \<Rightarrow> if xs = [] then ''*'' else js_join '', '' (map (js_str True) xs)
               | _ \<Rightarrow> ''*'')
            @ '' FROM '' @ js_String (arg_of ?b ''tableName'')
            @ (if js_truthy (arg_of ?b ''conditions'') \<and> js_entries (arg_of ?b ''conditions'') \<noteq> []
               then '' WHERE '' @ js_join '' AND ''
                      (map (\<lambda>kv. case snd kv of
                                   JNull \<Rightarrow> fst kv @ '' IS NULL''
                                 | JStr s \<Rightarrow> fst kv @ '' = '' @ squote @ escape_quotes s @ squote
                                 | v \<Rightarrow> fst kv @ '' = '' @ js_String v)
                         (js_entries (arg_of ?b ''conditions'')))
               else [])
            @ (if js_truthy (arg_of ?b ''orderBy'')
               then '' ORDER BY '' @ js_String (arg_of ?b ''orderBy'') else []))"
    by (rule mp)
  then have q0: "build_query ?b = Inr (''SELECT '' @ ?rest)"
    unfolding cb .
  have lim: "js_truthy (arg_of sample_query_args ''limit'')
        \<and> js_convertible (arg_of sample_query_args ''limit'')
        \<and> build_query ?b = Inr (''SELECT '' @ ?rest)"
    using q0 by (simp add: args)
  note regenerated =
    build_query_rendering [where a = sample_query_args and ?q0.0 = "''SELECT '' @ ?rest",
      THEN conjunct2, THEN conjunct2, THEN conjunct2, THEN conjunct2, THEN conjunct2,
      THEN conjunct2, THEN conjunct2, THEN conjunct2, THEN conjunct2, THEN conjunct2,
      THEN conjunct2, THEN conjunct1]
  from regenerated lim have "\<exists>rest. ''SELECT '' @ ?rest = ''SELECT '' @ rest
           \<and> build_query sample_query_args
               = Inr (''SELECT TOP '' @ js_String (arg_of sample_query_args ''limit'') @ '' ''
                      @ rest)"
    by (rule mp)
  then have "build_query sample_query_args = Inr (''SELECT TOP '' @ ''10'' @ '' '' @ ?rest)"
    by (simp add: args ten)
  with q0 show ?thesis by simp
qed

text \<open>
  The claim as stated fails for a limit of zero: it is supplied, and the query carries no
  \<open>TOP\<close>.
\<close>

theorem zero_limit_is_dropped:
  "arg_of [(''tableName'', JStr ''FAULTS''), (''limit'', JNum 0)] ''limit'' = JNum 0
   \<and> build_query [(''tableName'', JStr ''FAULTS''), (''limit'', JNum 0)]
       = Inr ''SELECT * FROM FAULTS''"
  by code_simp
section \<open>The dispatch boundary\<close>

lemma halo_handler_catches:
  "halo_dispatch pf w c name a = (Inl e, c', log) \<Longrightarrow>
   halo_handler pf w c name a
        = (Returned \<lparr>tr_content = PlainText (''Error: '' @ error_message e), tr_isError = True\<rparr>, c', log)"
  by (simp add: halo_handler_def)

lemma halo_handler_passes:
  "halo_dispatch pf w c name a = (Inr reply, c', log) \<Longrightarrow>
   halo_handler pf w c name a
        = (Returned \<lparr>tr_content = reply, tr_isError = False\<rparr>, c', log)"
  by (simp add: halo_handler_def)

lemma halo_unknown_tool:
  "name \<notin> set halo_tool_names \<Longrightarrow>
   halo_handler pf w c name a
        = (Returned \<lparr>tr_content = PlainText (''Error: Unknown tool: '' @ name), tr_isError = True\<rparr>, c, [])"
  by (simp add: halo_handler_def halo_dispatch_def halo_tool_names_def)

lemma halo_missing_bag:
  "(name, member) \<in> set [(''halopsa_list_tables'', ''filter''), (''halopsa_list_columns'', ''tableName''),
          (''halopsa_query'', ''sql''), (''halopsa_table_info'', ''tableName''),
          (''halopsa_build_query'', ''tableName'')] \<Longrightarrow>
   halo_handler pf w c name None
        = (Returned \<lparr>tr_content = PlainText (''Error: Cannot destructure property '' @ squote @ member @ squote @ '' of '' @ squote @ ''args'' @ squote @ '' as it is undefined.''), tr_isError = True\<rparr>, c, [])"
  by (auto simp: halo_handler_def halo_dispatch_def destructure_def)

lemma halo_table_name_required:
  "\<not> js_truthy (arg_of entries ''tableName'') \<Longrightarrow>
   halo_handler pf w c ''halopsa_table_info'' (Some entries)
        = (Returned \<lparr>tr_content = PlainText (''Error: Table name is required''), tr_isError = True\<rparr>, c, [])"
  by (simp add: halo_handler_def halo_dispatch_def destructure_def table_info_sql_def query_then_def)

lemma halo_filter_not_a_string:
  "js_truthy (arg_of entries ''filter'') \<and> (\<forall>s. arg_of entries ''filter'' \<noteq> JStr s) \<Longrightarrow>
   halo_handler pf w c ''halopsa_list_tables'' (Some entries)
        = (Returned \<lparr>tr_content = PlainText (''Error: filter.replace is not a function''), tr_isError = True\<rparr>, c, [])"
  by (cases "arg_of entries ''filter''")
       (simp_all add: halo_handler_def halo_dispatch_def destructure_def list_tables_sql_def
          escaped_arg_def query_then_def)

lemma halo_query_failure:
  "executeQuery w c (arg_of entries ''sql'') = (Inl e, c', log) \<Longrightarrow>
   halo_handler pf w c ''halopsa_query'' (Some entries)
        = (Returned \<lparr>tr_content = PlainText (''Error: '' @ error_message e), tr_isError = True\<rparr>, c', log)"
  by (simp add: halo_handler_def halo_dispatch_def destructure_def)

lemma halo_token_unreachable:
  "\<not> token_valid (h_accessToken c) (h_tokenExpiry c) (w_now w)
   \<and> w_token_reply w = NetworkError e \<Longrightarrow>
   halo_handler pf w c ''halopsa_query'' (Some entries)
        = (Returned \<lparr>tr_content = PlainText (''Error: Failed to authenticate with HaloPSA: '' @ error_string e), tr_isError = True\<rparr>,
           c, [halo_token_request c])"
  by (simp add: halo_handler_def halo_dispatch_def destructure_def executeQuery_def
        halo_authenticate_def Let_def)

lemma ninja_unknown_tool:
  "(case ninjaClient of None \<Rightarrow> initializeClient env | Some cl \<Rightarrow> Inr cl) = Inr nc \<and> ninja_route name a = None \<Longrightarrow>
   ninja_handler env methods ninjaClient name a
        = (Returned \<lparr>tr_content = PlainText (''Error: Unknown tool: '' @ name), tr_isError = False\<rparr>, Some nc)"
  by (simp add: ninja_handler_def)

lemma ninja_method_failure:
  "(case ninjaClient of None \<Rightarrow> initializeClient env | Some cl \<Rightarrow> Inr cl) = Inr nc
   \<and> ninja_route name a = Some (m, actuals) \<and> methods nc m actuals = (Inl e, nc') \<Longrightarrow>
   ninja_handler env methods ninjaClient name a
        = (Returned \<lparr>tr_content = PlainText (''Error: '' @ error_message e), tr_isError = False\<rparr>, Some nc')"
  by (simp add: ninja_handler_def)

lemma ninja_method_result:
  "(case ninjaClient of None \<Rightarrow> initializeClient env | Some cl \<Rightarrow> Inr cl) = Inr nc
   \<and> ninja_route name a = Some (m, actuals) \<and> methods nc m actuals = (Inr result, nc') \<Longrightarrow>
   ninja_handler env methods ninjaClient name a
        = (Returned \<lparr>tr_content = JsonText result, tr_isError = False\<rparr>, Some nc')"
  by (simp add: ninja_handler_def)

lemma ninja_handler_throws:
  "ninjaClient = None \<and> (\<not> env_truthy (env_clientId env) \<or> \<not> env_truthy (env_clientSecret env)) \<Longrightarrow>
   ninja_handler env methods ninjaClient name a
        = (Thrown (Error ''NINJAONE_CLIENT_ID and NINJAONE_CLIENT_SECRET environment variables are required''), None)"
  by (auto simp: ninja_handler_def initializeClient_def)

lemma halo_report_refused:
  "halo_authenticate w c = (Inr (), c', log) \<and> w_api_reply w = Response r \<and> \<not> resp_ok r \<Longrightarrow>
   halo_handler pf w c ''halopsa_query'' (Some entries)
        = (Returned \<lparr>tr_content = PlainText (''Error: Failed to execute query: Error: Query execution failed: ''
                                             @ show_nat (resp_status r) @ '' - '' @ resp_body r), tr_isError = True\<rparr>,
           c', log @ [halo_report_request c' (arg_of entries ''sql'')])"
  by (simp add: halo_handler_def halo_dispatch_def destructure_def executeQuery_def Let_def)

lemma halo_table_not_found:
  "table_info_sql (arg_of entries ''tableName'') = Inr sql
   \<and> executeQuery w c (JStr sql) = (Inr result, c', log) \<and> report_rows result = None \<Longrightarrow>
   halo_handler pf w c ''halopsa_table_info'' (Some entries)
        = (Returned \<lparr>tr_content = PlainText (''Error: Table '' @ js_String (arg_of entries ''tableName'')
                                             @ '' not found or has no columns''), tr_isError = True\<rparr>,
           c', log)"
  by (simp add: halo_handler_def halo_dispatch_def destructure_def query_then_def
        table_info_reply_def and_then_def)

lemma halo_shaping_failure:
  "list_tables_sql (arg_of entries ''filter'') = Inr sql
   \<and> executeQuery w c (JStr sql) = (Inr result, c', log) \<and> shape_tables pf result = Inl e \<Longrightarrow>
   halo_handler pf w c ''halopsa_list_tables'' (Some entries)
        = (Returned \<lparr>tr_content = PlainText (''Error: '' @ error_message e), tr_isError = True\<rparr>, c', log)"
  by (simp add: halo_handler_def halo_dispatch_def destructure_def query_then_def)

lemma halo_handler_returns:
  "\<exists>resp c' log. halo_handler pf w c name a = (Returned resp, c', log)"
proof (cases "halo_dispatch pf w c name a")
  case (fields res c' log)
  then show ?thesis by (cases res) (simp_all add: halo_handler_def)
qed

lemma ninja_handler_returns:
  assumes "ninjaClient \<noteq> None \<or> (env_truthy (env_clientId env) \<and> env_truthy (env_clientSecret env))"
  shows "\<exists>resp st. ninja_handler env methods ninjaClient name a = (Returned resp, st)"
proof -
  from assms obtain c where c: "(case ninjaClient of None \<Rightarrow> initializeClient env | Some c \<Rightarrow> Inr c) = Inr c"
    by (cases ninjaClient) (auto simp: initializeClient_def)
  show ?thesis
  proof (cases "ninja_route name a")
    case None
    with c show ?thesis by (simp add: ninja_handler_def)
  next
    case (Some ma)
    obtain m actuals where ma: "ma = (m, actuals)" by (cases ma)
    obtain res c' where r: "methods c m actuals = (res, c')" by (cases "methods c m actuals")
    from c Some ma r show ?thesis by (cases res) (simp_all add: ninja_handler_def)
  qed
qed

text \<open>
  Claim C2, as amended. Whatever is thrown inside the \<open>try\<close> of a call-tool handler is
  caught and returned as the text \<open>Error: message\<close>. In the HaloPSA reporting handler the
  envelope carries \<open>isError\<close>; this covers an unknown tool, a missing argument bag (the
  destructuring throws), a missing table name, an argument of the wrong kind, a failed
  token request, a report request that is refused, a table without columns and a failure
  while the reply is shaped; the handler returns an envelope on every call. The NinjaOne
  handler, once its client exists or both credentials are set, returns the text without
  the \<open>isError\<close> flag for an unknown tool and for whatever a method of the client throws.
  The NinjaOne handler creates its client before the \<open>try\<close>: with no client yet and a
  credential missing, the exception of \<open>initializeClient\<close> escapes to the caller.
\<close>

theorem dispatch_boundary:
  "(halo_dispatch pf w c name a = (Inl e, c', log) \<longrightarrow>
      halo_handler pf w c name a
        = (Returned \<lparr>tr_content = PlainText (''Error: '' @ error_message e), tr_isError = True\<rparr>, c', log))
   \<and> (halo_dispatch pf w c name a = (Inr reply, c', log) \<longrightarrow>
      halo_handler pf w c name a
        = (Returned \<lparr>tr_content = reply, tr_isError = False\<rparr>, c', log))
   \<and> (name \<notin> set halo_tool_names \<longrightarrow>
      halo_handler pf w c name a
        = (Returned \<lparr>tr_content = PlainText (''Error: Unknown tool: '' @ name), tr_isError = True\<rparr>, c, []))
   \<and> ((name, member) \<in> set [(''halopsa_list_tables'', ''filter''), (''halopsa_list_columns'', ''tableName''),
              (''halopsa_query'', ''sql''), (''halopsa_table_info'', ''tableName''),
              (''halopsa_build_query'', ''tableName'')] \<longrightarrow>
      halo_handler pf w c name None
        = (Returned \<lparr>tr_content = PlainText (''Error: Cannot destructure property '' @ squote @ member @ squote @ '' of '' @ squote @ ''args'' @ squote @ '' as it is undefined.''), tr_isError = True\<rparr>, c, []))
   \<and> (\<not> js_truthy (arg_of entries ''tableName'') \<longrightarrow>
      halo_handler pf w c ''halopsa_table_info'' (Some entries)
        = (Returned \<lparr>tr_content = PlainText (''Error: Table name is required''), tr_isError = True\<rparr>, c, []))
   \<and> (js_truthy (arg_of entries ''filter'') \<and> (\<forall>s. arg_of entries ''filter'' \<noteq> JStr s) \<longrightarrow>
      halo_handler pf w c ''halopsa_list_tables'' (Some entries)
        = (Returned \<lparr>tr_content = PlainText (''Error: filter.replace is not a function''), tr_isError = True\<rparr>, c, []))
   \<and> (executeQuery w c (arg_of entries ''sql'') = (Inl e, c', log) \<longrightarrow>
      halo_handler pf w c ''halopsa_query'' (Some entries)
        = (Returned \<lparr>tr_content = PlainText (''Error: '' @ error_message e), tr_isError = True\<rparr>, c', log))
   \<and> (\<not> token_valid (h_accessToken c) (h_tokenExpiry c) (w_now w)
       \<and> w_token_reply w = NetworkError e \<longrightarrow>
      halo_handler pf w c ''halopsa_query'' (Some entries)
        = (Returned \<lparr>tr_content = PlainText (''Error: Failed to authenticate with HaloPSA: '' @ error_string e), tr_isError = True\<rparr>,
           c, [halo_token_request c]))
   \<and> (halo_authenticate w c = (Inr (), c', log) \<and> w_api_reply w = Response r \<and> \<not> resp_ok r \<longrightarrow>
      halo_handler pf w c ''halopsa_query'' (Some entries)
        = (Returned \<lparr>tr_content = PlainText (''Error: Failed to execute query: Error: Query execution failed: ''
                                             @ show_nat (resp_status r) @ '' - '' @ resp_body r), tr_isError = True\<rparr>,
           c', log @ [halo_report_request c' (arg_of entries ''sql'')]))
   \<and> (table_info_sql (arg_of entries ''tableName'') = Inr sql
       \<and> executeQuery w c (JStr sql) = (Inr result, c', log) \<and> report_rows result = None \<longrightarrow>
      halo_handler pf w c ''halopsa_table_info'' (Some entries)
        = (Returned \<lparr>tr_content = PlainText (''Error: Table '' @ js_String (arg_of entries ''tableName'')
                                             @ '' not found or has no columns''), tr_isError = True\<rparr>,
           c', log))
   \<and> (list_tables_sql (arg_of entries ''filter'') = Inr sql
       \<and> executeQuery w c (JStr sql) = (Inr result, c', log) \<and> shape_tables pf result = Inl e \<longrightarrow>
      halo_handler pf w c ''halopsa_list_tables'' (Some entries)
        = (Returned \<lparr>tr_content = PlainText (''Error: '' @ error_message e), tr_isError = True\<rparr>, c', log))
   \<and> (\<exists>resp c' log. halo_handler pf w c name a = (Returned resp, c', log))
   \<and> ((case ninjaClient of None \<Rightarrow> initializeClient env | Some cl \<Rightarrow> Inr cl) = Inr nc \<and> ninja_route name a = None \<longrightarrow>
      ninja_handler env methods ninjaClient name a
        = (Returned \<lparr>tr_content = PlainText (''Error: Unknown tool: '' @ name), tr_isError = False\<rparr>, Some nc))
   \<and> ((case ninjaClient of None \<Rightarrow> initializeClient env | Some cl \<Rightarrow> Inr cl) = Inr nc
       \<and> ninja_route name a = Some (m, actuals) \<and> methods nc m actuals = (Inl e, nc') \<longrightarrow>
      ninja_handler env methods ninjaClient name a
        = (Returned \<lparr>tr_content = PlainText (''Error: '' @ error_message e), tr_isError = False\<rparr>, Some nc'))
   \<and> ((case ninjaClient of None \<Rightarrow> initializeClient env | Some cl \<Rightarrow> Inr cl) = Inr nc
       \<and> ninja_route name a = Some (m, actuals) \<and> methods nc m actuals = (Inr result, nc') \<longrightarrow>
      ninja_handler env methods ninjaClient name a
        = (Returned \<lparr>tr_content = JsonText result, tr_isError = False\<rparr>, Some nc'))
   \<and> (ninjaClient \<noteq> None \<or> (env_truthy (env_clientId env) \<and> env_truthy (env_clientSecret env)) \<longrightarrow>
      (\<exists>resp st. ninja_handler env methods ninjaClient name a = (Returned resp, st)))
   \<and> (ninjaClient = None \<and> (\<not> env_truthy (env_clientId env) \<or> \<not> env_truthy (env_clientSecret env)) \<longrightarrow>
      ninja_handler env methods ninjaClient name a
        = (Thrown (Error ''NINJAONE_CLIENT_ID and NINJAONE_CLIENT_SECRET environment variables are required''), None))"
proof (intro conjI impI)
  assume "halo_dispatch pf w c name a = (Inl e, c', log)"
  then show "halo_handler pf w c name a
        = (Returned \<lparr>tr_content = PlainText (''Error: '' @ error_message e), tr_isError = True\<rparr>, c', log)"
    by (rule halo_handler_catches)
next
  assume "halo_dispatch pf w c name a = (Inr reply, c', log)"
  then show "halo_handler pf w c name a
        = (Returned \<lparr>tr_content = reply, tr_isError = False\<rparr>, c', log)"
    by (rule halo_handler_passes)
next
  assume "name \<notin> set halo_tool_names"
  then show "halo_handler pf w c name a
        = (Returned \<lparr>tr_content = PlainText (''Error: Unknown tool: '' @ name), tr_isError = True\<rparr>, c, [])"
    by (rule halo_unknown_tool)
next
  assume "(name, member) \<in> set [(''halopsa_list_tables'', ''filter''), (''halopsa_list_columns'', ''tableName''),
              (''halopsa_query'', ''sql''), (''halopsa_table_info'', ''tableName''),
              (''halopsa_build_query'', ''tableName'')]"
  then show "halo_handler pf w c name None
        = (Returned \<lparr>tr_content = PlainText (''Error: Cannot destructure property '' @ squote @ member @ squote @ '' of '' @ squote @ ''args'' @ squote @ '' as it is undefined.''), tr_isError = True\<rparr>, c, [])"
    by (rule halo_missing_bag)
next
  assume "\<not> js_truthy (arg_of entries ''tableName'')"
  then show "halo_handler pf w c ''halopsa_table_info'' (Some entries)
        = (Returned \<lparr>tr_content = PlainText (''Error: Table name is required''), tr_isError = True\<rparr>, c, [])"
    by (rule halo_table_name_required)
next
  assume "js_truthy (arg_of entries ''filter'') \<and> (\<forall>s. arg_of entries ''filter'' \<noteq> JStr s)"
  then show "halo_handler pf w c ''halopsa_list_tables'' (Some entries)
        = (Returned \<lparr>tr_content = PlainText (''Error: filter.replace is not a function''), tr_isError = True\<rparr>, c, [])"
    by (rule halo_filter_not_a_string)
next
  assume "executeQuery w c (arg_of entries ''sql'') = (Inl e, c', log)"
  then show "halo_handler pf w c ''halopsa_query'' (Some entries)
        = (Returned \<lparr>tr_content = PlainText (''Error: '' @ error_message e), tr_isError = True\<rparr>, c', log)"
    by (rule halo_query_failure)
next
  assume "\<not> token_valid (h_accessToken c) (h_tokenExpiry c) (w_now w)
       \<and> w_token_reply w = NetworkError e"
  then show "halo_handler pf w c ''halopsa_query'' (Some entries)
        = (Returned \<lparr>tr_content = PlainText (''Error: Failed to authenticate with HaloPSA: '' @ error_string e), tr_isError = True\<rparr>,
           c, [halo_token_request c])"
    by (rule halo_token_unreachable)
next
  assume "halo_authenticate w c = (Inr (), c', log) \<and> w_api_reply w = Response r \<and> \<not> resp_ok r"
  then show "halo_handler pf w c ''halopsa_query'' (Some entries)
        = (Returned \<lparr>tr_content = PlainText (''Error: Failed to execute query: Error: Query execution failed: ''
                                             @ show_nat (resp_status r) @ '' - '' @ resp_body r), tr_isError = True\<rparr>,
           c', log @ [halo_report_request c' (arg_of entries ''sql'')])"
    by (rule halo_report_refused)
next
  assume "table_info_sql (arg_of entries ''tableName'') = Inr sql
       \<and> executeQuery w c (JStr sql) = (Inr result, c', log) \<and> report_rows result = None"
  then show "halo_handler pf w c ''halopsa_table_info'' (Some entries)
        = (Returned \<lparr>tr_content = PlainText (''Error: Table '' @ js_String (arg_of entries ''tableName'')
                                             @ '' not found or has no columns''), tr_isError = True\<rparr>,
           c', log)"
    by (rule halo_table_not_found)
next
  assume "list_tables_sql (arg_of entries ''filter'') = Inr sql
       \<and> executeQuery w c (JStr sql) = (Inr result, c', log) \<and> shape_tables pf result = Inl e"
  then show "halo_handler pf w c ''halopsa_list_tables'' (Some entries)
        = (Returned \<lparr>tr_content = PlainText (''Error: '' @ error_message e), tr_isError = True\<rparr>, c', log)"
    by (rule halo_shaping_failure)
next
  show "(\<exists>resp c' log. halo_handler pf w c name a = (Returned resp, c', log))"
    by (rule halo_handler_returns)
next
  assume "(case ninjaClient of None \<Rightarrow> initializeClient env | Some cl \<Rightarrow> Inr cl) = Inr nc \<and> ninja_route name a = None"
  then show "ninja_handler env methods ninjaClient name a
        = (Returned \<lparr>tr_content = PlainText (''Error: Unknown tool: '' @ name), tr_isError = False\<rparr>, Some nc)"
    by (rule ninja_unknown_tool)
next
  assume "(case ninjaClient of None \<Rightarrow> initializeClient env | Some cl \<Rightarrow> Inr cl) = Inr nc
       \<and> ninja_route name a = Some (m, actuals) \<and> methods nc m actuals = (Inl e, nc')"
  then show "ninja_handler env methods ninjaClient name a
        = (Returned \<lparr>tr_content = PlainText (''Error: '' @ error_message e), tr_isError = False\<rparr>, Some nc')"
    by (rule ninja_method_failure)
next
  assume "(case ninjaClient of None \<Rightarrow> initializeClient env | Some cl \<Rightarrow> Inr cl) = Inr nc
       \<and> ninja_route name a = Some (m, actuals) \<and> methods nc m actuals = (Inr result, nc')"
  then show "ninja_handler env methods ninjaClient name a
        = (Returned \<lparr>tr_content = JsonText result, tr_isError = False\<rparr>, Some nc')"
    by (rule ninja_method_result)
next
  assume "ninjaClient \<noteq> None \<or> (env_truthy (env_clientId env) \<and> env_truthy (env_clientSecret env))"
  then show "(\<exists>resp st. ninja_handler env methods ninjaClient name a = (Returned resp, st))"
    by (rule ninja_handler_returns)
next
  assume "ninjaClient = None \<and> (\<not> env_truthy (env_clientId env) \<or> \<not> env_truthy (env_clientSecret env))"
  then show "ninja_handler env methods ninjaClient name a
        = (Thrown (Error ''NINJAONE_CLIENT_ID and NINJAONE_CLIENT_SECRET environment variables are required''), None)"
    by (rule ninja_handler_throws)
qed

theorem dispatch_boundary_witness:
  "halo_handler failing_platform sample_world sample_halo_client ''halopsa_table_info'' None
     = (Returned \<lparr>tr_content = PlainText (''Error: Cannot destructure property '' @ squote
                    @ ''tableName'' @ squote @ '' of '' @ squote @ ''args'' @ squote
                    @ '' as it is undefined.''),
                  tr_isError = True\<rparr>, sample_halo_client, [])
   \<and> halo_handler failing_platform sample_world sample_halo_client ''halopsa_table_info'' (Some [])
     = (Returned \<lparr>tr_content = PlainText ''Error: Table name is required'', tr_isError = True\<rparr>,
        sample_halo_client, [])
   \<and> halo_handler failing_platform sample_world sample_halo_client ''halopsa_list_tables''
        (Some [(''filter'', JNum 5)])
     = (Returned \<lparr>tr_content = PlainText ''Error: filter.replace is not a function'',
                  tr_isError = True\<rparr>, sample_halo_client, [])
   \<and> halo_handler failing_platform
        (sample_world\<lparr>w_token_reply := NetworkError (TypeError ''fetch failed'')\<rparr>)
        sample_halo_client ''halopsa_query'' (Some [(''sql'', JStr ''SELECT 1'')])
     = (Returned \<lparr>tr_content = PlainText
                    ''Error: Failed to authenticate with HaloPSA: TypeError: fetch failed'',
                  tr_isError = True\<rparr>,
        sample_halo_client, [halo_token_request sample_halo_client])
   \<and> ninja_handler sample_env failing_methods None ''ninjaone_get_device'' None
     = (Returned \<lparr>tr_content = PlainText ''Error: fetch failed'', tr_isError = False\<rparr>,
        Some (new_NinjaOneClient ''id'' ''secret'' ''us'' ''monitoring''))
   \<and> ninja_handler sample_env failing_methods None ''no_such_tool'' None
     = (Returned \<lparr>tr_content = PlainText ''Error: Unknown tool: no_such_tool'', tr_isError = False\<rparr>,
        Some (new_NinjaOneClient ''id'' ''secret'' ''us'' ''monitoring''))"
proof -
  let ?w = "sample_world\<lparr>w_token_reply := NetworkError (TypeError ''fetch failed'')\<rparr>"
  let ?nc = "new_NinjaOneClient ''id'' ''secret'' ''us'' ''monitoring''"
  note missing_bag = dispatch_boundary [where pf = failing_platform and w = sample_world and c = sample_halo_client
      and name = "''halopsa_table_info''" and member = "''tableName''",
      THEN conjunct2, THEN conjunct2, THEN conjunct2, THEN conjunct1]
  have "(''halopsa_table_info'', ''tableName'')
          \<in> set [(''halopsa_list_tables'', ''filter''), (''halopsa_list_columns'', ''tableName''),
                 (''halopsa_query'', ''sql''), (''halopsa_table_info'', ''tableName''),
                 (''halopsa_build_query'', ''tableName'')]"
    by simp
  with missing_bag have A: "halo_handler failing_platform sample_world sample_halo_client ''halopsa_table_info'' None
     = (Returned \<lparr>tr_content = PlainText (''Error: Cannot destructure property '' @ squote
                    @ ''tableName'' @ squote @ '' of '' @ squote @ ''args'' @ squote
                    @ '' as it is undefined.''),
                  tr_isError = True\<rparr>, sample_halo_client, [])"
    by (rule mp)
  note name_required = dispatch_boundary [where pf = failing_platform and w = sample_world and c = sample_halo_client
      and entries = "[]",
      THEN conjunct2, THEN conjunct2, THEN conjunct2, THEN conjunct2, THEN conjunct1]
  have "\<not> js_truthy (arg_of [] ''tableName'')"
    by (simp add: arg_of_def)
  with name_required have B: "halo_handler failing_platform sample_world sample_halo_client ''halopsa_table_info'' (Some [])
     = (Returned \<lparr>tr_content = PlainText ''Error: Table name is required'', tr_isError = True\<rparr>,
        sample_halo_client, [])"
    by (rule mp)
  note not_a_string = dispatch_boundary [where pf = failing_platform and w = sample_world and c = sample_halo_client
      and entries = "[(''filter'', JNum 5)]",
      THEN conjunct2, THEN conjunct2, THEN conjunct2, THEN conjunct2, THEN conjunct2, THEN conjunct1]
  have "js_truthy (arg_of [(''filter'', JNum 5)] ''filter'')
        \<and> (\<forall>s. arg_of [(''filter'', JNum 5)] ''filter'' \<noteq> JStr s)"
    by (simp add: arg_of_def)
  with not_a_string have C: "halo_handler failing_platform sample_world sample_halo_client ''halopsa_list_tables''
        (Some [(''filter'', JNum 5)])
     = (Returned \<lparr>tr_content = PlainText ''Error: filter.replace is not a function'',
                  tr_isError = True\<rparr>, sample_halo_client, [])"
    by (rule mp)
  note unreachable = dispatch_boundary [where pf = failing_platform and w = ?w and c = sample_halo_client
      and e = "TypeError ''fetch failed''" and entries = "[(''sql'', JStr ''SELECT 1'')]",
      THEN conjunct2, THEN conjunct2, THEN conjunct2, THEN conjunct2, THEN conjunct2, THEN conjunct2, THEN conjunct2, THEN conjunct1]
  have "\<not> token_valid (h_accessToken sample_halo_client) (h_tokenExpiry sample_halo_client)
            (w_now ?w)
        \<and> w_token_reply ?w = NetworkError (TypeError ''fetch failed'')"
    by (simp add: sample_halo_client_def token_valid_def)
  with unreachable have "halo_handler failing_platform ?w sample_halo_client ''halopsa_query''
        (Some [(''sql'', JStr ''SELECT 1'')])
     = (Returned \<lparr>tr_content = PlainText (''Error: Failed to authenticate with HaloPSA: ''
                                             @ error_string (TypeError ''fetch failed'')),
                  tr_isError = True\<rparr>,
        sample_halo_client, [halo_token_request sample_halo_client])"
    by (rule mp)
  then have F: "halo_handler failing_platform
        (sample_world\<lparr>w_token_reply := NetworkError (TypeError ''fetch failed'')\<rparr>)
        sample_halo_client ''halopsa_query'' (Some [(''sql'', JStr ''SELECT 1'')])
     = (Returned \<lparr>tr_content = PlainText
                    ''Error: Failed to authenticate with HaloPSA: TypeError: fetch failed'',
                  tr_isError = True\<rparr>,
        sample_halo_client, [halo_token_request sample_halo_client])"
    by simp
  have client: "(case None of None \<Rightarrow> initializeClient sample_env | Some cl \<Rightarrow> Inr cl) = Inr ?nc"
    by (simp add: initializeClient_def sample_env_def env_truthy_def or_default_def)
  have route: "ninja_route ''ninjaone_get_device'' None = Some (''getDevice'', [JUndefined])"
    "ninja_route ''no_such_tool'' None = None"
    by (simp_all add: ninja_route_def getArg_def)
  note method_failure = dispatch_boundary [where env = sample_env and methods = failing_methods and ninjaClient = None
      and name = "''ninjaone_get_device''" and a = None and nc = ?nc and m = "''getDevice''"
      and actuals = "[JUndefined]" and e = "TypeError ''fetch failed''" and nc' = ?nc,
      THEN conjunct2, THEN conjunct2, THEN conjunct2, THEN conjunct2, THEN conjunct2, THEN conjunct2, THEN conjunct2, THEN conjunct2, THEN conjunct2, THEN conjunct2, THEN conjunct2, THEN conjunct2, THEN conjunct2, THEN conjunct1]
  have "(case None of None \<Rightarrow> initializeClient sample_env | Some cl \<Rightarrow> Inr cl) = Inr ?nc
        \<and> ninja_route ''ninjaone_get_device'' None = Some (''getDevice'', [JUndefined])
        \<and> failing_methods ?nc ''getDevice'' [JUndefined] = (Inl (TypeError ''fetch failed''), ?nc)"
    using client route(1) by (simp add: failing_methods_def)
  with method_failure have "ninja_handler sample_env failing_methods None ''ninjaone_get_device'' None
     = (Returned \<lparr>tr_content = PlainText (''Error: '' @ error_message (TypeError ''fetch failed'')),
                  tr_isError = False\<rparr>, Some ?nc)"
    by (rule mp)
  then have D: "ninja_handler sample_env failing_methods None ''ninjaone_get_device'' None
     = (Returned \<lparr>tr_content = PlainText ''Error: fetch failed'', tr_isError = False\<rparr>,
        Some (new_NinjaOneClient ''id'' ''secret'' ''us'' ''monitoring''))"
    by simp
  note unknown_tool = dispatch_boundary [where env = sample_env and methods = failing_methods and ninjaClient = None
      and name = "''no_such_tool''" and a = None and nc = ?nc,
      THEN conjunct2, THEN conjunct2, THEN conjunct2, THEN conjunct2, THEN conjunct2, THEN conjunct2, THEN conjunct2, THEN conjunct2, THEN conjunct2, THEN conjunct2, THEN conjunct2, THEN conjunct2, THEN conjunct1]
  from client route(2)
  have "(case None of None \<Rightarrow> initializeClient sample_env | Some cl \<Rightarrow> Inr cl) = Inr ?nc
        \<and> ninja_route ''no_such_tool'' None = None"
    by simp
  with unknown_tool have "ninja_handler sample_env failing_methods None ''no_such_tool'' None
     = (Returned \<lparr>tr_content = PlainText (''Error: Unknown tool: '' @ ''no_such_tool''),
                  tr_isError = False\<rparr>, Some ?nc)"
    by (rule mp)
  then have E: "ninja_handler sample_env failing_methods None ''no_such_tool'' None
     = (Returned \<lparr>tr_content = PlainText ''Error: Unknown tool: no_such_tool'', tr_isError = False\<rparr>,
        Some (new_NinjaOneClient ''id'' ''secret'' ''us'' ''monitoring''))"
    by simp
  from A B C F D E show ?thesis
    by (intro conjI)
qed

text \<open>
  The claim as stated fails for the NinjaOne handler: on the first call with no
  credentials in the environment the handler throws.
\<close>

theorem missing_credentials_escape:
  "ninja_handler empty_env failing_methods None ''ninjaone_get_policies'' (Some [])
   = (Thrown (Error ''NINJAONE_CLIENT_ID and NINJAONE_CLIENT_SECRET environment variables are required''),
      None)"
  by (simp add: ninja_handler_def initializeClient_def empty_env_def env_truthy_def)
end
